theory Spec2Isabelle
  imports
    Complex_Main
    "HOL-Library.Char_ord"
    "HOL-Library.List_Lexorder"
    "HOL-Library.Product_Lexorder"
begin

section \<open>JavaScript values and strings\<close>

text \<open>
  Strings are byte lists; the character classes below are the ASCII part of the
  JavaScript ones. Dates are milliseconds since the epoch. A request field that is
  absent (\<open>undefined\<close>) is \<open>None\<close>.
\<close>

type_synonym timestamp = nat

text \<open>The whitespace of \<open>\s\<close> and of \<open>String.prototype.trim\<close>: TAB, LF, VT, FF, CR, SPACE.\<close>

definition is_space :: "char \<Rightarrow> bool" where
  "is_space c = (let n = (of_char c :: nat) in (9 \<le> n \<and> n \<le> 13) \<or> n = 32)"

definition is_digit :: "char \<Rightarrow> bool" where
  "is_digit c = (let n = (of_char c :: nat) in 48 \<le> n \<and> n \<le> 57)"

definition is_lower :: "char \<Rightarrow> bool" where
  "is_lower c = (let n = (of_char c :: nat) in 97 \<le> n \<and> n \<le> 122)"

definition is_upper :: "char \<Rightarrow> bool" where
  "is_upper c = (let n = (of_char c :: nat) in 65 \<le> n \<and> n \<le> 90)"

definition toLowerCase_char :: "char \<Rightarrow> char" where
  "toLowerCase_char c = (if is_upper c then char_of ((of_char c :: nat) + 32) else c)"

definition toLowerCase :: "string \<Rightarrow> string" where
  "toLowerCase s = map toLowerCase_char s"

definition trim :: "string \<Rightarrow> string" where
  "trim s = rev (dropWhile is_space (rev (dropWhile is_space s)))"

text \<open>Truthiness of an optional string: \<open>undefined\<close> and the empty string are falsy.\<close>

definition truthy :: "string option \<Rightarrow> bool" where
  "truthy v = (case v of None \<Rightarrow> False | Some s \<Rightarrow> s \<noteq> [])"

text \<open>The regular expression \<open>/^[a-z0-9-]+$/\<close> of the slug validators.\<close>

definition slug_pattern :: "string \<Rightarrow> bool" where
  "slug_pattern s = (s \<noteq> [] \<and> list_all (\<lambda>c. is_lower c \<or> is_digit c \<or> c = CHR ''-'') s)"

section \<open>Slug derivation\<close>

text \<open>
  Every call site passes the same options to the \<open>slugify\<close> package:
  \<^verbatim>\<open>slugify(name, { lower: true, strict: true, remove: /[*+~.()'"!:@]/g })\<close>.
  The package maps each character through its character table, turns the replacement
  character \<open>-\<close> into a space, deletes the characters of \<open>remove\<close>, in strict mode deletes
  everything outside \<open>[A-Za-z0-9\s]\<close>, trims, replaces each run of whitespace by one
  \<open>-\<close> and lowercases. \<open>charMap\<close> is the ASCII part of the package's table.
\<close>

definition charMap :: "char \<Rightarrow> string" where
  "charMap ch =
     (if ch = CHR ''$'' then ''dollar''
      else if ch = CHR ''%'' then ''percent''
      else if ch = CHR ''&'' then ''and''
      else if ch = CHR ''<'' then ''less''
      else if ch = CHR ''>'' then ''greater''
      else if ch = CHR ''|'' then ''or''
      else [ch])"

definition remove_set :: "char list" where
  "remove_set = [CHR ''*'', CHR ''+'', CHR ''~'', CHR ''.'', CHR ''('', CHR '')'',
                 CHR 0x27, CHR 0x22, CHR ''!'', CHR '':'', CHR ''@'']"

definition appendChar :: "char \<Rightarrow> string" where
  "appendChar ch =
     (let a = charMap ch;
          a' = (if a = ''-'' then '' '' else a)
      in filter (\<lambda>c. c \<notin> set remove_set) a')"

definition strict_char :: "char \<Rightarrow> bool" where
  "strict_char c = (is_upper c \<or> is_lower c \<or> is_digit c \<or> is_space c)"

function replace_spaces :: "string \<Rightarrow> string" where
  "replace_spaces [] = []"
| "replace_spaces (c # cs) =
     (if is_space c then CHR ''-'' # replace_spaces (dropWhile is_space cs)
      else c # replace_spaces cs)"
  by pat_completeness auto
termination
  by (relation "measure length") (auto simp: le_imp_less_Suc length_dropWhile_le)

definition slugify :: "string \<Rightarrow> string" where
  "slugify s =
     toLowerCase (replace_spaces (trim (filter strict_char (concat (map appendChar s)))))"

section \<open>Responses and the error handler\<close>

datatype message = Msg string | Msgs "string list"

record 'a response =
  status :: nat
  success :: bool
  message :: "message option"
  data :: "'a option"

text \<open>Errors that reach \<open>next(error)\<close>, by the \<open>name\<close> the error handler looks at.\<close>

datatype error =
    SequelizeValidationError "string list"
  | SequelizeUniqueConstraintError "string list"
  | SequelizeForeignKeyConstraintError
  | SequelizeDatabaseError string
  | Error string

definition errorHandler :: "error \<Rightarrow> 'a response" where
  "errorHandler err =
     (case err of
        SequelizeValidationError ms \<Rightarrow>
          \<lparr>status = 400, success = False, message = Some (Msgs ms), data = None\<rparr>
      | SequelizeUniqueConstraintError ms \<Rightarrow>
          \<lparr>status = 400, success = False, message = Some (Msgs ms), data = None\<rparr>
      | SequelizeForeignKeyConstraintError \<Rightarrow>
          \<lparr>status = 400, success = False,
           message = Some (Msg ''Reference error: Invalid foreign key''), data = None\<rparr>
      | SequelizeDatabaseError m \<Rightarrow>
          \<lparr>status = 500, success = False,
           message = Some (Msg (if m = [] then ''Server Error'' else m)), data = None\<rparr>
      | Error m \<Rightarrow>
          \<lparr>status = 500, success = False,
           message = Some (Msg (if m = [] then ''Server Error'' else m)), data = None\<rparr>)"

definition json_response :: "nat \<Rightarrow> bool \<Rightarrow> string \<Rightarrow> 'a option \<Rightarrow> 'a response" where
  "json_response st ok m d = \<lparr>status = st, success = ok, message = Some (Msg m), data = d\<rparr>"

text \<open>
  Modelled from the spec: \<open>handleValidationErrors\<close> of \<open>middleware/validation\<close>, which is
  not among the sources. The spec (4.1, 7): a validation failure is a 400-class outcome
  carrying one message per violated rule, and the store is not touched.
\<close>

definition handleValidationErrors :: "string list \<Rightarrow> 'a response option" where
  "handleValidationErrors errs =
     (if errs = [] then None
      else Some \<lparr>status = 400, success = False, message = Some (Msgs errs), data = None\<rparr>)"

section \<open>Pagination envelope\<close>

text \<open>Decimal rendering of an integer inside the page links.\<close>

fun digits_of :: "nat \<Rightarrow> string" where
  "digits_of n =
     (if n < 10 then [char_of (48 + n)]
      else digits_of (n div 10) @ [char_of (48 + n mod 10)])"

definition toString :: "int \<Rightarrow> string" where
  "toString i = (if i < 0 then CHR ''-'' # digits_of (nat (- i)) else digits_of (nat i))"

text \<open>
  \<open>Math.ceil(count / limit)\<close>: the quotient of two integers, which is not finite when
  the limit is 0.
\<close>

datatype js_number = Num int | PosInfinity | NegInfinity | NaN

definition Math_ceil_div :: "int \<Rightarrow> int \<Rightarrow> js_number" where
  "Math_ceil_div c l =
     (if l = 0 then (if c = 0 then NaN else if c > 0 then PosInfinity else NegInfinity)
      else Num \<lceil>(of_int c :: rat) / of_int l\<rceil>)"

definition js_less :: "int \<Rightarrow> js_number \<Rightarrow> bool" where
  "js_less i x = (case x of Num j \<Rightarrow> i < j | PosInfinity \<Rightarrow> True | NegInfinity \<Rightarrow> False | NaN \<Rightarrow> False)"

text \<open>
  \<open>route\<close> is \<open>protocol://host + baseUrl + path\<close> of the request. \<open>page\<close> and \<open>limit\<close>
  are the integer values of the query parameters (1 and 10 when absent).
\<close>

definition page_url :: "string \<Rightarrow> int \<Rightarrow> int \<Rightarrow> string" where
  "page_url route p l = route @ ''?page='' @ toString p @ ''&limit='' @ toString l"

record pagination =
  currentPage :: int
  totalPages :: js_number
  totalItems :: int
  itemsPerPage :: int
  hasNext :: bool
  hasPrev :: bool
  nextPageUrl :: "string option"
  prevPageUrl :: "string option"

record 'r page =
  rows :: "'r list"
  page_info :: pagination

definition make_pagination :: "string \<Rightarrow> int \<Rightarrow> int \<Rightarrow> int \<Rightarrow> pagination" where
  "make_pagination route pg limit count =
     \<lparr>currentPage = pg,
      totalPages = Math_ceil_div count limit,
      totalItems = count,
      itemsPerPage = limit,
      hasNext = js_less pg (Math_ceil_div count limit),
      hasPrev = (pg > 1),
      nextPageUrl = (if js_less pg (Math_ceil_div count limit)
                     then Some (page_url route (pg + 1) limit) else None),
      prevPageUrl = (if pg > 1 then Some (page_url route (pg - 1) limit) else None)\<rparr>"

section \<open>Entities and the store\<close>

text \<open>
  The four tables. Every model is \<open>paranoid\<close> with timestamps, so Sequelize adds
  \<open>createdAt\<close>, \<open>updatedAt\<close> and the soft-delete marker \<open>deletedAt\<close> (NULL while alive).
  DECIMAL columns hold exact decimals, modelled as rationals; the driver hands them to
  JavaScript as strings.
\<close>

record category =
  cat_id :: nat
  cat_name :: string
  cat_slug :: string
  cat_description :: "string option"
  cat_isActive :: bool
  cat_createdAt :: timestamp
  cat_updatedAt :: timestamp
  cat_deletedAt :: "timestamp option"

record product =
  p_id :: nat
  p_categoryId :: nat
  p_name :: string
  p_slug :: string
  p_description :: string
  p_shortDescription :: "string option"
  p_price :: rat
  p_quantity :: rat
  p_unitType :: string
  p_minQuantity :: "rat option"
  p_maxQuantity :: "rat option"
  p_manufactureDate :: "timestamp option"
  p_expiryDate :: "timestamp option"
  p_barcode :: "string option"
  p_inStock :: bool
  p_lowStockThreshold :: "rat option"
  p_weight :: "rat option"
  p_dimensions :: "string option"
  p_brand :: "string option"
  p_isActive :: bool
  p_createdAt :: timestamp
  p_updatedAt :: timestamp
  p_deletedAt :: "timestamp option"

record user =
  u_id :: nat
  u_email :: string
  u_password :: string
  u_accountType :: string
  u_authProvider :: string
  u_isActive :: bool
  u_lastPasswordChange :: "timestamp option"
  u_createdAt :: timestamp
  u_updatedAt :: timestamp
  u_deletedAt :: "timestamp option"

record adminProfile =
  ap_id :: nat
  ap_userId :: nat
  ap_firstName :: string
  ap_lastName :: string
  ap_phoneNumber :: "string option"
  ap_address :: "string option"
  ap_city :: "string option"
  ap_bio :: "string option"
  ap_profilePicture :: "string option"
  ap_createdAt :: timestamp
  ap_updatedAt :: timestamp
  ap_deletedAt :: "timestamp option"

record db =
  categories :: "category list"
  products :: "product list"
  users :: "user list"
  adminProfiles :: "adminProfile list"

text \<open>The next value of an auto-increment key.\<close>

definition next_id :: "nat list \<Rightarrow> nat" where
  "next_id ids = Suc (fold max ids 0)"

text \<open>
  What \<open>instance.deletedAt\<close> evaluates to: \<open>undefined\<close> when the finder did not load the
  attribute, else \<open>null\<close> or a date.
\<close>

datatype js_date = Undefined | Null | Date timestamp

definition get_deletedAt :: "string list \<Rightarrow> timestamp option \<Rightarrow> js_date" where
  "get_deletedAt excluded d =
     (if ''deletedAt'' \<in> set excluded then Undefined
      else case d of None \<Rightarrow> Null | Some t \<Rightarrow> Date t)"

section \<open>Queries\<close>

text \<open>
  PostgreSQL \<open>ILIKE\<close> (the dialect of \<open>Op.iLike\<close>) with the wildcards \<open>%\<close> and \<open>_\<close>;
  the first argument is the pattern. The escape character is not modelled.
\<close>

fun like :: "string \<Rightarrow> string \<Rightarrow> bool" where
  "like [] t = (t = [])"
| "like (p # ps) [] = (p = CHR ''%'' \<and> like ps [])"
| "like (p # ps) (c # cs) =
     (if p = CHR ''%'' then like ps (c # cs) \<or> like (p # ps) cs
      else if p = CHR ''_'' then like ps cs
      else p = c \<and> like ps cs)"

definition iLike :: "string \<Rightarrow> string \<Rightarrow> bool" where
  "iLike pat t = like (toLowerCase pat) (toLowerCase t)"

definition iLike_opt :: "string \<Rightarrow> string option \<Rightarrow> bool" where
  "iLike_opt pat t = (case t of None \<Rightarrow> False | Some s \<Rightarrow> iLike pat s)"

definition search_pattern :: "string \<Rightarrow> string" where
  "search_pattern search = ''%'' @ search @ ''%''"

text \<open>
  \<open>ORDER BY\<close> on one column: a stable sort on the column's key, reversed for \<open>DESC\<close>.
  Strings compare bytewise; NULL sorts above every value, as in PostgreSQL. Sequelize
  throws on a direction that is neither \<open>ASC\<close> nor \<open>DESC\<close> (its \<open>NULLS FIRST\<close> and
  \<open>NULLS LAST\<close> forms are not modelled).
\<close>

definition null_last :: "'a \<Rightarrow> 'a option \<Rightarrow> nat \<times> 'a" where
  "null_last d v = (case v of None \<Rightarrow> (1, d) | Some x \<Rightarrow> (0, x))"

definition toUpperCase_char :: "char \<Rightarrow> char" where
  "toUpperCase_char c = (if is_lower c then char_of ((of_char c :: nat) - 32) else c)"

definition toUpperCase :: "string \<Rightarrow> string" where
  "toUpperCase s = map toUpperCase_char s"

definition order_by :: "('r \<Rightarrow> 'k::linorder) \<Rightarrow> string \<Rightarrow> 'r list \<Rightarrow> error + 'r list" where
  "order_by key dir xs =
     (if dir = ''ASC'' then Inr (sort_key key xs)
      else if dir = ''DESC'' then Inr (rev (sort_key key xs))
      else Inl (Error ''Order must be ASC or DESC''))"

text \<open>\<open>LIMIT\<close> and \<open>OFFSET\<close>: PostgreSQL rejects a negative value.\<close>

definition limit_offset :: "int \<Rightarrow> int \<Rightarrow> 'r list \<Rightarrow> error + 'r list" where
  "limit_offset limit offset xs =
     (if limit < 0 then Inl (SequelizeDatabaseError ''LIMIT must not be negative'')
      else if offset < 0 then Inl (SequelizeDatabaseError ''OFFSET must not be negative'')
      else Inr (take (nat limit) (drop (nat offset) xs)))"

definition findOne_of :: "'r list \<Rightarrow> 'r option" where
  "findOne_of xs = (case xs of [] \<Rightarrow> None | x # _ \<Rightarrow> Some x)"

section \<open>Category model\<close>

text \<open>
  A \<open>where\<close> object over the columns the code filters on. \<open>cw_not_id\<close> is
  \<open>[Op.not]: { id }\<close>, \<open>cw_search\<close> the \<open>Op.or\<close> of \<open>iLike\<close> terms on name, slug and
  description.
\<close>

record category_where =
  cw_id :: "nat option"
  cw_name :: "string option"
  cw_slug :: "string option"
  cw_isActive :: "bool option"
  cw_not_id :: "nat option"
  cw_search :: "string option"

definition category_where_all :: category_where where
  "category_where_all =
     \<lparr>cw_id = None, cw_name = None, cw_slug = None, cw_isActive = None,
      cw_not_id = None, cw_search = None\<rparr>"

definition opt_eq :: "'a option \<Rightarrow> 'a \<Rightarrow> bool" where
  "opt_eq cond v = (case cond of None \<Rightarrow> True | Some x \<Rightarrow> v = x)"

definition opt_neq :: "'a option \<Rightarrow> 'a \<Rightarrow> bool" where
  "opt_neq cond v = (case cond of None \<Rightarrow> True | Some x \<Rightarrow> v \<noteq> x)"

definition Category_matches :: "category_where \<Rightarrow> category \<Rightarrow> bool" where
  "Category_matches w c =
     (opt_eq (cw_id w) (cat_id c) \<and> opt_eq (cw_name w) (cat_name c) \<and>
      opt_eq (cw_slug w) (cat_slug c) \<and> opt_eq (cw_isActive w) (cat_isActive c) \<and>
      opt_neq (cw_not_id w) (cat_id c) \<and>
      (case cw_search w of None \<Rightarrow> True
       | Some s \<Rightarrow> iLike (search_pattern s) (cat_name c) \<or> iLike (search_pattern s) (cat_slug c)
                  \<or> iLike_opt (search_pattern s) (cat_description c)))"

text \<open>
  \<open>defaultScope: { where: { isActive: true }, attributes: { exclude: [createdAt,
  updatedAt, deletedAt] } }\<close>. Sequelize merges the scope into the options of every
  finder: a key of the caller's \<open>where\<close> wins over the scope's, and the excluded
  attributes are not loaded into the instance.
\<close>

definition Category_injectScope :: "category_where \<Rightarrow> category_where" where
  "Category_injectScope w = (if cw_isActive w = None then w\<lparr>cw_isActive := Some True\<rparr> else w)"

definition Category_scope_exclude :: "string list" where
  "Category_scope_exclude = [''createdAt'', ''updatedAt'', ''deletedAt'']"

definition not_deleted :: "bool \<Rightarrow> timestamp option \<Rightarrow> bool" where
  "not_deleted paranoid d = (if paranoid then d = None else True)"

definition Category_findAll :: "db \<Rightarrow> category_where \<Rightarrow> bool \<Rightarrow> category list" where
  "Category_findAll st w paranoid =
     filter (\<lambda>c. Category_matches (Category_injectScope w) c
                 \<and> not_deleted paranoid (cat_deletedAt c)) (categories st)"

definition Category_findOne :: "db \<Rightarrow> category_where \<Rightarrow> bool \<Rightarrow> category option" where
  "Category_findOne st w paranoid = findOne_of (Category_findAll st w paranoid)"

definition Category_order :: "string \<Rightarrow> string \<Rightarrow> category list \<Rightarrow> error + category list" where
  "Category_order col dir xs =
     (if col = ''id'' then order_by cat_id dir xs
      else if col = ''name'' then order_by cat_name dir xs
      else if col = ''slug'' then order_by cat_slug dir xs
      else if col = ''description'' then order_by (\<lambda>c. null_last [] (cat_description c)) dir xs
      else if col = ''isActive'' then order_by cat_isActive dir xs
      else if col = ''createdAt'' then order_by cat_createdAt dir xs
      else if col = ''updatedAt'' then order_by cat_updatedAt dir xs
      else if col = ''deletedAt'' then order_by (\<lambda>c. null_last 0 (cat_deletedAt c)) dir xs
      else Inl (SequelizeDatabaseError (''column '' @ col @ '' does not exist'')))"

text \<open>\<open>findAndCountAll\<close>: the count ignores limit and offset.\<close>

definition Category_findAndCountAll ::
  "db \<Rightarrow> category_where \<Rightarrow> int \<Rightarrow> int \<Rightarrow> string \<Rightarrow> string \<Rightarrow> bool
     \<Rightarrow> error + (int \<times> category list)" where
  "Category_findAndCountAll st w limit offset col dir paranoid =
     (let found = Category_findAll st w paranoid in
      case Category_order col dir found of
        Inl e \<Rightarrow> Inl e
      | Inr ordered \<Rightarrow>
          (case limit_offset limit offset ordered of
             Inl e \<Rightarrow> Inl e
           | Inr rs \<Rightarrow> Inr (int (length found), rs)))"

text \<open>The request body of the category routes and the \<open>dataValues\<close> of an instance.\<close>

record category_body =
  b_name :: "string option"
  b_slug :: "string option"
  b_description :: "string option"
  b_isActive :: "bool option"

record category_values =
  cv_name :: "string option"
  cv_slug :: "string option"
  cv_description :: "string option"
  cv_isActive :: bool

definition Category_defaults :: category_values where
  "Category_defaults = \<lparr>cv_name = None, cv_slug = None, cv_description = None, cv_isActive = True\<rparr>"

definition Category_values_of :: "category \<Rightarrow> category_values" where
  "Category_values_of c =
     \<lparr>cv_name = Some (cat_name c), cv_slug = Some (cat_slug c),
      cv_description = cat_description c, cv_isActive = cat_isActive c\<rparr>"

text \<open>
  The custom setter of \<open>name\<close>: store the trimmed value and, when the instance has no
  slug yet, the slug derived from the value.
\<close>

definition Category_set_name :: "string \<Rightarrow> category_values \<Rightarrow> category_values" where
  "Category_set_name v0 vals =
     (let vals' = vals\<lparr>cv_name := Some (trim v0)\<rparr>;
          slug = slugify v0
      in if \<not> truthy (cv_slug vals') then vals'\<lparr>cv_slug := Some slug\<rparr> else vals')"

text \<open>
  \<open>instance.set(values)\<close>: one assignment per key of the body, \<open>name\<close> through its
  setter. The keys are taken in the order name, slug, description, isActive; a body that
  lists \<open>slug\<close> before \<open>name\<close> gives the same values once \<open>beforeValidate\<close> has run.
\<close>

definition Category_set :: "category_body \<Rightarrow> category_values \<Rightarrow> category_values" where
  "Category_set b vals =
     (let v1 = (case b_name b of None \<Rightarrow> vals | Some n \<Rightarrow> Category_set_name n vals);
          v2 = (case b_slug b of None \<Rightarrow> v1 | Some s \<Rightarrow> v1\<lparr>cv_slug := Some s\<rparr>);
          v3 = (case b_description b of None \<Rightarrow> v2 | Some d \<Rightarrow> v2\<lparr>cv_description := Some d\<rparr>);
          v4 = (case b_isActive b of None \<Rightarrow> v3 | Some a \<Rightarrow> v3\<lparr>cv_isActive := a\<rparr>)
      in v4)"

definition Category_beforeValidate :: "category_values \<Rightarrow> category_values" where
  "Category_beforeValidate vals =
     (let v1 = (case cv_name vals of
                  None \<Rightarrow> vals
                | Some n \<Rightarrow> if n \<noteq> [] \<and> \<not> truthy (cv_slug vals)
                            then vals\<lparr>cv_slug := Some (slugify n)\<rparr> else vals);
          v2 = (case cv_slug v1 of
                  None \<Rightarrow> v1
                | Some s \<Rightarrow> if s \<noteq> [] then v1\<lparr>cv_slug := Some (toLowerCase s)\<rparr> else v1)
      in v2)"

text \<open>
  The attribute validators, run for the attributes in \<open>flds\<close> only (all of them on
  create, the saved ones on update). \<open>allowNull: false\<close> reports a missing value and
  skips the other validators of the attribute; \<open>notEmpty\<close> rejects a string of
  whitespace only.
\<close>

definition Category_validate_name :: "string option \<Rightarrow> string list" where
  "Category_validate_name v =
     (case v of
        None \<Rightarrow> [''Category.name cannot be null'']
      | Some n \<Rightarrow>
          (if list_all is_space n then [''Please provide a category name''] else []) @
          (if 1 \<le> length n \<and> length n \<le> 50 then []
           else [''Category name must be between 1 and 50 characters'']))"

definition Category_validate_slug :: "string option \<Rightarrow> string list" where
  "Category_validate_slug v =
     (case v of
        None \<Rightarrow> [''Category.slug cannot be null'']
      | Some s \<Rightarrow>
          (if slug_pattern s then [] else [''Invalid slug format'']) @
          (if list_all is_space s then [''Validation notEmpty on slug failed''] else []))"

definition Category_validate :: "string list \<Rightarrow> category_values \<Rightarrow> string list" where
  "Category_validate flds vals =
     (if ''name'' \<in> set flds then Category_validate_name (cv_name vals) else []) @
     (if ''slug'' \<in> set flds then Category_validate_slug (cv_slug vals) else [])"

definition Category_attributes :: "string list" where
  "Category_attributes = [''name'', ''slug'', ''description'', ''isActive'']"

text \<open>
  Constraints of the table, checked for the written attributes \<open>flds\<close>: \<open>name\<close> is
  \<open>VARCHAR(50)\<close>, \<open>slug\<close> is \<open>VARCHAR(100)\<close> with a unique index (over all rows,
  soft-deleted ones too). \<open>self\<close> is the id of the row being updated, 0 on insert.
\<close>

definition Category_constraints :: "db \<Rightarrow> nat \<Rightarrow> string list \<Rightarrow> string \<Rightarrow> string \<Rightarrow> error option" where
  "Category_constraints st self flds name slug =
     (if ''name'' \<in> set flds \<and> length name > 50
        then Some (SequelizeDatabaseError ''value too long for type character varying(50)'')
      else if ''slug'' \<in> set flds \<and> length slug > 100
        then Some (SequelizeDatabaseError ''value too long for type character varying(100)'')
      else if ''slug'' \<in> set flds
              \<and> list_ex (\<lambda>c. cat_slug c = slug \<and> cat_id c \<noteq> self) (categories st)
        then Some (SequelizeUniqueConstraintError [''This slug is already in use''])
      else None)"

text \<open>\<open>Category.create(body)\<close>: build, validate (with the hook), insert.\<close>

definition Category_create :: "timestamp \<Rightarrow> db \<Rightarrow> category_body \<Rightarrow> error + (category \<times> db)" where
  "Category_create now st b =
     (let vals = Category_beforeValidate (Category_set b Category_defaults);
          errs = Category_validate Category_attributes vals
      in if errs \<noteq> [] then Inl (SequelizeValidationError errs)
         else case (cv_name vals, cv_slug vals) of
           (Some name, Some slug) \<Rightarrow>
             (case Category_constraints st 0 Category_attributes name slug of
                Some e \<Rightarrow> Inl e
              | None \<Rightarrow>
                  (let c = \<lparr>cat_id = next_id (map cat_id (categories st)),
                            cat_name = name, cat_slug = slug,
                            cat_description = cv_description vals,
                            cat_isActive = cv_isActive vals,
                            cat_createdAt = now, cat_updatedAt = now, cat_deletedAt = None\<rparr>
                   in Inr (c, st\<lparr>categories := categories st @ [c]\<rparr>)))
         | _ \<Rightarrow> Inl (SequelizeValidationError errs))"

text \<open>
  \<open>UPDATE ... WHERE id = ?\<close>: the instance was loaded from the row it overwrites.
\<close>

definition Category_write :: "category \<Rightarrow> db \<Rightarrow> db" where
  "Category_write c st =
     st\<lparr>categories := map (\<lambda>r. if cat_id r = cat_id c then c else r) (categories st)\<rparr>"

text \<open>
  \<open>instance.update(body)\<close>: set the values, then save the attributes named by the body
  and those a setter changed. The validators see only these attributes. Nothing is
  written when no value differs from the loaded one; otherwise the saved attributes and
  \<open>updatedAt\<close> are written.
\<close>

definition Category_body_keys :: "category_body \<Rightarrow> string list" where
  "Category_body_keys b =
     (if b_name b \<noteq> None then [''name''] else []) @
     (if b_slug b \<noteq> None then [''slug''] else []) @
     (if b_description b \<noteq> None then [''description''] else []) @
     (if b_isActive b \<noteq> None then [''isActive''] else [])"

definition Category_update :: "timestamp \<Rightarrow> db \<Rightarrow> category \<Rightarrow> category_body \<Rightarrow> error + (category \<times> db)" where
  "Category_update now st c b =
     (let old = Category_values_of c;
          set_vals = Category_set b old;
          flds = Category_body_keys b @
                   (if cv_slug set_vals \<noteq> cv_slug old \<and> b_slug b = None then [''slug''] else []);
          vals = Category_beforeValidate set_vals;
          errs = Category_validate flds vals
      in if errs \<noteq> [] then Inl (SequelizeValidationError errs)
         else if flds = [] \<or> vals = old then Inr (c, st)
         else
           (let name = (if ''name'' \<in> set flds then (case cv_name vals of Some n \<Rightarrow> n | None \<Rightarrow> cat_name c)
                        else cat_name c);
                slug = (if ''slug'' \<in> set flds then (case cv_slug vals of Some s \<Rightarrow> s | None \<Rightarrow> cat_slug c)
                        else cat_slug c)
            in case Category_constraints st (cat_id c) flds name slug of
                 Some e \<Rightarrow> Inl e
               | None \<Rightarrow>
                   (let c' = c\<lparr>cat_name := name, cat_slug := slug,
                               cat_description := (if ''description'' \<in> set flds
                                                   then cv_description vals else cat_description c),
                               cat_isActive := (if ''isActive'' \<in> set flds
                                                then cv_isActive vals else cat_isActive c),
                               cat_updatedAt := now\<rparr>
                    in Inr (c', Category_write c' st))))"

text \<open>
  \<open>instance.destroy()\<close> of a paranoid model sets \<open>deletedAt\<close> unless the instance already
  holds a date, and saves with \<open>hooks: false\<close>. \<open>instance.restore()\<close> sets \<open>deletedAt\<close>
  to null and saves with \<open>hooks: false\<close>; the save writes only when the value differs
  from the one the instance was loaded with.
\<close>

definition Category_destroy :: "timestamp \<Rightarrow> db \<Rightarrow> category \<Rightarrow> category \<times> db" where
  "Category_destroy now st c =
     (case get_deletedAt Category_scope_exclude (cat_deletedAt c) of
        Date t \<Rightarrow> (c, st)
      | _ \<Rightarrow> (let c' = c\<lparr>cat_deletedAt := Some now, cat_updatedAt := now\<rparr>
             in (c', Category_write c' st)))"

definition Category_restore :: "timestamp \<Rightarrow> db \<Rightarrow> category \<Rightarrow> category \<times> db" where
  "Category_restore now st c =
     (case get_deletedAt Category_scope_exclude (cat_deletedAt c) of
        Null \<Rightarrow> (c, st)
      | _ \<Rightarrow> (let c' = c\<lparr>cat_deletedAt := None, cat_updatedAt := now\<rparr>
             in (c', Category_write c' st)))"

section \<open>Category controller\<close>

definition createCategory :: "timestamp \<Rightarrow> db \<Rightarrow> category_body \<Rightarrow> category response \<times> db" where
  "createCategory now st body =
     (case Category_create now st body of
        Inr (category, st') \<Rightarrow>
          (json_response 201 True ''Category created successfully'' (Some category), st')
      | Inl e \<Rightarrow> (errorHandler e, st))"

text \<open>
  The query string of a list request. \<open>page\<close> and \<open>limit\<close> are the integers the
  parameters denote; the other parameters are the strings Express passes on.
\<close>

record category_query =
  q_page :: "int option"
  q_limit :: "int option"
  q_search :: "string option"
  q_isActive :: "string option"
  q_includeInactive :: "string option"
  q_includeDeleted :: "string option"
  q_sortBy :: "string option"
  q_sortOrder :: "string option"

definition default_to :: "'a \<Rightarrow> 'a option \<Rightarrow> 'a" where
  "default_to d v = (case v of None \<Rightarrow> d | Some x \<Rightarrow> x)"

text \<open>The \<open>where\<close> clause a list request builds.\<close>

definition category_list_where :: "category_query \<Rightarrow> category_where" where
  "category_list_where q =
     (let w0 = category_where_all;
          w1 = (case q_isActive q of
                  Some a \<Rightarrow> w0\<lparr>cw_isActive := Some (a = ''true'')\<rparr>
                | None \<Rightarrow> if \<not> truthy (q_includeInactive q)
                          then w0\<lparr>cw_isActive := Some True\<rparr> else w0);
          w2 = (if truthy (q_search q) then w1\<lparr>cw_search := q_search q\<rparr> else w1)
      in w2)"

definition getAllCategories :: "string \<Rightarrow> db \<Rightarrow> category_query \<Rightarrow> category page response" where
  "getAllCategories route st q =
     (let pg = default_to 1 (q_page q);
          limit = default_to 10 (q_limit q);
          sortBy = default_to ''name'' (q_sortBy q);
          sortOrder = default_to ''ASC'' (q_sortOrder q);
          offset = (pg - 1) * limit
      in case Category_findAndCountAll st (category_list_where q) limit offset sortBy
                (toUpperCase sortOrder) (\<not> truthy (q_includeDeleted q)) of
           Inl e \<Rightarrow> errorHandler e
         | Inr (count, rs) \<Rightarrow>
             \<lparr>status = 200, success = True, message = None,
              data = Some \<lparr>rows = rs,
                           page_info = make_pagination route pg limit count\<rparr>\<rparr>)"

definition getCategoryById :: "db \<Rightarrow> nat \<Rightarrow> category response" where
  "getCategoryById st rid =
     (case Category_findOne st (category_where_all\<lparr>cw_id := Some rid\<rparr>) True of
        None \<Rightarrow> json_response 404 False ''Category not found'' None
      | Some category \<Rightarrow> \<lparr>status = 200, success = True, message = None, data = Some category\<rparr>)"

definition updateCategory :: "timestamp \<Rightarrow> db \<Rightarrow> nat \<Rightarrow> category_body \<Rightarrow> category response \<times> db" where
  "updateCategory now st rid body =
     (let updateData =
            (case b_name body of
               Some n \<Rightarrow> if n \<noteq> [] \<and> \<not> truthy (b_slug body)
                         then body\<lparr>b_slug := Some (slugify n)\<rparr> else body
             | None \<Rightarrow> body)
      in case Category_findOne st (category_where_all\<lparr>cw_id := Some rid\<rparr>) True of
           None \<Rightarrow> (json_response 404 False ''Category not found'' None, st)
         | Some category \<Rightarrow>
             (case Category_update now st category updateData of
                Inl e \<Rightarrow> (errorHandler e, st)
              | Inr (category', st') \<Rightarrow>
                  (json_response 200 True ''Category updated successfully'' (Some category'), st')))"

definition deleteCategory :: "timestamp \<Rightarrow> db \<Rightarrow> nat \<Rightarrow> category response \<times> db" where
  "deleteCategory now st rid =
     (case Category_findOne st (category_where_all\<lparr>cw_id := Some rid\<rparr>) True of
        None \<Rightarrow> (json_response 404 False ''Category not found'' None, st)
      | Some category \<Rightarrow>
          (json_response 200 True ''Category deleted successfully'' None,
           snd (Category_destroy now st category)))"

definition restoreCategory :: "timestamp \<Rightarrow> db \<Rightarrow> nat \<Rightarrow> category response \<times> db" where
  "restoreCategory now st rid =
     (case Category_findOne st (category_where_all\<lparr>cw_id := Some rid\<rparr>) False of
        None \<Rightarrow> (json_response 404 False ''Category not found'' None, st)
      | Some category \<Rightarrow>
          if get_deletedAt Category_scope_exclude (cat_deletedAt category) = Null
          then (json_response 400 False ''Category is not deleted'' None, st)
          else (case Category_restore now st category of
                  (category', st') \<Rightarrow>
                    (json_response 200 True ''Category restored successfully'' (Some category'), st')))"

section \<open>Category request validation\<close>

text \<open>
  The chains of \<open>categoryValidations\<close>. The module builds the update list with
  \<open>categoryValidations.map((v) => v.optional())\<close>; \<open>optional()\<close> marks the chain itself, so
  the chains of the create list are the same, optional, objects: an absent field skips
  its chain. Every validator of a chain runs and adds its message; \<open>trim()\<close> replaces the
  value in the body. \<open>pid\<close> is \<open>req.params?.id || 0\<close>.
\<close>

definition validate_name :: "db \<Rightarrow> nat \<Rightarrow> string option \<Rightarrow> string list \<times> string option" where
  "validate_name st pid v =
     (case v of
        None \<Rightarrow> ([], None)
      | Some value \<Rightarrow>
          (let e1 = (if value = [] then [''Category name is required''] else []);
               value' = trim value;
               e2 = (if 1 \<le> length value' \<and> length value' \<le> 50 then []
                     else [''Category name must be between 1 and 50 characters'']);
               e3 = (case Category_findOne st
                            (category_where_all\<lparr>cw_name := Some value', cw_not_id := Some pid\<rparr>) True of
                       Some exists \<Rightarrow> [''Category name already exists'']
                     | None \<Rightarrow> [])
           in (e1 @ e2 @ e3, Some value')))"

definition validate_slug :: "db \<Rightarrow> nat \<Rightarrow> string option \<Rightarrow> string list \<times> string option" where
  "validate_slug st pid v =
     (case v of
        None \<Rightarrow> ([], None)
      | Some value \<Rightarrow>
          (let value' = trim value;
               e1 = (if length value' \<le> 100 then [] else [''Slug must be less than 100 characters'']);
               e2 = (if slug_pattern value' then []
                     else [''Slug can only contain lowercase letters, numbers and hyphens'']);
               e3 = (if value' \<noteq> [] then
                       (case Category_findOne st
                              (category_where_all\<lparr>cw_slug := Some value', cw_not_id := Some pid\<rparr>) True of
                          Some exists \<Rightarrow> [''Slug already exists'']
                        | None \<Rightarrow> [])
                     else [])
           in (e1 @ e2 @ e3, Some value')))"

definition validate_description :: "string option \<Rightarrow> string list \<times> string option" where
  "validate_description v =
     (case v of
        None \<Rightarrow> ([], None)
      | Some value \<Rightarrow>
          (let value' = trim value
           in (if length value' \<le> 1000 then [] else [''Description must be less than 1000 characters''],
               Some value')))"

definition categoryValidations :: "db \<Rightarrow> nat \<Rightarrow> category_body \<Rightarrow> string list \<times> category_body" where
  "categoryValidations st pid body =
     (let (en, name') = validate_name st pid (b_name body);
          (es, slug') = validate_slug st pid (b_slug body);
          (ed, description') = validate_description (b_description body)
      in (en @ es @ ed,
          body\<lparr>b_name := name', b_slug := slug', b_description := description'\<rparr>))"

definition category_idParam :: "db \<Rightarrow> nat \<Rightarrow> string option \<Rightarrow> string list" where
  "category_idParam st rid includeDeleted =
     (case Category_findOne st (category_where_all\<lparr>cw_id := Some rid\<rparr>)
             (if includeDeleted = Some ''true'' then False else True) of
        None \<Rightarrow> [''Category not found'']
      | Some category \<Rightarrow> [])"

text \<open>
  The routes \<open>POST /\<close> and \<open>PUT /:id\<close>. The router registers
  \<open>handleValidationErrors\<close> with \<open>router.use\<close> ahead of the routes, so it runs before
  the validation chains of a route, when no chain has reported anything yet. The chains
  run next: they sanitize the body and record their messages, which nothing reads
  afterwards, and each of them passes the request on. The controller follows.
\<close>

definition route_createCategory :: "timestamp \<Rightarrow> db \<Rightarrow> category_body \<Rightarrow> category response \<times> db" where
  "route_createCategory now st body =
     (case handleValidationErrors [] of
        Some r \<Rightarrow> (r, st)
      | None \<Rightarrow>
          (let (errs, body') = categoryValidations st 0 body
           in createCategory now st body'))"

definition route_updateCategory ::
  "timestamp \<Rightarrow> db \<Rightarrow> nat \<Rightarrow> string option \<Rightarrow> category_body \<Rightarrow> category response \<times> db" where
  "route_updateCategory now st rid includeDeleted body =
     (case handleValidationErrors [] of
        Some r \<Rightarrow> (r, st)
      | None \<Rightarrow>
          (let idErrs = category_idParam st rid includeDeleted;
               (errs, body') = categoryValidations st rid body
           in updateCategory now st rid body'))"

section \<open>Product model\<close>

record product_where =
  pw_id :: "nat option"
  pw_isActive :: "bool option"
  pw_categoryId :: "int option"
  pw_inStock :: "bool option"
  pw_price_gte :: "rat option"
  pw_price_lte :: "rat option"
  pw_unitType :: "string option"
  pw_search :: "string option"

definition product_where_all :: product_where where
  "product_where_all =
     \<lparr>pw_id = None, pw_isActive = None, pw_categoryId = None, pw_inStock = None,
      pw_price_gte = None, pw_price_lte = None, pw_unitType = None, pw_search = None\<rparr>"

definition Product_matches :: "product_where \<Rightarrow> product \<Rightarrow> bool" where
  "Product_matches w p =
     (opt_eq (pw_id w) (p_id p) \<and> opt_eq (pw_isActive w) (p_isActive p) \<and>
      opt_eq (pw_categoryId w) (int (p_categoryId p)) \<and> opt_eq (pw_inStock w) (p_inStock p) \<and>
      (case pw_price_gte w of None \<Rightarrow> True | Some x \<Rightarrow> x \<le> p_price p) \<and>
      (case pw_price_lte w of None \<Rightarrow> True | Some x \<Rightarrow> p_price p \<le> x) \<and>
      opt_eq (pw_unitType w) (p_unitType p) \<and>
      (case pw_search w of None \<Rightarrow> True
       | Some s \<Rightarrow> iLike (search_pattern s) (p_name p) \<or> iLike (search_pattern s) (p_slug p)
                  \<or> iLike (search_pattern s) (p_description p)
                  \<or> iLike_opt (search_pattern s) (p_shortDescription p)
                  \<or> iLike_opt (search_pattern s) (p_brand p)
                  \<or> iLike_opt (search_pattern s) (p_barcode p)))"

text \<open>The default scope of \<open>Product\<close> is that of \<open>Category\<close>.\<close>

definition Product_injectScope :: "product_where \<Rightarrow> product_where" where
  "Product_injectScope w = (if pw_isActive w = None then w\<lparr>pw_isActive := Some True\<rparr> else w)"

definition Product_scope_exclude :: "string list" where
  "Product_scope_exclude = [''createdAt'', ''updatedAt'', ''deletedAt'']"

definition Product_findAll :: "db \<Rightarrow> product_where \<Rightarrow> bool \<Rightarrow> product list" where
  "Product_findAll st w paranoid =
     filter (\<lambda>p. Product_matches (Product_injectScope w) p
                 \<and> not_deleted paranoid (p_deletedAt p)) (products st)"

definition Product_findOne :: "db \<Rightarrow> product_where \<Rightarrow> bool \<Rightarrow> product option" where
  "Product_findOne st w paranoid = findOne_of (Product_findAll st w paranoid)"

text \<open>
  \<open>include: [{ association: "category", attributes: ["id", "name", "slug"] }]\<close>.
  Sequelize injects the default scope of the included model; its \<open>where\<close> makes the
  include required (an inner join), and the include is paranoid on its own: a product
  is found with its category only while that category is active and not deleted.
\<close>

record category_ref =
  ref_id :: nat
  ref_name :: string
  ref_slug :: string

definition include_category :: "db \<Rightarrow> product \<Rightarrow> (product \<times> category_ref) list" where
  "include_category st p =
     map (\<lambda>c. (p, \<lparr>ref_id = cat_id c, ref_name = cat_name c, ref_slug = cat_slug c\<rparr>))
       (filter (\<lambda>c. cat_id c = p_categoryId p \<and> cat_isActive c \<and> cat_deletedAt c = None)
          (categories st))"

definition Product_findAll_include ::
  "db \<Rightarrow> product_where \<Rightarrow> bool \<Rightarrow> (product \<times> category_ref) list" where
  "Product_findAll_include st w paranoid =
     concat (map (include_category st) (Product_findAll st w paranoid))"

definition Product_order ::
  "string \<Rightarrow> string \<Rightarrow> (product \<times> 'c) list \<Rightarrow> error + (product \<times> 'c) list" where
  "Product_order col dir xs =
     (if col = ''id'' then order_by (\<lambda>r. p_id (fst r)) dir xs
      else if col = ''categoryId'' then order_by (\<lambda>r. p_categoryId (fst r)) dir xs
      else if col = ''name'' then order_by (\<lambda>r. p_name (fst r)) dir xs
      else if col = ''slug'' then order_by (\<lambda>r. p_slug (fst r)) dir xs
      else if col = ''description'' then order_by (\<lambda>r. p_description (fst r)) dir xs
      else if col = ''shortDescription''
        then order_by (\<lambda>r. null_last [] (p_shortDescription (fst r))) dir xs
      else if col = ''price'' then order_by (\<lambda>r. p_price (fst r)) dir xs
      else if col = ''quantity'' then order_by (\<lambda>r. p_quantity (fst r)) dir xs
      else if col = ''unitType'' then order_by (\<lambda>r. p_unitType (fst r)) dir xs
      else if col = ''minQuantity'' then order_by (\<lambda>r. null_last 0 (p_minQuantity (fst r))) dir xs
      else if col = ''maxQuantity'' then order_by (\<lambda>r. null_last 0 (p_maxQuantity (fst r))) dir xs
      else if col = ''manufactureDate''
        then order_by (\<lambda>r. null_last 0 (p_manufactureDate (fst r))) dir xs
      else if col = ''expiryDate'' then order_by (\<lambda>r. null_last 0 (p_expiryDate (fst r))) dir xs
      else if col = ''barcode'' then order_by (\<lambda>r. null_last [] (p_barcode (fst r))) dir xs
      else if col = ''inStock'' then order_by (\<lambda>r. p_inStock (fst r)) dir xs
      else if col = ''lowStockThreshold''
        then order_by (\<lambda>r. null_last 0 (p_lowStockThreshold (fst r))) dir xs
      else if col = ''weight'' then order_by (\<lambda>r. null_last 0 (p_weight (fst r))) dir xs
      else if col = ''dimensions'' then order_by (\<lambda>r. null_last [] (p_dimensions (fst r))) dir xs
      else if col = ''brand'' then order_by (\<lambda>r. null_last [] (p_brand (fst r))) dir xs
      else if col = ''isActive'' then order_by (\<lambda>r. p_isActive (fst r)) dir xs
      else if col = ''createdAt'' then order_by (\<lambda>r. p_createdAt (fst r)) dir xs
      else if col = ''updatedAt'' then order_by (\<lambda>r. p_updatedAt (fst r)) dir xs
      else if col = ''deletedAt'' then order_by (\<lambda>r. null_last 0 (p_deletedAt (fst r))) dir xs
      else Inl (SequelizeDatabaseError (''column '' @ col @ '' does not exist'')))"

definition Product_findAndCountAll ::
  "db \<Rightarrow> product_where \<Rightarrow> int \<Rightarrow> int \<Rightarrow> string \<Rightarrow> string \<Rightarrow> bool
     \<Rightarrow> error + (int \<times> (product \<times> category_ref) list)" where
  "Product_findAndCountAll st w limit offset col dir paranoid =
     (let found = Product_findAll_include st w paranoid in
      case Product_order col dir found of
        Inl e \<Rightarrow> Inl e
      | Inr ordered \<Rightarrow>
          (case limit_offset limit offset ordered of
             Inl e \<Rightarrow> Inl e
           | Inr rs \<Rightarrow> Inr (int (length found), rs)))"

text \<open>
  A DECIMAL attribute of an instance holds what was put there: the JSON number or the
  string of a request body, or the string the database driver hands over for a DECIMAL
  column (\<open>"7.000"\<close> for a DECIMAL(10, 3)). Numbers are modelled as rationals.
\<close>

datatype js_decimal = JsNumber rat | JsString string

definition digits_value :: "string \<Rightarrow> nat" where
  "digits_value ds = foldl (\<lambda>n c. 10 * n + (of_char c - 48)) 0 ds"

text \<open>
  A numeric string: an optional sign, digits and an optional fraction, with a digit
  somewhere. Exponents, hexadecimal literals and \<open>Infinity\<close> are taken as not numeric.
\<close>

definition unsigned_literal :: "string \<Rightarrow> rat option" where
  "unsigned_literal s =
     (let ip = takeWhile is_digit s;
          r = dropWhile is_digit s
      in if r = [] then (if ip = [] then None else Some (of_nat (digits_value ip)))
         else if hd r = CHR ''.'' \<and> list_all is_digit (tl r) \<and> (ip \<noteq> [] \<or> tl r \<noteq> [])
           then Some (of_nat (digits_value ip)
                      + of_nat (digits_value (tl r)) / 10 ^ length (tl r))
         else None)"

definition decimal_literal :: "string \<Rightarrow> rat option" where
  "decimal_literal s =
     (case s of
        [] \<Rightarrow> None
      | c # r \<Rightarrow> if c = CHR ''-'' then map_option uminus (unsigned_literal r)
                 else if c = CHR ''+'' then unsigned_literal r
                 else unsigned_literal s)"

text \<open>\<open>ToNumber\<close>: \<open>None\<close> is \<open>NaN\<close>; the empty string is 0.\<close>

definition ToNumber :: "js_decimal \<Rightarrow> rat option" where
  "ToNumber v =
     (case v of
        JsNumber x \<Rightarrow> Some x
      | JsString s \<Rightarrow> if trim s = [] then Some 0 else decimal_literal (trim s))"

text \<open>
  The operator \<open><\<close>: two strings are compared as strings, code unit by code unit; in every
  other case both sides are converted to numbers, and a comparison with \<open>NaN\<close> is false.
  \<open>a > b\<close> is \<open>b < a\<close>.
\<close>

definition js_lt :: "js_decimal \<Rightarrow> js_decimal \<Rightarrow> bool" where
  "js_lt a b =
     (case (a, b) of
        (JsString s, JsString t) \<Rightarrow> s < t
      | _ \<Rightarrow> (case (ToNumber a, ToNumber b) of
                (Some x, Some y) \<Rightarrow> x < y
              | _ \<Rightarrow> False))"

text \<open>
  \<open>parseFloat(String(v))\<close>, which the built-in validator \<open>min\<close> applies: the longest
  numeric prefix after leading whitespace (an exponent is not read; it does not change
  the sign).
\<close>

definition parseFloat :: "js_decimal \<Rightarrow> rat option" where
  "parseFloat v =
     (case v of
        JsNumber x \<Rightarrow> Some x
      | JsString s \<Rightarrow>
          (let t = dropWhile is_space s;
               neg = (t \<noteq> [] \<and> hd t = CHR ''-'');
               u = (if t \<noteq> [] \<and> (hd t = CHR ''-'' \<or> hd t = CHR ''+'') then tl t else t);
               ip = takeWhile is_digit u;
               r = dropWhile is_digit u;
               fp = (if r \<noteq> [] \<and> hd r = CHR ''.'' then takeWhile is_digit (tl r) else [])
           in if ip = [] \<and> fp = [] then None
              else Some ((if neg then - 1 else 1)
                         * (of_nat (digits_value ip)
                            + of_nat (digits_value fp) / 10 ^ length fp))))"

text \<open>\<open>isDecimal(String(v))\<close> of validator.js: \<open>/^[-+]?([0-9]+)?(\.[0-9]{1,})?$/\<close>, not empty.\<close>

definition isDecimal :: "js_decimal \<Rightarrow> bool" where
  "isDecimal v =
     (case v of
        JsNumber x \<Rightarrow> True
      | JsString s \<Rightarrow>
          (let u = (if s \<noteq> [] \<and> (hd s = CHR ''-'' \<or> hd s = CHR ''+'') then tl s else s);
               r = dropWhile is_digit u
           in u \<noteq> [] \<and> (r = [] \<or> (hd r = CHR ''.'' \<and> tl r \<noteq> [] \<and> list_all is_digit (tl r)))))"

text \<open>
  What a DECIMAL(p, s) column does with a value: the database reads a number or a
  numeric string (\<open>None\<close>: invalid input), rounds it to \<open>s\<close> fractional digits, half away
  from zero, and the driver renders the stored value with exactly \<open>s\<close> fractional digits.
\<close>

definition to_numeric :: "js_decimal \<Rightarrow> rat option" where
  "to_numeric v = (case v of JsNumber x \<Rightarrow> Some x | JsString s \<Rightarrow> decimal_literal (trim s))"

definition round_scale :: "nat \<Rightarrow> rat \<Rightarrow> rat" where
  "round_scale s x =
     (if x < 0 then - of_int \<lfloor>- x * 10 ^ s + 1 / 2\<rfloor> / 10 ^ s
      else of_int \<lfloor>x * 10 ^ s + 1 / 2\<rfloor> / 10 ^ s)"

definition decimal_stored :: "nat \<Rightarrow> js_decimal \<Rightarrow> rat" where
  "decimal_stored s v = round_scale s (default_to 0 (to_numeric v))"

fun fraction_digits :: "nat \<Rightarrow> int \<Rightarrow> string" where
  "fraction_digits 0 k = []"
| "fraction_digits (Suc n) k = fraction_digits n (k div 10) @ [char_of (48 + nat (k mod 10))]"

definition decimal_string :: "nat \<Rightarrow> rat \<Rightarrow> string" where
  "decimal_string s x =
     (let k = \<lfloor>\<bar>x\<bar> * 10 ^ s + 1 / 2\<rfloor>
      in (if x < 0 \<and> k \<noteq> 0 then ''-'' else []) @ toString (k div 10 ^ s) @
         (if s = 0 then [] else CHR ''.'' # fraction_digits s k))"

definition decimal_loaded :: "nat \<Rightarrow> rat \<Rightarrow> js_decimal" where
  "decimal_loaded s x = JsString (decimal_string s x)"

text \<open>The request body and the \<open>dataValues\<close> of an instance.\<close>

record product_body =
  pb_categoryId :: "nat option"
  pb_name :: "string option"
  pb_slug :: "string option"
  pb_description :: "string option"
  pb_shortDescription :: "string option"
  pb_price :: "js_decimal option"
  pb_quantity :: "js_decimal option"
  pb_unitType :: "string option"
  pb_minQuantity :: "js_decimal option"
  pb_maxQuantity :: "js_decimal option"
  pb_manufactureDate :: "timestamp option"
  pb_expiryDate :: "timestamp option"
  pb_barcode :: "string option"
  pb_lowStockThreshold :: "js_decimal option"
  pb_weight :: "js_decimal option"
  pb_dimensions :: "string option"
  pb_brand :: "string option"
  pb_isActive :: "bool option"

record product_values =
  pv_categoryId :: "nat option"
  pv_name :: "string option"
  pv_slug :: "string option"
  pv_description :: "string option"
  pv_shortDescription :: "string option"
  pv_price :: "js_decimal option"
  pv_quantity :: js_decimal
  pv_unitType :: string
  pv_minQuantity :: "js_decimal option"
  pv_maxQuantity :: "js_decimal option"
  pv_manufactureDate :: "timestamp option"
  pv_expiryDate :: "timestamp option"
  pv_barcode :: "string option"
  pv_inStock :: bool
  pv_lowStockThreshold :: "js_decimal option"
  pv_weight :: "js_decimal option"
  pv_dimensions :: "string option"
  pv_brand :: "string option"
  pv_isActive :: bool

text \<open>The values of a new instance are the \<open>defaultValue\<close>s, which are numbers.\<close>

definition Product_defaults :: product_values where
  "Product_defaults =
     \<lparr>pv_categoryId = None, pv_name = None, pv_slug = None, pv_description = None,
      pv_shortDescription = None, pv_price = None, pv_quantity = JsNumber 0,
      pv_unitType = ''piece'', pv_minQuantity = None, pv_maxQuantity = None,
      pv_manufactureDate = None, pv_expiryDate = None, pv_barcode = None, pv_inStock = True,
      pv_lowStockThreshold = Some (JsNumber 10), pv_weight = None, pv_dimensions = None,
      pv_brand = None, pv_isActive = True\<rparr>"

text \<open>The values of an instance a finder loaded: the DECIMAL attributes are strings.\<close>

definition Product_values_of :: "product \<Rightarrow> product_values" where
  "Product_values_of p =
     \<lparr>pv_categoryId = Some (p_categoryId p), pv_name = Some (p_name p),
      pv_slug = Some (p_slug p), pv_description = Some (p_description p),
      pv_shortDescription = p_shortDescription p, pv_price = Some (decimal_loaded 2 (p_price p)),
      pv_quantity = decimal_loaded 3 (p_quantity p), pv_unitType = p_unitType p,
      pv_minQuantity = map_option (decimal_loaded 3) (p_minQuantity p),
      pv_maxQuantity = map_option (decimal_loaded 3) (p_maxQuantity p),
      pv_manufactureDate = p_manufactureDate p, pv_expiryDate = p_expiryDate p,
      pv_barcode = p_barcode p, pv_inStock = p_inStock p,
      pv_lowStockThreshold = map_option (decimal_loaded 3) (p_lowStockThreshold p),
      pv_weight = map_option (decimal_loaded 3) (p_weight p),
      pv_dimensions = p_dimensions p, pv_brand = p_brand p, pv_isActive = p_isActive p\<rparr>"

definition Product_set_name :: "string \<Rightarrow> product_values \<Rightarrow> product_values" where
  "Product_set_name v0 vals =
     (let vals' = vals\<lparr>pv_name := Some (trim v0)\<rparr>
      in if \<not> truthy (pv_slug vals') then vals'\<lparr>pv_slug := Some (slugify v0)\<rparr> else vals')"

definition set_opt :: "'a option \<Rightarrow> 'a option \<Rightarrow> 'a option" where
  "set_opt new old = (case new of None \<Rightarrow> old | Some x \<Rightarrow> Some x)"

definition Product_set :: "product_body \<Rightarrow> product_values \<Rightarrow> product_values" where
  "Product_set b vals =
     (let v1 = (case pb_name b of None \<Rightarrow> vals | Some n \<Rightarrow> Product_set_name n vals)
      in v1\<lparr>pv_categoryId := set_opt (pb_categoryId b) (pv_categoryId v1),
             pv_slug := set_opt (pb_slug b) (pv_slug v1),
             pv_description := set_opt (pb_description b) (pv_description v1),
             pv_shortDescription := set_opt (pb_shortDescription b) (pv_shortDescription v1),
             pv_price := set_opt (pb_price b) (pv_price v1),
             pv_quantity := default_to (pv_quantity v1) (pb_quantity b),
             pv_unitType := default_to (pv_unitType v1) (pb_unitType b),
             pv_minQuantity := set_opt (pb_minQuantity b) (pv_minQuantity v1),
             pv_maxQuantity := set_opt (pb_maxQuantity b) (pv_maxQuantity v1),
             pv_manufactureDate := set_opt (pb_manufactureDate b) (pv_manufactureDate v1),
             pv_expiryDate := set_opt (pb_expiryDate b) (pv_expiryDate v1),
             pv_barcode := set_opt (pb_barcode b) (pv_barcode v1),
             pv_lowStockThreshold := set_opt (pb_lowStockThreshold b) (pv_lowStockThreshold v1),
             pv_weight := set_opt (pb_weight b) (pv_weight v1),
             pv_dimensions := set_opt (pb_dimensions b) (pv_dimensions v1),
             pv_brand := set_opt (pb_brand b) (pv_brand v1),
             pv_isActive := default_to (pv_isActive v1) (pb_isActive b)\<rparr>)"

text \<open>
  \<open>beforeValidate\<close>: derive and lowercase the slug, recompute \<open>inStock\<close> as
  \<open>quantity > 0\<close>. The hook also puts a generated \<open>sku\<close> on the instance; \<open>sku\<close> is not an
  attribute of the model and is never stored.
\<close>

definition Product_beforeValidate :: "product_values \<Rightarrow> product_values" where
  "Product_beforeValidate vals =
     (let v1 = (case pv_name vals of
                  None \<Rightarrow> vals
                | Some n \<Rightarrow> if n \<noteq> [] \<and> \<not> truthy (pv_slug vals)
                            then vals\<lparr>pv_slug := Some (slugify n)\<rparr> else vals);
          v2 = (case pv_slug v1 of
                  None \<Rightarrow> v1
                | Some s \<Rightarrow> if s \<noteq> [] then v1\<lparr>pv_slug := Some (toLowerCase s)\<rparr> else v1)
      in v2\<lparr>pv_inStock := js_lt (JsNumber 0) (pv_quantity v2)\<rparr>)"

text \<open>
  \<open>beforeSave\<close>: \<open>product.quantity < product.minQuantity\<close> and
  \<open>product.quantity > product.maxQuantity\<close>, with the operators of JavaScript on the
  values the instance holds. A bound that is null or undefined never rejects
  (\<open>quantity < undefined\<close> is false).
\<close>

definition Product_beforeSave :: "product_values \<Rightarrow> error option" where
  "Product_beforeSave product =
     (if (case pv_minQuantity product of
            None \<Rightarrow> False
          | Some minQuantity \<Rightarrow> js_lt (pv_quantity product) minQuantity)
        then Some (Error ''Quantity cannot be less than minimum quantity'')
      else if (case pv_maxQuantity product of
                 None \<Rightarrow> False
               | Some maxQuantity \<Rightarrow> js_lt maxQuantity (pv_quantity product))
        then Some (Error ''Quantity cannot exceed maximum quantity'')
      else None)"

text \<open>
  The attribute validators of \<open>Product\<close>, for the attributes in \<open>flds\<close>. Built-in
  validators skip a null value; the custom ones (\<open>isValidMax\<close>, \<open>isBeforeExpiry\<close>,
  \<open>isAfterManufacture\<close>, \<open>notExpired\<close>) test for it themselves. \<open>min\<close> passes a value
  that \<open>parseFloat\<close> does not read.
\<close>

definition unitTypes :: "string list" where
  "unitTypes = [''kg'', ''g'', ''lb'', ''oz'', ''piece'', ''pack'', ''bunch'', ''dozen'',
                ''liter'', ''ml'']"

definition check_min0 :: "string \<Rightarrow> js_decimal option \<Rightarrow> string list" where
  "check_min0 msg v =
     (case v of
        None \<Rightarrow> []
      | Some x \<Rightarrow> (case parseFloat x of
                     None \<Rightarrow> []
                   | Some n \<Rightarrow> if 0 \<le> n then [] else [msg]))"

definition when_field :: "string \<Rightarrow> string list \<Rightarrow> string list \<Rightarrow> string list" where
  "when_field f flds errs = (if f \<in> set flds then errs else [])"

definition Product_validate :: "timestamp \<Rightarrow> string list \<Rightarrow> product_values \<Rightarrow> string list" where
  "Product_validate now flds vals =
     when_field ''categoryId'' flds
       (case pv_categoryId vals of None \<Rightarrow> [''Category is required''] | Some c \<Rightarrow> []) @
     when_field ''name'' flds
       (case pv_name vals of
          None \<Rightarrow> [''Product.name cannot be null'']
        | Some n \<Rightarrow>
            (if list_all is_space n then [''Product name is required''] else []) @
            (if 1 \<le> length n \<and> length n \<le> 200 then []
             else [''Product name must be between 1 and 200 characters''])) @
     when_field ''slug'' flds
       (case pv_slug vals of
          None \<Rightarrow> [''Product.slug cannot be null'']
        | Some s \<Rightarrow>
            (if slug_pattern s then []
             else [''Slug can only contain lowercase letters, numbers, and hyphens'']) @
            (if list_all is_space s then [''Validation notEmpty on slug failed''] else [])) @
     when_field ''description'' flds
       (case pv_description vals of
          None \<Rightarrow> [''Product.description cannot be null'']
        | Some d \<Rightarrow>
            (if list_all is_space d then [''Product description is required''] else []) @
            (if 10 \<le> length d \<and> length d \<le> 2000 then []
             else [''Description must be between 10 and 2000 characters''])) @
     when_field ''shortDescription'' flds
       (case pv_shortDescription vals of
          None \<Rightarrow> []
        | Some d \<Rightarrow> if length d \<le> 500 then []
                    else [''Short description cannot exceed 500 characters'']) @
     when_field ''price'' flds
       (case pv_price vals of
          None \<Rightarrow> [''Product.price cannot be null'']
        | Some x \<Rightarrow>
            (if isDecimal x then [] else [''Price must be a valid decimal number'']) @
            check_min0 ''Price cannot be negative'' (Some x)) @
     when_field ''quantity'' flds
       (check_min0 ''Quantity cannot be negative'' (Some (pv_quantity vals))) @
     when_field ''unitType'' flds
       (if pv_unitType vals \<in> set unitTypes then [] else [''Invalid unit type'']) @
     when_field ''minQuantity'' flds
       (check_min0 ''Minimum quantity cannot be negative'' (pv_minQuantity vals)) @
     when_field ''maxQuantity'' flds
       (check_min0 ''Maximum quantity cannot be negative'' (pv_maxQuantity vals) @
        (case (pv_maxQuantity vals, pv_minQuantity vals) of
           (Some mx, Some mn) \<Rightarrow>
             if js_lt mx mn then [''Maximum quantity cannot be less than minimum quantity'']
             else []
         | _ \<Rightarrow> [])) @
     when_field ''manufactureDate'' flds
       (case (pv_manufactureDate vals, pv_expiryDate vals) of
          (Some m, Some e) \<Rightarrow> if m \<ge> e then [''Manufacture date must be before expiry date''] else []
        | _ \<Rightarrow> []) @
     when_field ''expiryDate'' flds
       ((case (pv_expiryDate vals, pv_manufactureDate vals) of
           (Some e, Some m) \<Rightarrow> if e \<le> m then [''Expiry date must be after manufacture date''] else []
         | _ \<Rightarrow> []) @
        (case pv_expiryDate vals of
           Some e \<Rightarrow> if e < now then [''Expiry date cannot be in the past''] else []
         | None \<Rightarrow> [])) @
     when_field ''lowStockThreshold'' flds
       (check_min0 ''Low stock threshold cannot be negative'' (pv_lowStockThreshold vals)) @
     when_field ''weight'' flds
       (check_min0 ''Weight cannot be negative'' (pv_weight vals))"

definition Product_attributes :: "string list" where
  "Product_attributes =
     [''categoryId'', ''name'', ''slug'', ''description'', ''shortDescription'', ''price'',
      ''quantity'', ''unitType'', ''minQuantity'', ''maxQuantity'', ''manufactureDate'',
      ''expiryDate'', ''barcode'', ''inStock'', ''lowStockThreshold'', ''weight'',
      ''dimensions'', ''brand'', ''isActive'']"

definition key_if :: "'a option \<Rightarrow> string \<Rightarrow> string list" where
  "key_if v k = (case v of None \<Rightarrow> [] | Some x \<Rightarrow> [k])"

definition Product_body_keys :: "product_body \<Rightarrow> string list" where
  "Product_body_keys b =
     key_if (pb_categoryId b) ''categoryId'' @ key_if (pb_name b) ''name'' @
     key_if (pb_slug b) ''slug'' @ key_if (pb_description b) ''description'' @
     key_if (pb_shortDescription b) ''shortDescription'' @ key_if (pb_price b) ''price'' @
     key_if (pb_quantity b) ''quantity'' @ key_if (pb_unitType b) ''unitType'' @
     key_if (pb_minQuantity b) ''minQuantity'' @ key_if (pb_maxQuantity b) ''maxQuantity'' @
     key_if (pb_manufactureDate b) ''manufactureDate'' @ key_if (pb_expiryDate b) ''expiryDate'' @
     key_if (pb_barcode b) ''barcode'' @ key_if (pb_lowStockThreshold b) ''lowStockThreshold'' @
     key_if (pb_weight b) ''weight'' @ key_if (pb_dimensions b) ''dimensions'' @
     key_if (pb_brand b) ''brand'' @ key_if (pb_isActive b) ''isActive''"

text \<open>
  Constraints of the table, checked for the written attributes \<open>flds\<close>: the \<open>VARCHAR\<close>
  lengths, the input syntax and the precision of the \<open>DECIMAL\<close> columns, the unique index
  on \<open>slug\<close> (over all rows) and the foreign key to \<open>categories\<close> (any row, soft-deleted
  or inactive ones too). \<open>self\<close> is the id of the row being updated, 0 on insert.
\<close>

definition too_long :: "string \<Rightarrow> string list \<Rightarrow> nat \<Rightarrow> string option \<Rightarrow> bool" where
  "too_long f flds n v = (f \<in> set flds \<and> (case v of None \<Rightarrow> False | Some s \<Rightarrow> length s > n))"

definition not_numeric :: "string \<Rightarrow> string list \<Rightarrow> js_decimal option \<Rightarrow> bool" where
  "not_numeric f flds v =
     (f \<in> set flds \<and> (case v of None \<Rightarrow> False | Some x \<Rightarrow> to_numeric x = None))"

definition overflows :: "string \<Rightarrow> string list \<Rightarrow> nat \<Rightarrow> rat \<Rightarrow> js_decimal option \<Rightarrow> bool" where
  "overflows f flds s bound v =
     (f \<in> set flds \<and> (case v of None \<Rightarrow> False | Some x \<Rightarrow> \<bar>decimal_stored s x\<bar> \<ge> bound))"

definition Product_constraints :: "db \<Rightarrow> nat \<Rightarrow> string list \<Rightarrow> product_values \<Rightarrow> error option" where
  "Product_constraints st self flds vals =
     (if too_long ''name'' flds 200 (pv_name vals) \<or> too_long ''slug'' flds 220 (pv_slug vals)
         \<or> too_long ''shortDescription'' flds 500 (pv_shortDescription vals)
         \<or> too_long ''barcode'' flds 100 (pv_barcode vals)
         \<or> too_long ''dimensions'' flds 50 (pv_dimensions vals)
         \<or> too_long ''brand'' flds 100 (pv_brand vals)
        then Some (SequelizeDatabaseError ''value too long for type character varying'')
      else if not_numeric ''price'' flds (pv_price vals)
         \<or> not_numeric ''quantity'' flds (Some (pv_quantity vals))
         \<or> not_numeric ''minQuantity'' flds (pv_minQuantity vals)
         \<or> not_numeric ''maxQuantity'' flds (pv_maxQuantity vals)
         \<or> not_numeric ''lowStockThreshold'' flds (pv_lowStockThreshold vals)
         \<or> not_numeric ''weight'' flds (pv_weight vals)
        then Some (SequelizeDatabaseError ''invalid input syntax for type numeric'')
      else if overflows ''price'' flds 2 100000000 (pv_price vals)
         \<or> overflows ''quantity'' flds 3 10000000 (Some (pv_quantity vals))
         \<or> overflows ''minQuantity'' flds 3 10000000 (pv_minQuantity vals)
         \<or> overflows ''maxQuantity'' flds 3 10000000 (pv_maxQuantity vals)
         \<or> overflows ''lowStockThreshold'' flds 3 10000000 (pv_lowStockThreshold vals)
         \<or> overflows ''weight'' flds 3 100000 (pv_weight vals)
        then Some (SequelizeDatabaseError ''numeric field overflow'')
      else if ''slug'' \<in> set flds
              \<and> list_ex (\<lambda>r. Some (p_slug r) = pv_slug vals \<and> p_id r \<noteq> self) (products st)
        then Some (SequelizeUniqueConstraintError [''This product slug is already in use''])
      else if ''categoryId'' \<in> set flds
              \<and> \<not> list_ex (\<lambda>c. Some (cat_id c) = pv_categoryId vals) (categories st)
        then Some SequelizeForeignKeyConstraintError
      else None)"

text \<open>
  The row after the attributes \<open>flds\<close> of an instance have been written; \<open>p\<close> is the row
  before (on insert: the key and the timestamps). A column that is not written keeps its
  value.
\<close>

definition saved :: "string \<Rightarrow> string list \<Rightarrow> 'a \<Rightarrow> 'a \<Rightarrow> 'a" where
  "saved f flds new old = (if f \<in> set flds then new else old)"

definition Product_row :: "product \<Rightarrow> string list \<Rightarrow> product_values \<Rightarrow> product" where
  "Product_row p flds vals =
     p\<lparr>p_categoryId := saved ''categoryId'' flds (default_to (p_categoryId p) (pv_categoryId vals))
                          (p_categoryId p),
       p_name := saved ''name'' flds (default_to (p_name p) (pv_name vals)) (p_name p),
       p_slug := saved ''slug'' flds (default_to (p_slug p) (pv_slug vals)) (p_slug p),
       p_description := saved ''description'' flds (default_to (p_description p) (pv_description vals))
                           (p_description p),
       p_shortDescription := saved ''shortDescription'' flds (pv_shortDescription vals)
                                (p_shortDescription p),
       p_price := saved ''price'' flds (default_to (p_price p) (map_option (decimal_stored 2) (pv_price vals)))
                     (p_price p),
       p_quantity := saved ''quantity'' flds (decimal_stored 3 (pv_quantity vals)) (p_quantity p),
       p_unitType := saved ''unitType'' flds (pv_unitType vals) (p_unitType p),
       p_minQuantity := saved ''minQuantity'' flds (map_option (decimal_stored 3) (pv_minQuantity vals))
                           (p_minQuantity p),
       p_maxQuantity := saved ''maxQuantity'' flds (map_option (decimal_stored 3) (pv_maxQuantity vals))
                           (p_maxQuantity p),
       p_manufactureDate := saved ''manufactureDate'' flds (pv_manufactureDate vals)
                               (p_manufactureDate p),
       p_expiryDate := saved ''expiryDate'' flds (pv_expiryDate vals) (p_expiryDate p),
       p_barcode := saved ''barcode'' flds (pv_barcode vals) (p_barcode p),
       p_inStock := saved ''inStock'' flds (pv_inStock vals) (p_inStock p),
       p_lowStockThreshold := saved ''lowStockThreshold'' flds
                                 (map_option (decimal_stored 3) (pv_lowStockThreshold vals))
                                 (p_lowStockThreshold p),
       p_weight := saved ''weight'' flds (map_option (decimal_stored 3) (pv_weight vals)) (p_weight p),
       p_dimensions := saved ''dimensions'' flds (pv_dimensions vals) (p_dimensions p),
       p_brand := saved ''brand'' flds (pv_brand vals) (p_brand p),
       p_isActive := saved ''isActive'' flds (pv_isActive vals) (p_isActive p)\<rparr>"

definition Product_blank :: "nat \<Rightarrow> timestamp \<Rightarrow> product" where
  "Product_blank new_id now =
     \<lparr>p_id = new_id, p_categoryId = 0, p_name = [], p_slug = [], p_description = [],
      p_shortDescription = None, p_price = 0, p_quantity = 0, p_unitType = [],
      p_minQuantity = None, p_maxQuantity = None, p_manufactureDate = None,
      p_expiryDate = None, p_barcode = None, p_inStock = True, p_lowStockThreshold = None,
      p_weight = None, p_dimensions = None, p_brand = None, p_isActive = True,
      p_createdAt = now, p_updatedAt = now, p_deletedAt = None\<rparr>"

text \<open>
  \<open>Product.create(body)\<close>: build, validate (with \<open>beforeValidate\<close>), \<open>beforeSave\<close>,
  insert of every attribute.
\<close>

definition Product_create :: "timestamp \<Rightarrow> db \<Rightarrow> product_body \<Rightarrow> error + (product \<times> db)" where
  "Product_create now st b =
     (let vals = Product_beforeValidate (Product_set b Product_defaults);
          errs = Product_validate now Product_attributes vals
      in if errs \<noteq> [] then Inl (SequelizeValidationError errs)
         else case Product_beforeSave vals of
           Some e \<Rightarrow> Inl e
         | None \<Rightarrow>
             (case Product_constraints st 0 Product_attributes vals of
                Some e \<Rightarrow> Inl e
              | None \<Rightarrow>
                  (let p = Product_row (Product_blank (next_id (map p_id (products st))) now)
                             Product_attributes vals
                   in Inr (p, st\<lparr>products := products st @ [p]\<rparr>))))"

definition Product_write :: "product \<Rightarrow> db \<Rightarrow> db" where
  "Product_write p st =
     st\<lparr>products := map (\<lambda>r. if p_id r = p_id p then p else r) (products st)\<rparr>"

text \<open>
  \<open>instance.update(body)\<close>: as for a category. The saved attributes \<open>flds\<close> are the keys
  of the body and the attributes a setter changed. The hooks run on every save; what a
  \<open>beforeValidate\<close> hook changes (\<open>inStock\<close>, a lowercased slug) is written only when it
  is among the saved attributes. A value counts as changed when it differs from the
  loaded one as a JavaScript value: the number 7 differs from the string \<open>"7.000"\<close>.
\<close>

definition Product_update :: "timestamp \<Rightarrow> db \<Rightarrow> product \<Rightarrow> product_body \<Rightarrow> error + (product \<times> db)" where
  "Product_update now st p b =
     (let old = Product_values_of p;
          set_vals = Product_set b old;
          flds = Product_body_keys b @
                 (if pv_slug set_vals \<noteq> pv_slug old \<and> pb_slug b = None then [''slug''] else []);
          vals = Product_beforeValidate set_vals;
          errs = Product_validate now flds vals
      in if errs \<noteq> [] then Inl (SequelizeValidationError errs)
         else case Product_beforeSave vals of
           Some e \<Rightarrow> Inl e
         | None \<Rightarrow>
             if flds = [] \<or> vals = old then Inr (p, st)
             else
               (case Product_constraints st (p_id p) flds vals of
                  Some e \<Rightarrow> Inl e
                | None \<Rightarrow>
                    (let p' = (Product_row p flds vals)\<lparr>p_updatedAt := now\<rparr>
                     in Inr (p', Product_write p' st))))"

definition Product_destroy :: "timestamp \<Rightarrow> db \<Rightarrow> product \<Rightarrow> product \<times> db" where
  "Product_destroy now st p =
     (case get_deletedAt Product_scope_exclude (p_deletedAt p) of
        Date t \<Rightarrow> (p, st)
      | _ \<Rightarrow> (let p' = p\<lparr>p_deletedAt := Some now, p_updatedAt := now\<rparr>
             in (p', Product_write p' st)))"

definition Product_restore :: "timestamp \<Rightarrow> db \<Rightarrow> product \<Rightarrow> product \<times> db" where
  "Product_restore now st p =
     (case get_deletedAt Product_scope_exclude (p_deletedAt p) of
        Null \<Rightarrow> (p, st)
      | _ \<Rightarrow> (let p' = p\<lparr>p_deletedAt := None, p_updatedAt := now\<rparr>
             in (p', Product_write p' st)))"

section \<open>Product controller\<close>

definition derive_slug :: "product_body \<Rightarrow> product_body" where
  "derive_slug productData =
     (case pb_name productData of
        Some n \<Rightarrow> if n \<noteq> [] \<and> \<not> truthy (pb_slug productData)
                  then productData\<lparr>pb_slug := Some (slugify n)\<rparr> else productData
      | None \<Rightarrow> productData)"

definition Product_findByPk_include :: "db \<Rightarrow> nat \<Rightarrow> (product \<times> category_ref) option" where
  "Product_findByPk_include st pk =
     findOne_of (Product_findAll_include st (product_where_all\<lparr>pw_id := Some pk\<rparr>) True)"

definition createProduct ::
  "timestamp \<Rightarrow> db \<Rightarrow> product_body \<Rightarrow> (product \<times> category_ref) response \<times> db" where
  "createProduct now st body =
     (case Product_create now st (derive_slug body) of
        Inl e \<Rightarrow> (errorHandler e, st)
      | Inr (product, st') \<Rightarrow>
          (json_response 201 True ''Product created successfully''
             (Product_findByPk_include st' (p_id product)), st'))"

record product_query =
  pq_page :: "int option"
  pq_limit :: "int option"
  pq_search :: "string option"
  pq_categoryId :: "int option"
  pq_inStock :: "string option"
  pq_minPrice :: "rat option"
  pq_maxPrice :: "rat option"
  pq_unitType :: "string option"
  pq_isActive :: "string option"
  pq_includeInactive :: "string option"
  pq_includeDeleted :: "string option"
  pq_sortBy :: "string option"
  pq_sortOrder :: "string option"

definition product_list_where :: "product_query \<Rightarrow> product_where" where
  "product_list_where q =
     (let w0 = product_where_all;
          w1 = (case pq_isActive q of
                  Some a \<Rightarrow> w0\<lparr>pw_isActive := Some (a = ''true'')\<rparr>
                | None \<Rightarrow> if \<not> truthy (pq_includeInactive q)
                          then w0\<lparr>pw_isActive := Some True\<rparr> else w0);
          w2 = w1\<lparr>pw_categoryId := pq_categoryId q\<rparr>;
          w3 = (case pq_inStock q of
                  Some s \<Rightarrow> w2\<lparr>pw_inStock := Some (s = ''true'')\<rparr>
                | None \<Rightarrow> w2);
          w4 = w3\<lparr>pw_price_gte := pq_minPrice q, pw_price_lte := pq_maxPrice q\<rparr>;
          w5 = (if truthy (pq_unitType q) then w4\<lparr>pw_unitType := pq_unitType q\<rparr> else w4);
          w6 = (if truthy (pq_search q) then w5\<lparr>pw_search := pq_search q\<rparr> else w5)
      in w6)"

definition getAllProducts ::
  "string \<Rightarrow> db \<Rightarrow> product_query \<Rightarrow> (product \<times> category_ref) page response" where
  "getAllProducts route st q =
     (let pg = default_to 1 (pq_page q);
          limit = default_to 10 (pq_limit q);
          sortBy = default_to ''name'' (pq_sortBy q);
          sortOrder = default_to ''ASC'' (pq_sortOrder q);
          offset = (pg - 1) * limit
      in case Product_findAndCountAll st (product_list_where q) limit offset sortBy
                (toUpperCase sortOrder) (\<not> truthy (pq_includeDeleted q)) of
           Inl e \<Rightarrow> errorHandler e
         | Inr (count, rs) \<Rightarrow>
             \<lparr>status = 200, success = True, message = None,
              data = Some \<lparr>rows = rs, page_info = make_pagination route pg limit count\<rparr>\<rparr>)"

definition getProductById :: "db \<Rightarrow> nat \<Rightarrow> string option \<Rightarrow> (product \<times> category_ref) response" where
  "getProductById st rid includeDeleted =
     (case findOne_of (Product_findAll_include st (product_where_all\<lparr>pw_id := Some rid\<rparr>)
                         (\<not> truthy includeDeleted)) of
        None \<Rightarrow> json_response 404 False ''Product not found'' None
      | Some product \<Rightarrow> \<lparr>status = 200, success = True, message = None, data = Some product\<rparr>)"

definition updateProduct ::
  "timestamp \<Rightarrow> db \<Rightarrow> nat \<Rightarrow> product_body \<Rightarrow> (product \<times> category_ref) response \<times> db" where
  "updateProduct now st rid body =
     (case Product_findOne st (product_where_all\<lparr>pw_id := Some rid\<rparr>) True of
        None \<Rightarrow> (json_response 404 False ''Product not found'' None, st)
      | Some product \<Rightarrow>
          (case Product_update now st product (derive_slug body) of
             Inl e \<Rightarrow> (errorHandler e, st)
           | Inr (product', st') \<Rightarrow>
               (json_response 200 True ''Product updated successfully''
                  (Product_findByPk_include st' (p_id product')), st')))"

definition deleteProduct :: "timestamp \<Rightarrow> db \<Rightarrow> nat \<Rightarrow> product response \<times> db" where
  "deleteProduct now st rid =
     (case Product_findOne st (product_where_all\<lparr>pw_id := Some rid\<rparr>) True of
        None \<Rightarrow> (json_response 404 False ''Product not found'' None, st)
      | Some product \<Rightarrow>
          (json_response 200 True ''Product deleted successfully'' None,
           snd (Product_destroy now st product)))"

definition restoreProduct :: "timestamp \<Rightarrow> db \<Rightarrow> nat \<Rightarrow> product response \<times> db" where
  "restoreProduct now st rid =
     (case Product_findOne st (product_where_all\<lparr>pw_id := Some rid\<rparr>) False of
        None \<Rightarrow> (json_response 404 False ''Product not found'' None, st)
      | Some product \<Rightarrow>
          if get_deletedAt Product_scope_exclude (p_deletedAt product) = Null
          then (json_response 400 False ''Product is not deleted'' None, st)
          else (case Product_restore now st product of
                  (product', st') \<Rightarrow>
                    (json_response 200 True ''Product restored successfully'' (Some product'), st')))"

section \<open>Users and admin profiles\<close>

text \<open>
  Library functions the user model and the admin validators call: \<open>bcrypt.hash(_, 12)\<close>,
  the \<open>isEmail\<close> test of validator.js and the \<open>normalizeEmail\<close> sanitizer.
\<close>

record env =
  bcrypt_hash :: "string \<Rightarrow> string"
  isEmail :: "string \<Rightarrow> bool"
  normalizeEmail :: "string \<Rightarrow> string"

record user_where =
  uw_id :: "nat option"
  uw_email :: "string option"
  uw_accountType :: "string option"
  uw_isActive :: "bool option"
  uw_not_id :: "nat option"
  uw_city :: "string option"
  uw_search :: "string option"

definition user_where_all :: user_where where
  "user_where_all =
     \<lparr>uw_id = None, uw_email = None, uw_accountType = None, uw_isActive = None,
      uw_not_id = None, uw_city = None, uw_search = None\<rparr>"

text \<open>
  \<open>include: [{ model: AdminProfile, as: "adminProfile" }]\<close>: a left join on the profile of
  the user, paranoid unless the include says \<open>paranoid: false\<close>.
\<close>

definition include_adminProfile :: "db \<Rightarrow> bool \<Rightarrow> user \<Rightarrow> adminProfile option" where
  "include_adminProfile st paranoid u =
     findOne_of (filter (\<lambda>p. ap_userId p = u_id u \<and> not_deleted paranoid (ap_deletedAt p))
                   (adminProfiles st))"

text \<open>
  The search terms of the admin list reach into the included profile
  (\<open>$adminProfile.firstName$\<close>).
\<close>

definition User_matches :: "user_where \<Rightarrow> user \<Rightarrow> adminProfile option \<Rightarrow> bool" where
  "User_matches w u prof =
     (opt_eq (uw_id w) (u_id u) \<and> opt_eq (uw_email w) (u_email u) \<and>
      opt_eq (uw_accountType w) (u_accountType u) \<and> opt_eq (uw_isActive w) (u_isActive u) \<and>
      opt_neq (uw_not_id w) (u_id u) \<and>
      (case uw_search w of None \<Rightarrow> True
       | Some s \<Rightarrow> iLike (search_pattern s) (u_email u)
                  \<or> iLike_opt (search_pattern s) (map_option ap_firstName prof)
                  \<or> iLike_opt (search_pattern s) (map_option ap_lastName prof)))"

text \<open>
  \<open>defaultScope: { attributes: { exclude: ["password"] } }\<close>: no condition, and
  \<open>deletedAt\<close> is loaded. The table \<open>users\<close> has no column \<open>city\<close>: a \<open>where\<close> that names it
  fails in the database.
\<close>

definition User_scope_exclude :: "string list" where
  "User_scope_exclude = [''password'']"

definition User_findAll ::
  "db \<Rightarrow> user_where \<Rightarrow> bool \<Rightarrow> bool \<Rightarrow> error + (user \<times> adminProfile option) list" where
  "User_findAll st w paranoid include_paranoid =
     (case uw_city w of
        Some c \<Rightarrow> Inl (SequelizeDatabaseError ''column User.city does not exist'')
      | None \<Rightarrow>
          Inr (filter (\<lambda>r. User_matches w (fst r) (snd r) \<and> not_deleted paranoid (u_deletedAt (fst r)))
                 (map (\<lambda>u. (u, include_adminProfile st include_paranoid u)) (users st))))"

definition User_findOne ::
  "db \<Rightarrow> user_where \<Rightarrow> bool \<Rightarrow> bool \<Rightarrow> error + (user \<times> adminProfile option) option" where
  "User_findOne st w paranoid include_paranoid =
     (case User_findAll st w paranoid include_paranoid of
        Inl e \<Rightarrow> Inl e
      | Inr rs \<Rightarrow> Inr (findOne_of rs))"

definition User_order ::
  "string \<Rightarrow> string \<Rightarrow> (user \<times> 'p) list \<Rightarrow> error + (user \<times> 'p) list" where
  "User_order col dir xs =
     (if col = ''id'' then order_by (\<lambda>r. u_id (fst r)) dir xs
      else if col = ''email'' then order_by (\<lambda>r. u_email (fst r)) dir xs
      else if col = ''password'' then order_by (\<lambda>r. u_password (fst r)) dir xs
      else if col = ''accountType'' then order_by (\<lambda>r. u_accountType (fst r)) dir xs
      else if col = ''authProvider'' then order_by (\<lambda>r. u_authProvider (fst r)) dir xs
      else if col = ''isActive'' then order_by (\<lambda>r. u_isActive (fst r)) dir xs
      else if col = ''lastPasswordChange''
        then order_by (\<lambda>r. null_last 0 (u_lastPasswordChange (fst r))) dir xs
      else if col = ''createdAt'' then order_by (\<lambda>r. u_createdAt (fst r)) dir xs
      else if col = ''updatedAt'' then order_by (\<lambda>r. u_updatedAt (fst r)) dir xs
      else if col = ''deletedAt'' then order_by (\<lambda>r. null_last 0 (u_deletedAt (fst r))) dir xs
      else Inl (SequelizeDatabaseError (''column '' @ col @ '' does not exist'')))"

definition User_findAndCountAll ::
  "db \<Rightarrow> user_where \<Rightarrow> int \<Rightarrow> int \<Rightarrow> string \<Rightarrow> string \<Rightarrow> bool
     \<Rightarrow> error + (int \<times> (user \<times> adminProfile option) list)" where
  "User_findAndCountAll st w limit offset col dir paranoid =
     (case User_findAll st w paranoid True of
        Inl e \<Rightarrow> Inl e
      | Inr found \<Rightarrow>
          (case User_order col dir found of
             Inl e \<Rightarrow> Inl e
           | Inr ordered \<Rightarrow>
               (case limit_offset limit offset ordered of
                  Inl e \<Rightarrow> Inl e
                | Inr rs \<Rightarrow> Inr (int (length found), rs))))"

text \<open>The body of the admin routes: the fields of the user and of the profile.\<close>

record admin_body =
  ab_email :: "string option"
  ab_password :: "string option"
  ab_accountType :: "string option"
  ab_authProvider :: "string option"
  ab_isActive :: "bool option"
  ab_firstName :: "string option"
  ab_lastName :: "string option"
  ab_phoneNumber :: "string option"
  ab_address :: "string option"
  ab_city :: "string option"
  ab_bio :: "string option"
  ab_profilePicture :: "string option"

text \<open>The attribute validators and table constraints of \<open>User\<close>.\<close>

definition User_validate_email :: "env \<Rightarrow> string option \<Rightarrow> string list" where
  "User_validate_email ev v =
     (case v of
        None \<Rightarrow> [''User.email cannot be null'']
      | Some e \<Rightarrow>
          (if isEmail ev e then [] else [''Invalid email format'']) @
          (if list_all is_space e then [''Email is required''] else []))"

definition User_validate_password :: "string option \<Rightarrow> string list" where
  "User_validate_password v =
     (case v of
        None \<Rightarrow> [''User.password cannot be null'']
      | Some p \<Rightarrow>
          (if list_all is_space p then [''Validation notEmpty on password failed''] else []) @
          (if 8 \<le> length p \<and> length p \<le> 128 then []
           else [''Validation len on password failed'']))"

definition User_constraints ::
  "db \<Rightarrow> nat \<Rightarrow> string list \<Rightarrow> string \<Rightarrow> string \<Rightarrow> string \<Rightarrow> error option" where
  "User_constraints st self flds email accountType authProvider =
     (if ''email'' \<in> set flds \<and> length email > 255
        then Some (SequelizeDatabaseError ''value too long for type character varying(255)'')
      else if ''accountType'' \<in> set flds \<and> accountType \<notin> set [''admin'', ''customer'']
        then Some (SequelizeDatabaseError ''invalid input value for enum'')
      else if ''authProvider'' \<in> set flds
              \<and> authProvider \<notin> set [''local'', ''google'', ''facebook'', ''passkey'']
        then Some (SequelizeDatabaseError ''invalid input value for enum'')
      else if ''email'' \<in> set flds
              \<and> list_ex (\<lambda>u. u_email u = email \<and> u_id u \<noteq> self) (users st)
        then Some (SequelizeUniqueConstraintError [''Email already in use''])
      else None)"

definition User_attributes :: "string list" where
  "User_attributes = [''email'', ''password'', ''accountType'', ''authProvider'', ''isActive'',
                      ''lastPasswordChange'']"

text \<open>
  \<open>User.create({ email, password, accountType: "admin", authProvider: "local" })\<close>:
  validate, then \<open>beforeCreate\<close> hashes a truthy password and stamps
  \<open>lastPasswordChange\<close>, then insert.
\<close>

definition User_create ::
  "env \<Rightarrow> timestamp \<Rightarrow> db \<Rightarrow> string option \<Rightarrow> string option \<Rightarrow> string \<Rightarrow> string
     \<Rightarrow> error + (user \<times> db)" where
  "User_create ev now st email password accountType authProvider =
     (let errs = User_validate_email ev email @ User_validate_password password
      in if errs \<noteq> [] then Inl (SequelizeValidationError errs)
         else case (email, password) of
           (Some e, Some p) \<Rightarrow>
             (case User_constraints st 0 User_attributes e accountType authProvider of
                Some err \<Rightarrow> Inl err
              | None \<Rightarrow>
                  (let u = \<lparr>u_id = next_id (map u_id (users st)),
                            u_email = e,
                            u_password = (if p \<noteq> [] then bcrypt_hash ev p else p),
                            u_accountType = accountType,
                            u_authProvider = authProvider,
                            u_isActive = True,
                            u_lastPasswordChange = (if p \<noteq> [] then Some now else None),
                            u_createdAt = now, u_updatedAt = now, u_deletedAt = None\<rparr>
                   in Inr (u, st\<lparr>users := users st @ [u]\<rparr>)))
         | _ \<Rightarrow> Inl (SequelizeValidationError errs))"

definition User_write :: "user \<Rightarrow> db \<Rightarrow> db" where
  "User_write u st = st\<lparr>users := map (\<lambda>r. if u_id r = u_id u then u else r) (users st)\<rparr>"

text \<open>
  \<open>admin.update(updateData)\<close> on an instance loaded under the default scope (its
  password is not loaded, so a password in the body always counts as changed). The
  saved attributes are the user attributes named by the body. \<open>beforeUpdate\<close> hashes a
  changed password and stamps \<open>lastPasswordChange\<close>; Sequelize then validates the
  attributes the hook changed once more.
\<close>

definition User_body_keys :: "admin_body \<Rightarrow> string list" where
  "User_body_keys b =
     key_if (ab_email b) ''email'' @ key_if (ab_password b) ''password'' @
     key_if (ab_accountType b) ''accountType'' @ key_if (ab_authProvider b) ''authProvider'' @
     key_if (ab_isActive b) ''isActive''"

definition User_update :: "env \<Rightarrow> timestamp \<Rightarrow> db \<Rightarrow> user \<Rightarrow> admin_body \<Rightarrow> error + (user \<times> db)" where
  "User_update ev now st u b =
     (let flds = User_body_keys b;
          errs = (case ab_email b of None \<Rightarrow> [] | Some e \<Rightarrow> User_validate_email ev (Some e)) @
                 (case ab_password b of None \<Rightarrow> [] | Some p \<Rightarrow> User_validate_password (Some p));
          hashed = map_option (bcrypt_hash ev) (ab_password b);
          errs2 = (case hashed of None \<Rightarrow> [] | Some h \<Rightarrow> User_validate_password (Some h));
          u' = u\<lparr>u_email := default_to (u_email u) (ab_email b),
                 u_password := default_to (u_password u) hashed,
                 u_accountType := default_to (u_accountType u) (ab_accountType b),
                 u_authProvider := default_to (u_authProvider u) (ab_authProvider b),
                 u_isActive := default_to (u_isActive u) (ab_isActive b),
                 u_lastPasswordChange := (if hashed = None then u_lastPasswordChange u else Some now)\<rparr>
      in if errs \<noteq> [] then Inl (SequelizeValidationError errs)
         else if errs2 \<noteq> [] then Inl (SequelizeValidationError errs2)
         else if flds = [] \<or> (hashed = None \<and> u' = u) then Inr (u, st)
         else case User_constraints st (u_id u) flds (u_email u') (u_accountType u')
                     (u_authProvider u') of
           Some err \<Rightarrow> Inl err
         | None \<Rightarrow> (let u'' = u'\<lparr>u_updatedAt := now\<rparr> in Inr (u'', User_write u'' st)))"

text \<open>
  \<open>destroy\<close> and \<open>restore\<close> of a user or profile: \<open>deletedAt\<close> is loaded, so a restore of
  a row that is not deleted changes nothing and writes nothing.
\<close>

definition User_destroy :: "timestamp \<Rightarrow> db \<Rightarrow> user \<Rightarrow> db" where
  "User_destroy now st u =
     (case get_deletedAt User_scope_exclude (u_deletedAt u) of
        Date t \<Rightarrow> st
      | _ \<Rightarrow> User_write (u\<lparr>u_deletedAt := Some now, u_updatedAt := now\<rparr>) st)"

definition User_restore :: "timestamp \<Rightarrow> db \<Rightarrow> user \<Rightarrow> db" where
  "User_restore now st u =
     (case get_deletedAt User_scope_exclude (u_deletedAt u) of
        Null \<Rightarrow> st
      | _ \<Rightarrow> User_write (u\<lparr>u_deletedAt := None, u_updatedAt := now\<rparr>) st)"

definition AdminProfile_write :: "adminProfile \<Rightarrow> db \<Rightarrow> db" where
  "AdminProfile_write p st =
     st\<lparr>adminProfiles := map (\<lambda>r. if ap_id r = ap_id p then p else r) (adminProfiles st)\<rparr>"

definition AdminProfile_destroy :: "timestamp \<Rightarrow> db \<Rightarrow> adminProfile \<Rightarrow> db" where
  "AdminProfile_destroy now st p =
     (case get_deletedAt [] (ap_deletedAt p) of
        Date t \<Rightarrow> st
      | _ \<Rightarrow> AdminProfile_write (p\<lparr>ap_deletedAt := Some now, ap_updatedAt := now\<rparr>) st)"

definition AdminProfile_restore :: "timestamp \<Rightarrow> db \<Rightarrow> adminProfile \<Rightarrow> db" where
  "AdminProfile_restore now st p =
     (case get_deletedAt [] (ap_deletedAt p) of
        Null \<Rightarrow> st
      | _ \<Rightarrow> AdminProfile_write (p\<lparr>ap_deletedAt := None, ap_updatedAt := now\<rparr>) st)"

text \<open>
  The attribute validators of \<open>AdminProfile\<close> (\<open>phone_pattern\<close> is
  \<open>/^[\+]?[1-9][\d]{0,15}$/\<close>) and the constraints of its table: \<open>STRING\<close> is
  \<open>VARCHAR(255)\<close>, \<open>userId\<close> is unique and references \<open>users\<close>.
\<close>

definition phone_pattern :: "string \<Rightarrow> bool" where
  "phone_pattern s =
     (let t = (case s of [] \<Rightarrow> [] | c # cs \<Rightarrow> if c = CHR ''+'' then cs else s)
      in case t of
           [] \<Rightarrow> False
         | d # ds \<Rightarrow> is_digit d \<and> d \<noteq> CHR ''0'' \<and> list_all is_digit ds \<and> length ds \<le> 15)"

definition check_len :: "string \<Rightarrow> nat \<Rightarrow> nat \<Rightarrow> string option \<Rightarrow> string list" where
  "check_len f lo hi v =
     (case v of
        None \<Rightarrow> []
      | Some s \<Rightarrow> if lo \<le> length s \<and> length s \<le> hi then []
                  else [''Validation len on '' @ f @ '' failed''])"

definition check_required_name :: "string \<Rightarrow> string \<Rightarrow> string option \<Rightarrow> string list" where
  "check_required_name f msg v =
     (case v of
        None \<Rightarrow> [''AdminProfile.'' @ f @ '' cannot be null'']
      | Some s \<Rightarrow> (if list_all is_space s then [msg] else []) @ check_len f 2 50 (Some s))"

record adminProfile_values =
  apv_firstName :: "string option"
  apv_lastName :: "string option"
  apv_phoneNumber :: "string option"
  apv_address :: "string option"
  apv_city :: "string option"
  apv_bio :: "string option"
  apv_profilePicture :: "string option"

definition AdminProfile_validate :: "string list \<Rightarrow> adminProfile_values \<Rightarrow> string list" where
  "AdminProfile_validate flds vals =
     when_field ''firstName'' flds
       (check_required_name ''firstName'' ''First name is required'' (apv_firstName vals)) @
     when_field ''lastName'' flds
       (check_required_name ''lastName'' ''Last name is required'' (apv_lastName vals)) @
     when_field ''phoneNumber'' flds
       (case apv_phoneNumber vals of
          None \<Rightarrow> []
        | Some s \<Rightarrow> if phone_pattern s then [] else [''Invalid phone number format'']) @
     when_field ''address'' flds (check_len ''address'' 0 255 (apv_address vals)) @
     when_field ''city'' flds (check_len ''city'' 0 100 (apv_city vals)) @
     when_field ''bio'' flds (check_len ''bio'' 0 1000 (apv_bio vals))"

definition AdminProfile_attributes :: "string list" where
  "AdminProfile_attributes =
     [''userId'', ''firstName'', ''lastName'', ''phoneNumber'', ''address'', ''city'', ''bio'',
      ''profilePicture'']"

definition AdminProfile_constraints ::
  "db \<Rightarrow> nat \<Rightarrow> string list \<Rightarrow> nat \<Rightarrow> adminProfile_values \<Rightarrow> error option" where
  "AdminProfile_constraints st self flds userId vals =
     (if too_long ''firstName'' flds 255 (apv_firstName vals)
         \<or> too_long ''lastName'' flds 255 (apv_lastName vals)
         \<or> too_long ''phoneNumber'' flds 255 (apv_phoneNumber vals)
         \<or> too_long ''address'' flds 255 (apv_address vals)
         \<or> too_long ''city'' flds 255 (apv_city vals)
         \<or> too_long ''profilePicture'' flds 255 (apv_profilePicture vals)
        then Some (SequelizeDatabaseError ''value too long for type character varying(255)'')
      else if ''userId'' \<in> set flds
              \<and> list_ex (\<lambda>p. ap_userId p = userId \<and> ap_id p \<noteq> self) (adminProfiles st)
        then Some (SequelizeUniqueConstraintError [''userId must be unique''])
      else if ''userId'' \<in> set flds \<and> \<not> list_ex (\<lambda>u. u_id u = userId) (users st)
        then Some SequelizeForeignKeyConstraintError
      else None)"

definition AdminProfile_create ::
  "timestamp \<Rightarrow> db \<Rightarrow> nat \<Rightarrow> adminProfile_values \<Rightarrow> error + (adminProfile \<times> db)" where
  "AdminProfile_create now st userId vals =
     (let errs = AdminProfile_validate AdminProfile_attributes vals
      in if errs \<noteq> [] then Inl (SequelizeValidationError errs)
         else case (apv_firstName vals, apv_lastName vals) of
           (Some firstName, Some lastName) \<Rightarrow>
             (case AdminProfile_constraints st 0 AdminProfile_attributes userId vals of
                Some err \<Rightarrow> Inl err
              | None \<Rightarrow>
                  (let p = \<lparr>ap_id = next_id (map ap_id (adminProfiles st)),
                            ap_userId = userId, ap_firstName = firstName, ap_lastName = lastName,
                            ap_phoneNumber = apv_phoneNumber vals,
                            ap_address = apv_address vals, ap_city = apv_city vals,
                            ap_bio = apv_bio vals,
                            ap_profilePicture = apv_profilePicture vals,
                            ap_createdAt = now, ap_updatedAt = now, ap_deletedAt = None\<rparr>
                   in Inr (p, st\<lparr>adminProfiles := adminProfiles st @ [p]\<rparr>)))
         | _ \<Rightarrow> Inl (SequelizeValidationError errs))"

text \<open>
  \<open>admin.adminProfile.update(updateData)\<close>: the keys of the body that are attributes of
  the profile are set and saved; the other keys (email, password, isActive, ...) are
  ignored.
\<close>

definition AdminProfile_body_keys :: "admin_body \<Rightarrow> string list" where
  "AdminProfile_body_keys b =
     key_if (ab_firstName b) ''firstName'' @ key_if (ab_lastName b) ''lastName'' @
     key_if (ab_phoneNumber b) ''phoneNumber'' @ key_if (ab_address b) ''address'' @
     key_if (ab_city b) ''city'' @ key_if (ab_bio b) ''bio'' @
     key_if (ab_profilePicture b) ''profilePicture''"

definition AdminProfile_set :: "admin_body \<Rightarrow> adminProfile \<Rightarrow> adminProfile" where
  "AdminProfile_set b p =
     p\<lparr>ap_firstName := default_to (ap_firstName p) (ab_firstName b),
       ap_lastName := default_to (ap_lastName p) (ab_lastName b),
       ap_phoneNumber := set_opt (ab_phoneNumber b) (ap_phoneNumber p),
       ap_address := set_opt (ab_address b) (ap_address p),
       ap_city := set_opt (ab_city b) (ap_city p),
       ap_bio := set_opt (ab_bio b) (ap_bio p),
       ap_profilePicture := set_opt (ab_profilePicture b) (ap_profilePicture p)\<rparr>"

definition AdminProfile_values_of :: "adminProfile \<Rightarrow> adminProfile_values" where
  "AdminProfile_values_of p =
     \<lparr>apv_firstName = Some (ap_firstName p), apv_lastName = Some (ap_lastName p),
      apv_phoneNumber = ap_phoneNumber p, apv_address = ap_address p, apv_city = ap_city p,
      apv_bio = ap_bio p, apv_profilePicture = ap_profilePicture p\<rparr>"

definition AdminProfile_update ::
  "timestamp \<Rightarrow> db \<Rightarrow> adminProfile \<Rightarrow> admin_body \<Rightarrow> error + (adminProfile \<times> db)" where
  "AdminProfile_update now st p b =
     (let flds = AdminProfile_body_keys b;
          p' = AdminProfile_set b p;
          errs = AdminProfile_validate flds (AdminProfile_values_of p')
      in if errs \<noteq> [] then Inl (SequelizeValidationError errs)
         else if flds = [] \<or> p' = p then Inr (p, st)
         else case AdminProfile_constraints st (ap_id p) flds (ap_userId p)
                     (AdminProfile_values_of p') of
           Some err \<Rightarrow> Inl err
         | None \<Rightarrow> (let p'' = p'\<lparr>ap_updatedAt := now\<rparr> in Inr (p'', AdminProfile_write p'' st)))"

section \<open>Serialization of users\<close>

datatype json =
    JNull | JBool bool | JNum int | JStr string | JArr "json list" | JObj "(string \<times> json) list"

definition json_opt :: "('a \<Rightarrow> json) \<Rightarrow> 'a option \<Rightarrow> json" where
  "json_opt f v = (case v of None \<Rightarrow> JNull | Some x \<Rightarrow> f x)"

definition json_date :: "timestamp \<Rightarrow> json" where
  "json_date t = JNum (int t)"

definition AdminProfile_toJSON :: "adminProfile \<Rightarrow> json" where
  "AdminProfile_toJSON p =
     JObj [(''id'', JNum (int (ap_id p))), (''userId'', JNum (int (ap_userId p))),
           (''firstName'', JStr (ap_firstName p)), (''lastName'', JStr (ap_lastName p)),
           (''phoneNumber'', json_opt JStr (ap_phoneNumber p)),
           (''address'', json_opt JStr (ap_address p)), (''city'', json_opt JStr (ap_city p)),
           (''bio'', json_opt JStr (ap_bio p)),
           (''profilePicture'', json_opt JStr (ap_profilePicture p)),
           (''createdAt'', json_date (ap_createdAt p)),
           (''updatedAt'', json_date (ap_updatedAt p)),
           (''deletedAt'', json_opt json_date (ap_deletedAt p))]"

text \<open>
  \<open>super.toJSON()\<close>: the values the instance holds, that is the attributes the finder
  loaded (all of them after \<open>create\<close>) and, when the finder had the include, the key
  \<open>adminProfile\<close>.
\<close>

definition User_get_plain :: "string list \<Rightarrow> user \<Rightarrow> adminProfile option option \<Rightarrow> (string \<times> json) list" where
  "User_get_plain excluded u inc =
     filter (\<lambda>kv. fst kv \<notin> set excluded)
       [(''id'', JNum (int (u_id u))), (''email'', JStr (u_email u)),
        (''password'', JStr (u_password u)), (''accountType'', JStr (u_accountType u)),
        (''authProvider'', JStr (u_authProvider u)), (''isActive'', JBool (u_isActive u)),
        (''lastPasswordChange'', json_opt json_date (u_lastPasswordChange u)),
        (''createdAt'', json_date (u_createdAt u)), (''updatedAt'', json_date (u_updatedAt u)),
        (''deletedAt'', json_opt json_date (u_deletedAt u))] @
     (case inc of
        None \<Rightarrow> []
      | Some prof \<Rightarrow> [(''adminProfile'', json_opt AdminProfile_toJSON prof)])"

text \<open>\<open>User.toJSON\<close>: \<open>delete values.password\<close>.\<close>

definition User_toJSON :: "string list \<Rightarrow> user \<Rightarrow> adminProfile option option \<Rightarrow> json" where
  "User_toJSON excluded u inc =
     JObj (filter (\<lambda>kv. fst kv \<noteq> ''password'') (User_get_plain excluded u inc))"

fun has_key :: "string \<Rightarrow> json \<Rightarrow> bool" where
  "has_key k (JArr xs) = list_ex (has_key k) xs"
| "has_key k (JObj kvs) = list_ex (\<lambda>kv. fst kv = k \<or> has_key k (snd kv)) kvs"
| "has_key k v = False"

text \<open>The body \<open>res.json\<close> sends: absent members are left out.\<close>

definition json_message :: "message \<Rightarrow> json" where
  "json_message m = (case m of Msg s \<Rightarrow> JStr s | Msgs ss \<Rightarrow> JArr (map JStr ss))"

definition member :: "string \<Rightarrow> json option \<Rightarrow> (string \<times> json) list" where
  "member k v = (case v of None \<Rightarrow> [] | Some x \<Rightarrow> [(k, x)])"

definition response_body :: "json response \<Rightarrow> json" where
  "response_body r =
     JObj ([(''success'', JBool (success r))] @
           member ''message'' (map_option json_message (message r)) @
           member ''data'' (data r))"

section \<open>Admin controller\<close>

definition createAdmin :: "env \<Rightarrow> timestamp \<Rightarrow> db \<Rightarrow> admin_body \<Rightarrow> json response \<times> db" where
  "createAdmin ev now st body =
     (case ab_email body of
        None \<Rightarrow> (errorHandler (Error ''WHERE parameter email has invalid undefined value''), st)
      | Some email \<Rightarrow>
          (case User_findOne st (user_where_all\<lparr>uw_email := Some email\<rparr>) True True of
             Inl e \<Rightarrow> (errorHandler e, st)
           | Inr (Some existingUser) \<Rightarrow> (json_response 400 False ''Email already exists'' None, st)
           | Inr None \<Rightarrow>
               (case User_create ev now st (ab_email body) (ab_password body) ''admin'' ''local'' of
                  Inl e \<Rightarrow> (errorHandler e, st)
                | Inr (user, st1) \<Rightarrow>
                    (case AdminProfile_create now st1 (u_id user)
                            \<lparr>apv_firstName = ab_firstName body, apv_lastName = ab_lastName body,
                             apv_phoneNumber = ab_phoneNumber body, apv_address = ab_address body,
                             apv_city = ab_city body, apv_bio = ab_bio body,
                             apv_profilePicture = None\<rparr> of
                       Inl e \<Rightarrow> (errorHandler e, st1)
                     | Inr (adminProfile, st2) \<Rightarrow>
                         (json_response 201 True ''Admin created successfully''
                            (Some (JObj [(''user'', User_toJSON [] user None),
                                         (''adminProfile'', AdminProfile_toJSON adminProfile)])),
                          st2)))))"

record admin_query =
  aq_city :: "string option"
  aq_search :: "string option"
  aq_isActive :: "string option"
  aq_page :: "int option"
  aq_limit :: "int option"
  aq_sortBy :: "string option"
  aq_sortOrder :: "string option"
  aq_includeDeleted :: "string option"

record admin_list_response = "json response" +
  pagination :: "pagination option"
  filters :: "json option"

definition list_response_body :: "admin_list_response \<Rightarrow> json" where
  "list_response_body r =
     JObj ([(''success'', JBool (success r))] @
           member ''message'' (map_option json_message (message r)) @
           member ''data'' (data r) @
           (case pagination r of
              None \<Rightarrow> []
            | Some p \<Rightarrow>
                [(''pagination'',
                  JObj [(''currentPage'', JNum (currentPage p)),
                        (''totalPages'', (case totalPages p of Num n \<Rightarrow> JNum n | _ \<Rightarrow> JNull)),
                        (''totalItems'', JNum (totalItems p)),
                        (''itemsPerPage'', JNum (itemsPerPage p)),
                        (''hasNext'', JBool (hasNext p)), (''hasPrev'', JBool (hasPrev p)),
                        (''nextPageUrl'', json_opt JStr (nextPageUrl p)),
                        (''prevPageUrl'', json_opt JStr (prevPageUrl p))])]) @
           member ''filters'' (filters r))"

definition admin_list_where :: "admin_query \<Rightarrow> user_where" where
  "admin_list_where q =
     (let w0 = user_where_all\<lparr>uw_accountType := Some ''admin''\<rparr>;
          w1 = (case aq_isActive q of
                  Some a \<Rightarrow> w0\<lparr>uw_isActive := Some (a = ''true'')\<rparr>
                | None \<Rightarrow> w0);
          w2 = (if truthy (aq_city q) then w1\<lparr>uw_city := aq_city q\<rparr> else w1);
          w3 = (if truthy (aq_search q) then w2\<lparr>uw_search := aq_search q\<rparr> else w2)
      in w3)"

definition getAllAdmins :: "string \<Rightarrow> db \<Rightarrow> admin_query \<Rightarrow> admin_list_response" where
  "getAllAdmins route st q =
     (let pg = default_to 1 (aq_page q);
          limit = default_to 10 (aq_limit q);
          sortBy = default_to ''createdAt'' (aq_sortBy q);
          sortOrder = default_to ''DESC'' (aq_sortOrder q)
      in case User_findAndCountAll st (admin_list_where q) limit ((pg - 1) * limit) sortBy
                (toUpperCase sortOrder) (aq_includeDeleted q \<noteq> Some ''true'') of
           Inl e \<Rightarrow> response.extend (errorHandler e) \<lparr>pagination = None, filters = None\<rparr>
         | Inr (count, admins) \<Rightarrow>
             \<lparr>status = 200, success = True, message = None,
              data = Some (JArr (map (\<lambda>r. User_toJSON User_scope_exclude (fst r) (Some (snd r)))
                                   admins)),
              pagination = Some (make_pagination route pg limit count),
              filters = Some (JObj (member ''search'' (map_option JStr (aq_search q)) @
                                    member ''isActive'' (map_option JStr (aq_isActive q)) @
                                    member ''city'' (map_option JStr (aq_city q)) @
                                    member ''includeDeleted''
                                      (map_option JStr (aq_includeDeleted q))))\<rparr>)"

definition admin_where :: "nat \<Rightarrow> user_where" where
  "admin_where rid = user_where_all\<lparr>uw_id := Some rid, uw_accountType := Some ''admin''\<rparr>"

definition getAdminById :: "db \<Rightarrow> nat \<Rightarrow> json response" where
  "getAdminById st rid =
     (case User_findOne st (admin_where rid) True True of
        Inl e \<Rightarrow> errorHandler e
      | Inr None \<Rightarrow> json_response 404 False ''Admin not found'' None
      | Inr (Some admin) \<Rightarrow>
          \<lparr>status = 200, success = True, message = None,
           data = Some (User_toJSON User_scope_exclude (fst admin) (Some (snd admin)))\<rparr>)"

text \<open>
  \<open>updateAdmin\<close>. The user is written only inside
  \<open>if (updateData.email || updateData.password)\<close>; the profile update gets the same
  body. Each \<open>await\<close> commits on its own: an error of a later step leaves the earlier
  writes in the store.
\<close>

definition updateAdmin :: "env \<Rightarrow> timestamp \<Rightarrow> db \<Rightarrow> nat \<Rightarrow> admin_body \<Rightarrow> json response \<times> db" where
  "updateAdmin ev now st rid updateData =
     (case User_findOne st (admin_where rid) True True of
        Inl e \<Rightarrow> (errorHandler e, st)
      | Inr None \<Rightarrow> (json_response 404 False ''Admin not found'' None, st)
      | Inr (Some admin) \<Rightarrow>
          (case (if truthy (ab_email updateData) \<and> ab_email updateData \<noteq> Some (u_email (fst admin))
                 then User_findOne st
                        (user_where_all\<lparr>uw_email := ab_email updateData,
                                        uw_accountType := Some ''admin'',
                                        uw_not_id := Some rid\<rparr>) True True
                 else Inr None) of
             Inl e \<Rightarrow> (errorHandler e, st)
           | Inr (Some existingUser) \<Rightarrow>
               (json_response 400 False ''Email already exists for another admin'' None, st)
           | Inr None \<Rightarrow>
               (case (if truthy (ab_email updateData) \<or> truthy (ab_password updateData)
                      then map_sum (\<lambda>e. e) snd (User_update ev now st (fst admin) updateData)
                      else Inr st) of
                  Inl e \<Rightarrow> (errorHandler e, st)
                | Inr st1 \<Rightarrow>
                    (case (case snd admin of
                             Some adminProfile \<Rightarrow>
                               map_sum (\<lambda>e. e) snd (AdminProfile_update now st1 adminProfile updateData)
                           | None \<Rightarrow> Inr st1) of
                       Inl e \<Rightarrow> (errorHandler e, st1)
                     | Inr st2 \<Rightarrow>
                         (case User_findOne st2 (user_where_all\<lparr>uw_id := Some rid\<rparr>) True True of
                            Inl e \<Rightarrow> (errorHandler e, st2)
                          | Inr updatedAdmin \<Rightarrow>
                              (json_response 200 True ''Admin updated successfully''
                                 (Some (json_opt (\<lambda>r. User_toJSON [''password''] (fst r) (Some (snd r)))
                                          updatedAdmin)),
                               st2))))))"

definition deleteAdmin :: "timestamp \<Rightarrow> db \<Rightarrow> nat \<Rightarrow> json response \<times> db" where
  "deleteAdmin now st rid =
     (case User_findOne st (admin_where rid) True True of
        Inl e \<Rightarrow> (errorHandler e, st)
      | Inr None \<Rightarrow> (json_response 404 False ''Admin not found'' None, st)
      | Inr (Some admin) \<Rightarrow>
          (let st1 = (case snd admin of
                        Some adminProfile \<Rightarrow> AdminProfile_destroy now st adminProfile
                      | None \<Rightarrow> st);
               st2 = User_destroy now st1 (fst admin)
           in (json_response 200 True ''Admin deleted successfully'' None, st2)))"

definition restoreAdmin :: "timestamp \<Rightarrow> db \<Rightarrow> nat \<Rightarrow> json response \<times> db" where
  "restoreAdmin now st rid =
     (case User_findOne st (admin_where rid) False False of
        Inl e \<Rightarrow> (errorHandler e, st)
      | Inr None \<Rightarrow> (json_response 404 False ''Admin not found'' None, st)
      | Inr (Some admin) \<Rightarrow>
          (let st1 = User_restore now st (fst admin);
               st2 = (case snd admin of
                        Some adminProfile \<Rightarrow> AdminProfile_restore now st1 adminProfile
                      | None \<Rightarrow> st1)
           in (json_response 200 True ''Admin and profile restored successfully'' None, st2)))"

section \<open>Admin request validation: the email chain\<close>

text \<open>
  \<open>validateEmail\<close>: \<open>isEmail\<close>, \<open>normalizeEmail\<close>, \<open>isLength({ max: 255 })\<close> and the custom
  uniqueness check. The update list applies \<open>optional()\<close> to this very chain
  (\<open>baseUserValidations\<close> contains it), so an absent email skips it. \<open>pid\<close> is
  \<open>req.params?.id || 0\<close>.
\<close>

definition validateEmail :: "env \<Rightarrow> db \<Rightarrow> nat \<Rightarrow> string option \<Rightarrow> string list \<times> string option" where
  "validateEmail ev st pid v =
     (case v of
        None \<Rightarrow> ([], None)
      | Some value \<Rightarrow>
          (let e1 = (if isEmail ev value then [] else [''Invalid email format'']);
               value' = normalizeEmail ev value;
               e2 = (if length value' \<le> 255 then [] else [''Email must be less than 255 characters'']);
               e3 = (case User_findOne st
                            (user_where_all\<lparr>uw_email := Some value',
                                            uw_accountType := Some ''admin'',
                                            uw_not_id := Some pid\<rparr>) True True of
                       Inr (Some exists) \<Rightarrow> [''Email already exists for an admin'']
                     | _ \<Rightarrow> [])
           in (e1 @ e2 @ e3, Some value')))"

section \<open>Example stores\<close>

definition empty_db :: db where
  "empty_db = \<lparr>categories = [], products = [], users = [], adminProfiles = []\<rparr>"

definition ex_env :: env where
  "ex_env = \<lparr>bcrypt_hash = (\<lambda>p. ''$2a$12$'' @ rev p),
              isEmail = (\<lambda>e. CHR ''@'' \<in> set e),
              normalizeEmail = toLowerCase\<rparr>"

definition ex_admin :: user where
  "ex_admin =
     \<lparr>u_id = 1, u_email = ''ann@shop.example'', u_password = ''$2a$12$terces'',
      u_accountType = ''admin'', u_authProvider = ''local'', u_isActive = True,
      u_lastPasswordChange = Some 100, u_createdAt = 100, u_updatedAt = 100,
      u_deletedAt = None\<rparr>"

definition ex_profile :: adminProfile where
  "ex_profile =
     \<lparr>ap_id = 1, ap_userId = 1, ap_firstName = ''Ann'', ap_lastName = ''Lee'',
      ap_phoneNumber = None, ap_address = None, ap_city = None, ap_bio = None,
      ap_profilePicture = None, ap_createdAt = 100, ap_updatedAt = 100,
      ap_deletedAt = None\<rparr>"

definition ex_customer :: user where
  "ex_customer =
     \<lparr>u_id = 2, u_email = ''bob@mail.example'', u_password = ''$2a$12$drowssap'',
      u_accountType = ''customer'', u_authProvider = ''google'', u_isActive = True,
      u_lastPasswordChange = None, u_createdAt = 120, u_updatedAt = 120,
      u_deletedAt = None\<rparr>"

definition ex_admin_db :: db where
  "ex_admin_db = empty_db\<lparr>users := [ex_admin, ex_customer], adminProfiles := [ex_profile]\<rparr>"

definition ex_category :: category where
  "ex_category =
     \<lparr>cat_id = 1, cat_name = ''Fresh Vegetables'', cat_slug = ''fresh-vegetables'',
      cat_description = None, cat_isActive = True, cat_createdAt = 100,
      cat_updatedAt = 100, cat_deletedAt = None\<rparr>"

definition ex_product :: product where
  "ex_product =
     \<lparr>p_id = 1, p_categoryId = 1, p_name = ''Red Apple'', p_slug = ''red-apple'',
      p_description = ''A very red apple'', p_shortDescription = None, p_price = 2,
      p_quantity = 7, p_unitType = ''piece'', p_minQuantity = Some 5,
      p_maxQuantity = Some 10, p_manufactureDate = None, p_expiryDate = None,
      p_barcode = None, p_inStock = True, p_lowStockThreshold = Some 10, p_weight = None,
      p_dimensions = None, p_brand = None, p_isActive = True, p_createdAt = 110,
      p_updatedAt = 110, p_deletedAt = None\<rparr>"

definition ex_shop_db :: db where
  "ex_shop_db = empty_db\<lparr>categories := [ex_category], products := [ex_product]\<rparr>"

text \<open>The same shop after \<open>DELETE\<close> of the product and of a second category.\<close>

definition ex_deleted_category :: category where
  "ex_deleted_category =
     \<lparr>cat_id = 2, cat_name = ''Cakes'', cat_slug = ''cakes'', cat_description = None,
      cat_isActive = True, cat_createdAt = 100, cat_updatedAt = 150,
      cat_deletedAt = Some 150\<rparr>"

definition ex_deleted_product :: product where
  "ex_deleted_product = ex_product\<lparr>p_updatedAt := 160, p_deletedAt := Some 160\<rparr>"

definition ex_deleted_db :: db where
  "ex_deleted_db =
     empty_db\<lparr>categories := [ex_category, ex_deleted_category],
              products := [ex_deleted_product]\<rparr>"

definition category_query_none :: category_query where
  "category_query_none =
     \<lparr>q_page = None, q_limit = None, q_search = None, q_isActive = None,
      q_includeInactive = None, q_includeDeleted = None, q_sortBy = None,
      q_sortOrder = None\<rparr>"

definition product_query_none :: product_query where
  "product_query_none =
     \<lparr>pq_page = None, pq_limit = None, pq_search = None, pq_categoryId = None,
      pq_inStock = None, pq_minPrice = None, pq_maxPrice = None, pq_unitType = None,
      pq_isActive = None, pq_includeInactive = None, pq_includeDeleted = None,
      pq_sortBy = None, pq_sortOrder = None\<rparr>"

definition admin_query_none :: admin_query where
  "admin_query_none =
     \<lparr>aq_city = None, aq_search = None, aq_isActive = None, aq_page = None,
      aq_limit = None, aq_sortBy = None, aq_sortOrder = None, aq_includeDeleted = None\<rparr>"

definition category_body_none :: category_body where
  "category_body_none =
     \<lparr>b_name = None, b_slug = None, b_description = None, b_isActive = None\<rparr>"

definition product_body_none :: product_body where
  "product_body_none =
     \<lparr>pb_categoryId = None, pb_name = None, pb_slug = None, pb_description = None,
      pb_shortDescription = None, pb_price = None, pb_quantity = None, pb_unitType = None,
      pb_minQuantity = None, pb_maxQuantity = None, pb_manufactureDate = None,
      pb_expiryDate = None, pb_barcode = None, pb_lowStockThreshold = None,
      pb_weight = None, pb_dimensions = None, pb_brand = None, pb_isActive = None\<rparr>"

definition admin_body_none :: admin_body where
  "admin_body_none =
     \<lparr>ab_email = None, ab_password = None, ab_accountType = None, ab_authProvider = None,
      ab_isActive = None, ab_firstName = None, ab_lastName = None, ab_phoneNumber = None,
      ab_address = None, ab_city = None, ab_bio = None, ab_profilePicture = None\<rparr>"

text \<open>The property of a stored product that the \<open>beforeSave\<close> hook guards.\<close>

definition quantity_in_bounds :: "product \<Rightarrow> bool" where
  "quantity_in_bounds p =
     ((case p_minQuantity p of None \<Rightarrow> True | Some m \<Rightarrow> m \<le> p_quantity p) \<and>
      (case p_maxQuantity p of None \<Rightarrow> True | Some m \<Rightarrow> p_quantity p \<le> m))"

definition ex_product_body :: product_body where
  "ex_product_body =
     product_body_none\<lparr>pb_categoryId := Some 1, pb_name := Some ''Green Pear'',
       pb_description := Some ''A very green pear'', pb_price := Some (JsNumber 3),
       pb_quantity := Some (JsNumber 7), pb_minQuantity := Some (JsNumber 5),
       pb_maxQuantity := Some (JsNumber 10)\<rparr>"

definition ex_admin_body :: admin_body where
  "ex_admin_body =
     admin_body_none\<lparr>ab_email := Some ''cat@shop.example'', ab_password := Some ''Secret#123'',
       ab_firstName := Some ''Cat'', ab_lastName := Some ''Ray''\<rparr>"

text \<open>A shop with a second category that is inactive, and requests that name it again.\<close>

definition ex_inactive_category :: category where
  "ex_inactive_category =
     \<lparr>cat_id = 2, cat_name = ''Cakes'', cat_slug = ''cakes'', cat_description = None,
      cat_isActive = False, cat_createdAt = 100, cat_updatedAt = 150, cat_deletedAt = None\<rparr>"

definition ex_inactive_db :: db where
  "ex_inactive_db = empty_db\<lparr>categories := [ex_category, ex_inactive_category]\<rparr>"

section \<open>Restore on a record that is not deleted\<close>

text \<open>
  Claim C1: for every entity kind, restore on a record whose \<open>deletedAt\<close> is null is
  rejected with a 400 response and \<open>success = false\<close>. \<open>restoreAdmin\<close> has no such check:
  on the admin of the example store, who is not deleted, it answers 200 with
  \<open>success = true\<close> and leaves the store as it is.
\<close>

theorem restoreAdmin_not_deleted_succeeds:
  "u_deletedAt ex_admin = None \<and>
   restoreAdmin 500 ex_admin_db 1 =
     (\<lparr>status = 200, success = True,
       message = Some (Msg ''Admin and profile restored successfully''), data = None\<rparr>,
      ex_admin_db)"
  by code_simp

text \<open>
  \<open>restoreCategory\<close> and \<open>restoreProduct\<close> do test \<open>deletedAt === null\<close>, but on an instance
  loaded under the default scope, which leaves \<open>deletedAt\<close> out: the test compares
  \<open>undefined\<close> with \<open>null\<close> and never holds.
\<close>

lemma restoreCategory_not_deleted:
  "cat_deletedAt ex_category = None \<and>
   fst (restoreCategory 500 ex_shop_db 1) =
     \<lparr>status = 200, success = True, message = Some (Msg ''Category restored successfully''),
      data = Some (ex_category\<lparr>cat_updatedAt := 500\<rparr>)\<rparr>"
  by code_simp

lemma restoreProduct_not_deleted:
  "p_deletedAt ex_product = None \<and>
   fst (restoreProduct 500 ex_shop_db 1) =
     \<lparr>status = 200, success = True, message = Some (Msg ''Product restored successfully''),
      data = Some (ex_product\<lparr>p_updatedAt := 500\<rparr>)\<rparr>"
  by code_simp

section \<open>Soft-deleted rows in list results\<close>

text \<open>
  Claim C2: a list request whose \<open>includeDeleted\<close> is false or absent returns no
  soft-deleted row. The category and product lists compute \<open>paranoid: !includeDeleted\<close>
  on the query string, and the string \<open>false\<close> is truthy: with \<open>?includeDeleted=false\<close>
  both lists return the soft-deleted rows of the example store.
\<close>

theorem list_includeDeleted_false_returns_deleted:
  "map_option rows
     (data (getAllCategories ''/api/categories'' ex_deleted_db
              (category_query_none\<lparr>q_includeDeleted := Some ''false''\<rparr>)))
     = Some [ex_deleted_category, ex_category] \<and>
   cat_deletedAt ex_deleted_category = Some 150 \<and>
   map_option (map fst \<circ> rows)
     (data (getAllProducts ''/api/products'' ex_deleted_db
              (product_query_none\<lparr>pq_includeDeleted := Some ''false''\<rparr>)))
     = Some [ex_deleted_product] \<and>
   p_deletedAt ex_deleted_product = Some 160"
  by code_simp

section \<open>Error responses\<close>

lemma errorHandler_status: "status (errorHandler e) = 400 \<or> status (errorHandler e) = 500"
  by (cases e) (simp_all add: errorHandler_def)

lemma errorHandler_not_200 [simp]: "status (errorHandler e) \<noteq> 200"
  by (cases e) (simp_all add: errorHandler_def)

lemma errorHandler_not_201 [simp]: "status (errorHandler e) \<noteq> 201"
  by (cases e) (simp_all add: errorHandler_def)

lemma errorHandler_no_data [simp]: "data (errorHandler e) = None"
  by (cases e) (simp_all add: errorHandler_def)

lemma errorHandler_no_success [simp]: "success (errorHandler e) = False"
  by (cases e) (simp_all add: errorHandler_def)

lemma json_response_sel [simp]:
  "status (json_response s ok m d) = s"
  "success (json_response s ok m d) = ok"
  "data (json_response s ok m d) = d"
  by (simp_all add: json_response_def)

section \<open>The pagination envelope\<close>










section \<open>Finding and rewriting one row\<close>

lemma findOne_of_filter_Some:
  "findOne_of (filter P xs) = Some x \<Longrightarrow> x \<in> set xs \<and> P x"
proof -
  assume a: "findOne_of (filter P xs) = Some x"
  then obtain ys where "filter P xs = x # ys"
    by (cases "filter P xs") (simp_all add: findOne_of_def)
  then have "x \<in> set (filter P xs)" by simp
  then show ?thesis by simp
qed

lemma distinct_key_eq:
  assumes "distinct (map key xs)" and "x \<in> set xs" and "y \<in> set xs" and "key x = key y"
  shows "x = y"
proof -
  have "inj_on key (set xs)"
    using assms(1) by (simp add: distinct_map)
  then show ?thesis
    using assms(4) assms(2) assms(3) by (rule inj_onD)
qed

lemma key_not_in:
  assumes "key x \<notin> set (map key xs)" and "y \<in> set xs"
  shows "key y \<noteq> key x"
proof
  assume "key y = key x"
  moreover have "key y \<in> set (map key xs)"
    using assms(2) by simp
  ultimately show False
    using assms(1) by simp
qed

lemma filter_unique:
  assumes "distinct (map key xs)" and "x \<in> set xs" and "P x"
    and "\<forall>y \<in> set xs. P y \<longrightarrow> key y = key x"
  shows "filter P xs = [x]"
  using assms
proof (induction xs)
  case Nil
  then show ?case by simp
next
  case (Cons a xs)
  have all: "\<And>y. y \<in> set (a # xs) \<Longrightarrow> P y \<Longrightarrow> key y = key x"
    using Cons.prems(4) by blast
  show ?case
  proof (cases "a = x")
    case True
    have nk: "key x \<notin> set (map key xs)"
      using True Cons.prems(1) by simp
    have "\<forall>y \<in> set xs. \<not> P y"
    proof
      fix y assume y: "y \<in> set xs"
      show "\<not> P y"
      proof
        assume "P y"
        moreover have "y \<in> set (a # xs)" using y by simp
        ultimately have "key y = key x" by (rule all [rotated])
        moreover have "key y \<noteq> key x" using nk y by (rule key_not_in)
        ultimately show False by (rule notE [rotated])
      qed
    qed
    then have "filter P xs = []"
      by (simp add: filter_empty_conv)
    with True Cons.prems(3) show ?thesis by simp
  next
    case False
    then have xin: "x \<in> set xs" using Cons.prems(2) by simp
    have nk: "key a \<notin> set (map key xs)"
      using Cons.prems(1) by simp
    have npa: "\<not> P a"
    proof
      assume "P a"
      moreover have "a \<in> set (a # xs)" by simp
      ultimately have "key a = key x" by (rule all [rotated])
      then have "key x = key a" by (rule sym)
      moreover have "key x \<noteq> key a" using nk xin by (rule key_not_in)
      ultimately show False by (rule notE [rotated])
    qed
    have d: "distinct (map key xs)"
      using Cons.prems(1) by simp
    have all': "\<forall>y \<in> set xs. P y \<longrightarrow> key y = key x"
      using all by auto
    have "filter P xs = [x]"
      using d xin Cons.prems(3) all' by (rule Cons.IH)
    with npa show ?thesis by simp
  qed
qed

lemma findOne_of_filter_unique:
  assumes "distinct (map key xs)" and "x \<in> set xs" and "P x"
    and "\<forall>y \<in> set xs. P y \<longrightarrow> key y = key x"
  shows "findOne_of (filter P xs) = Some x"
proof -
  have "filter P xs = [x]"
    using assms by (rule filter_unique)
  then show ?thesis
    by (simp add: findOne_of_def)
qed

lemma write_row:
  assumes "distinct (map key xs)" and "x \<in> set xs" and "key (g x) = key x"
  shows "map (\<lambda>r. if key r = key (g x) then g x else r) xs
         = map (\<lambda>r. if key r = key x then g r else r) xs"
proof (rule map_cong [OF refl])
  fix r assume r: "r \<in> set xs"
  show "(if key r = key (g x) then g x else r) = (if key r = key x then g r else r)"
  proof (cases "key r = key x")
    case True
    then have "r = x"
      using distinct_key_eq [OF assms(1) r assms(2)] by simp
    then show ?thesis by (simp add: assms(3))
  next
    case False
    then show ?thesis by (simp add: assms(3))
  qed
qed

lemma map_key_rewrite:
  assumes "\<And>r. key (g r) = key r"
  shows "map key (map (\<lambda>r. if key r = k then g r else r) xs) = map key xs"
  using assms by (induction xs) simp_all

lemma Category_injectScope_id: "Category_injectScope (category_where_all\<lparr>cw_id := Some rid\<rparr>) =
    \<lparr>cw_id = Some rid, cw_name = None, cw_slug = None, cw_isActive = Some True,
      cw_not_id = None, cw_search = None\<rparr>"
  by (simp add: Category_injectScope_def category_where_all_def)

lemma Category_matches_id: "Category_matches \<lparr>cw_id = Some rid, cw_name = None, cw_slug = None, cw_isActive = Some True,
      cw_not_id = None, cw_search = None\<rparr> c = (cat_id c = rid \<and> cat_isActive c)"
  by (simp add: Category_matches_def opt_eq_def opt_neq_def)

lemma Category_findOne_id:
  "Category_findOne st (category_where_all\<lparr>cw_id := Some rid\<rparr>) par =
   findOne_of (filter (\<lambda>c. cat_id c = rid \<and> cat_isActive c \<and> not_deleted par (cat_deletedAt c))
                 (categories st))"
  by (simp add: Category_findOne_def Category_findAll_def Category_injectScope_id Category_matches_id conj_assoc)

lemma deleteCategory_200:
  assumes "distinct (map cat_id (categories st))"
    and "deleteCategory t1 st rid = (r1, st1)" and "status r1 = 200"
  shows "\<exists>c \<in> set (categories st). cat_id c = rid \<and> cat_isActive c \<and> cat_deletedAt c = None \<and>
           st1 = st\<lparr>categories := map (\<lambda>r. if cat_id r = rid
                                            then r\<lparr>cat_deletedAt := Some t1, cat_updatedAt := t1\<rparr>
                                            else r) (categories st)\<rparr>"
proof -
  from assms(2,3) obtain c where
    f: "Category_findOne st (category_where_all\<lparr>cw_id := Some rid\<rparr>) True = Some c"
    and s: "st1 = snd (Category_destroy t1 st c)"
    by (auto simp: deleteCategory_def split: option.splits)
  from f have c: "c \<in> set (categories st)" "cat_id c = rid" "cat_isActive c" "cat_deletedAt c = None"
    by (auto simp: Category_findOne_id not_deleted_def dest: findOne_of_filter_Some)
  let ?g = "\<lambda>r. r\<lparr>cat_deletedAt := Some t1, cat_updatedAt := t1\<rparr>"
  have w: "map (\<lambda>r. if cat_id r = cat_id (?g c) then ?g c else r) (categories st)
           = map (\<lambda>r. if cat_id r = cat_id c then ?g r else r) (categories st)"
    using assms(1) c(1) by (rule write_row [where key = cat_id]) simp
  have "st1 = st\<lparr>categories := map (\<lambda>r. if cat_id r = cat_id (?g c) then ?g c else r) (categories st)\<rparr>"
    using s by (simp add: Category_destroy_def get_deletedAt_def Category_scope_exclude_def
        Category_write_def Let_def)
  then have st1: "st1 = st\<lparr>categories := map (\<lambda>r. if cat_id r = rid then ?g r else r) (categories st)\<rparr>"
    unfolding w c(2) .
  show ?thesis
    by (rule bexI [OF _ c(1)]) (simp only: c(2,3,4) st1 simp_thms)
qed

lemma restoreCategory_after_delete:
  assumes "distinct (map cat_id cs)" "c \<in> set cs" "cat_id c = rid" "cat_isActive c"
    and "categories st1 = map (\<lambda>r. if cat_id r = rid
                                    then r\<lparr>cat_deletedAt := Some t1, cat_updatedAt := t1\<rparr>
                                    else r) cs"
    and "restoreCategory t2 st1 rid = (r2, st2)"
  shows "status r2 = 200 \<and>
         st2 = st1\<lparr>categories := map (\<lambda>r. if cat_id r = rid
                                            then r\<lparr>cat_deletedAt := None, cat_updatedAt := t2\<rparr>
                                            else r) cs\<rparr>"
proof -
  let ?g = "\<lambda>r. r\<lparr>cat_deletedAt := Some t1, cat_updatedAt := t1\<rparr>"
  let ?h = "\<lambda>r. r\<lparr>cat_deletedAt := None, cat_updatedAt := t2\<rparr>"
  let ?cs1 = "categories st1"
  have "map cat_id ?cs1 = map cat_id cs"
    unfolding assms(5) by (rule map_key_rewrite) simp
  then have d1: "distinct (map cat_id ?cs1)"
    using assms(1) by simp
  have in1: "?g c \<in> set ?cs1"
    using assms(2,3) by (force simp: assms(5))
  have f: "Category_findOne st1 (category_where_all\<lparr>cw_id := Some rid\<rparr>) False = Some (?g c)"
    unfolding Category_findOne_id
    using d1 in1 by (rule findOne_of_filter_unique [where key = cat_id])
                    (simp_all add: assms(3,4) not_deleted_def)
  have w: "map (\<lambda>r. if cat_id r = cat_id (?h (?g c)) then ?h (?g c) else r) ?cs1
           = map (\<lambda>r. if cat_id r = cat_id (?g c) then ?h r else r) ?cs1"
    using d1 in1 by (rule write_row [where key = cat_id]) simp
  have e: "map (\<lambda>r. if cat_id r = cat_id (?g c) then ?h r else r) ?cs1
           = map (\<lambda>r. if cat_id r = rid then ?h r else r) cs"
    by (simp add: assms(3,5))
  have w': "map (\<lambda>r. if cat_id r = cat_id (?h (?g c)) then ?h (?g c) else r) ?cs1
            = map (\<lambda>r. if cat_id r = rid then ?h r else r) cs"
    using w e by (rule trans)
  have "restoreCategory t2 st1 rid =
          (json_response 200 True ''Category restored successfully'' (Some (?h (?g c))),
           st1\<lparr>categories := map (\<lambda>r. if cat_id r = cat_id (?h (?g c)) then ?h (?g c) else r) ?cs1\<rparr>)"
    by (simp add: restoreCategory_def f get_deletedAt_def Category_scope_exclude_def
        Category_restore_def Category_write_def Let_def)
  with assms(6) have "r2 = json_response 200 True ''Category restored successfully'' (Some (?h (?g c)))"
    and "st2 = st1\<lparr>categories := map (\<lambda>r. if cat_id r = cat_id (?h (?g c)) then ?h (?g c) else r) ?cs1\<rparr>"
    by simp_all
  then have "status r2 = 200"
    and "st2 = st1\<lparr>categories := map (\<lambda>r. if cat_id r = rid then ?h r else r) cs\<rparr>"
    unfolding w' by (simp_all add: json_response_def)
  then show ?thesis
    by (rule conjI)
qed

lemma Product_injectScope_id: "Product_injectScope (product_where_all\<lparr>pw_id := Some rid\<rparr>) =
    \<lparr>pw_id = Some rid, pw_isActive = Some True, pw_categoryId = None, pw_inStock = None,
      pw_price_gte = None, pw_price_lte = None, pw_unitType = None, pw_search = None\<rparr>"
  by (simp add: Product_injectScope_def product_where_all_def)

lemma Product_matches_id: "Product_matches \<lparr>pw_id = Some rid, pw_isActive = Some True, pw_categoryId = None, pw_inStock = None,
      pw_price_gte = None, pw_price_lte = None, pw_unitType = None, pw_search = None\<rparr> c = (p_id c = rid \<and> p_isActive c)"
  by (simp add: Product_matches_def opt_eq_def opt_neq_def)

lemma Product_findOne_id:
  "Product_findOne st (product_where_all\<lparr>pw_id := Some rid\<rparr>) par =
   findOne_of (filter (\<lambda>c. p_id c = rid \<and> p_isActive c \<and> not_deleted par (p_deletedAt c))
                 (products st))"
  by (simp add: Product_findOne_def Product_findAll_def Product_injectScope_id Product_matches_id conj_assoc)

lemma deleteProduct_200:
  assumes "distinct (map p_id (products st))"
    and "deleteProduct t1 st rid = (r1, st1)" and "status r1 = 200"
  shows "\<exists>c \<in> set (products st). p_id c = rid \<and> p_isActive c \<and> p_deletedAt c = None \<and>
           st1 = st\<lparr>products := map (\<lambda>r. if p_id r = rid
                                            then r\<lparr>p_deletedAt := Some t1, p_updatedAt := t1\<rparr>
                                            else r) (products st)\<rparr>"
proof -
  from assms(2,3) obtain c where
    f: "Product_findOne st (product_where_all\<lparr>pw_id := Some rid\<rparr>) True = Some c"
    and s: "st1 = snd (Product_destroy t1 st c)"
    by (auto simp: deleteProduct_def split: option.splits)
  from f have c: "c \<in> set (products st)" "p_id c = rid" "p_isActive c" "p_deletedAt c = None"
    by (auto simp: Product_findOne_id not_deleted_def dest: findOne_of_filter_Some)
  let ?g = "\<lambda>r. r\<lparr>p_deletedAt := Some t1, p_updatedAt := t1\<rparr>"
  have w: "map (\<lambda>r. if p_id r = p_id (?g c) then ?g c else r) (products st)
           = map (\<lambda>r. if p_id r = p_id c then ?g r else r) (products st)"
    using assms(1) c(1) by (rule write_row [where key = p_id]) simp
  have "st1 = st\<lparr>products := map (\<lambda>r. if p_id r = p_id (?g c) then ?g c else r) (products st)\<rparr>"
    using s by (simp add: Product_destroy_def get_deletedAt_def Product_scope_exclude_def
        Product_write_def Let_def)
  then have st1: "st1 = st\<lparr>products := map (\<lambda>r. if p_id r = rid then ?g r else r) (products st)\<rparr>"
    unfolding w c(2) .
  show ?thesis
    by (rule bexI [OF _ c(1)]) (simp only: c(2,3,4) st1 simp_thms)
qed

lemma restoreProduct_after_delete:
  assumes "distinct (map p_id ps)" "c \<in> set ps" "p_id c = rid" "p_isActive c"
    and "products st1 = map (\<lambda>r. if p_id r = rid
                                    then r\<lparr>p_deletedAt := Some t1, p_updatedAt := t1\<rparr>
                                    else r) ps"
    and "restoreProduct t2 st1 rid = (r2, st2)"
  shows "status r2 = 200 \<and>
         st2 = st1\<lparr>products := map (\<lambda>r. if p_id r = rid
                                            then r\<lparr>p_deletedAt := None, p_updatedAt := t2\<rparr>
                                            else r) ps\<rparr>"
proof -
  let ?g = "\<lambda>r. r\<lparr>p_deletedAt := Some t1, p_updatedAt := t1\<rparr>"
  let ?h = "\<lambda>r. r\<lparr>p_deletedAt := None, p_updatedAt := t2\<rparr>"
  let ?ps1 = "products st1"
  have "map p_id ?ps1 = map p_id ps"
    unfolding assms(5) by (rule map_key_rewrite) simp
  then have d1: "distinct (map p_id ?ps1)"
    using assms(1) by simp
  have in1: "?g c \<in> set ?ps1"
    using assms(2,3) by (force simp: assms(5))
  have f: "Product_findOne st1 (product_where_all\<lparr>pw_id := Some rid\<rparr>) False = Some (?g c)"
    unfolding Product_findOne_id
    using d1 in1 by (rule findOne_of_filter_unique [where key = p_id])
                    (simp_all add: assms(3,4) not_deleted_def)
  have w: "map (\<lambda>r. if p_id r = p_id (?h (?g c)) then ?h (?g c) else r) ?ps1
           = map (\<lambda>r. if p_id r = p_id (?g c) then ?h r else r) ?ps1"
    using d1 in1 by (rule write_row [where key = p_id]) simp
  have e: "map (\<lambda>r. if p_id r = p_id (?g c) then ?h r else r) ?ps1
           = map (\<lambda>r. if p_id r = rid then ?h r else r) ps"
    by (simp add: assms(3,5))
  have w': "map (\<lambda>r. if p_id r = p_id (?h (?g c)) then ?h (?g c) else r) ?ps1
            = map (\<lambda>r. if p_id r = rid then ?h r else r) ps"
    using w e by (rule trans)
  have "restoreProduct t2 st1 rid =
          (json_response 200 True ''Product restored successfully'' (Some (?h (?g c))),
           st1\<lparr>products := map (\<lambda>r. if p_id r = p_id (?h (?g c)) then ?h (?g c) else r) ?ps1\<rparr>)"
    by (simp add: restoreProduct_def f get_deletedAt_def Product_scope_exclude_def
        Product_restore_def Product_write_def Let_def)
  with assms(6) have "r2 = json_response 200 True ''Product restored successfully'' (Some (?h (?g c)))"
    and "st2 = st1\<lparr>products := map (\<lambda>r. if p_id r = p_id (?h (?g c)) then ?h (?g c) else r) ?ps1\<rparr>"
    by simp_all
  then have "status r2 = 200"
    and "st2 = st1\<lparr>products := map (\<lambda>r. if p_id r = rid then ?h r else r) ps\<rparr>"
    unfolding w' by (simp_all add: json_response_def)
  then show ?thesis
    by (rule conjI)
qed

lemma findOne_of_map: "findOne_of (map f xs) = map_option f (findOne_of xs)"
  by (cases xs) (simp_all add: findOne_of_def)

lemma findOne_of_filter_None:
  assumes "findOne_of (filter P xs) = None" and "x \<in> set xs"
  shows "\<not> P x"
proof -
  have "filter P xs = []"
    using assms(1) by (cases "filter P xs") (simp_all add: findOne_of_def)
  then show ?thesis
    using assms(2) by (simp add: filter_empty_conv)
qed

lemma write_row2:
  assumes "distinct (map key xs)" and "distinct (map keyb xs)" and "x \<in> set xs"
    and "key (g x) = key x"
  shows "map (\<lambda>r. if key r = key (g x) then g x else r) xs
         = map (\<lambda>r. if keyb r = keyb x then g r else r) xs"
proof (rule map_cong [OF refl])
  fix r assume r: "r \<in> set xs"
  show "(if key r = key (g x) then g x else r) = (if keyb r = keyb x then g r else r)"
  proof (cases "r = x")
    case True
    then show ?thesis by (simp add: assms(4))
  next
    case False
    have "key r \<noteq> key x"
      using distinct_key_eq [OF assms(1) r assms(3)] False by blast
    moreover have "keyb r \<noteq> keyb x"
      using distinct_key_eq [OF assms(2) r assms(3)] False by blast
    ultimately show ?thesis by (simp add: assms(4))
  qed
qed

lemma admin_matches:
  "User_matches (admin_where rid) u prof = (u_id u = rid \<and> u_accountType u = ''admin'')"
  by (simp add: User_matches_def admin_where_def user_where_all_def opt_eq_def opt_neq_def)

lemma User_findOne_admin:
  "User_findOne st (admin_where rid) par ipar =
   Inr (map_option (\<lambda>u. (u, include_adminProfile st ipar u))
          (findOne_of (filter (\<lambda>u. u_id u = rid \<and> u_accountType u = ''admin''
                                    \<and> not_deleted par (u_deletedAt u)) (users st))))"
proof -
  have c: "uw_city (admin_where rid) = None"
    by (simp add: admin_where_def user_where_all_def)
  have "User_findAll st (admin_where rid) par ipar =
        Inr (map (\<lambda>u. (u, include_adminProfile st ipar u))
               (filter (\<lambda>u. u_id u = rid \<and> u_accountType u = ''admin''
                            \<and> not_deleted par (u_deletedAt u)) (users st)))"
    by (simp add: User_findAll_def c admin_matches filter_map comp_def conj_assoc)
  then show ?thesis
    by (simp add: User_findOne_def findOne_of_map)
qed

lemma AdminProfile_destroy_live:
  assumes "distinct (map ap_id (adminProfiles st))" and "distinct (map ap_userId (adminProfiles st))"
    and "p \<in> set (adminProfiles st)" and "ap_deletedAt p = None"
  shows "AdminProfile_destroy t st p =
         st\<lparr>adminProfiles := map (\<lambda>r. if ap_userId r = ap_userId p
                                        then r\<lparr>ap_deletedAt := Some t, ap_updatedAt := t\<rparr>
                                        else r) (adminProfiles st)\<rparr>"
proof -
  let ?g = "\<lambda>r. r\<lparr>ap_deletedAt := Some t, ap_updatedAt := t\<rparr>"
  have w: "map (\<lambda>r. if ap_id r = ap_id (?g p) then ?g p else r) (adminProfiles st)
           = map (\<lambda>r. if ap_userId r = ap_userId p then ?g r else r) (adminProfiles st)"
    using assms(1,2,3) by (rule write_row2 [where key = ap_id and keyb = ap_userId]) simp
  have "AdminProfile_destroy t st p =
        st\<lparr>adminProfiles := map (\<lambda>r. if ap_id r = ap_id (?g p) then ?g p else r) (adminProfiles st)\<rparr>"
    by (simp add: AdminProfile_destroy_def get_deletedAt_def assms(4) AdminProfile_write_def)
  then show ?thesis
    unfolding w .
qed

lemma AdminProfile_restore_deleted:
  assumes "distinct (map ap_id (adminProfiles st))" and "distinct (map ap_userId (adminProfiles st))"
    and "p \<in> set (adminProfiles st)" and "ap_deletedAt p \<noteq> None"
  shows "AdminProfile_restore t st p =
         st\<lparr>adminProfiles := map (\<lambda>r. if ap_userId r = ap_userId p
                                        then r\<lparr>ap_deletedAt := None, ap_updatedAt := t\<rparr>
                                        else r) (adminProfiles st)\<rparr>"
proof -
  let ?g = "\<lambda>r. r\<lparr>ap_deletedAt := None, ap_updatedAt := t\<rparr>"
  have w: "map (\<lambda>r. if ap_id r = ap_id (?g p) then ?g p else r) (adminProfiles st)
           = map (\<lambda>r. if ap_userId r = ap_userId p then ?g r else r) (adminProfiles st)"
    using assms(1,2,3) by (rule write_row2 [where key = ap_id and keyb = ap_userId]) simp
  from assms(4) obtain d where "ap_deletedAt p = Some d"
    by (cases "ap_deletedAt p") simp_all
  then have "AdminProfile_restore t st p =
        st\<lparr>adminProfiles := map (\<lambda>r. if ap_id r = ap_id (?g p) then ?g p else r) (adminProfiles st)\<rparr>"
    by (simp add: AdminProfile_restore_def get_deletedAt_def AdminProfile_write_def)
  then show ?thesis
    unfolding w .
qed

lemma User_destroy_live:
  assumes "distinct (map u_id (users st))" and "u \<in> set (users st)" and "u_deletedAt u = None"
  shows "User_destroy t st u =
         st\<lparr>users := map (\<lambda>r. if u_id r = u_id u
                                then r\<lparr>u_deletedAt := Some t, u_updatedAt := t\<rparr>
                                else r) (users st)\<rparr>"
proof -
  let ?g = "\<lambda>r. r\<lparr>u_deletedAt := Some t, u_updatedAt := t\<rparr>"
  have w: "map (\<lambda>r. if u_id r = u_id (?g u) then ?g u else r) (users st)
           = map (\<lambda>r. if u_id r = u_id u then ?g r else r) (users st)"
    using assms(1,2) by (rule write_row [where key = u_id]) simp
  have "User_destroy t st u =
        st\<lparr>users := map (\<lambda>r. if u_id r = u_id (?g u) then ?g u else r) (users st)\<rparr>"
    by (simp add: User_destroy_def get_deletedAt_def User_scope_exclude_def assms(3) User_write_def)
  then show ?thesis
    unfolding w .
qed

lemma User_restore_deleted:
  assumes "distinct (map u_id (users st))" and "u \<in> set (users st)" and "u_deletedAt u \<noteq> None"
  shows "User_restore t st u =
         st\<lparr>users := map (\<lambda>r. if u_id r = u_id u
                                then r\<lparr>u_deletedAt := None, u_updatedAt := t\<rparr>
                                else r) (users st)\<rparr>"
proof -
  let ?g = "\<lambda>r. r\<lparr>u_deletedAt := None, u_updatedAt := t\<rparr>"
  have w: "map (\<lambda>r. if u_id r = u_id (?g u) then ?g u else r) (users st)
           = map (\<lambda>r. if u_id r = u_id u then ?g r else r) (users st)"
    using assms(1,2) by (rule write_row [where key = u_id]) simp
  from assms(3) obtain d where "u_deletedAt u = Some d"
    by (cases "u_deletedAt u") simp_all
  then have "User_restore t st u =
        st\<lparr>users := map (\<lambda>r. if u_id r = u_id (?g u) then ?g u else r) (users st)\<rparr>"
    by (simp add: User_restore_def get_deletedAt_def User_scope_exclude_def User_write_def)
  then show ?thesis
    unfolding w .
qed

text \<open>The profile table after \<open>deleteAdmin\<close>: the live profile of the user, if any, is marked.\<close>

lemma deleteAdmin_profiles:
  assumes "distinct (map ap_id (adminProfiles st))" and "distinct (map ap_userId (adminProfiles st))"
  shows "(case include_adminProfile st True u of
            Some adminProfile \<Rightarrow> AdminProfile_destroy t st adminProfile
          | None \<Rightarrow> st) =
         st\<lparr>adminProfiles := map (\<lambda>r. if ap_userId r = u_id u \<and> ap_deletedAt r = None
                                        then r\<lparr>ap_deletedAt := Some t, ap_updatedAt := t\<rparr>
                                        else r) (adminProfiles st)\<rparr>"
proof (cases "include_adminProfile st True u")
  case None
  have "\<forall>r \<in> set (adminProfiles st). \<not> (ap_userId r = u_id u \<and> ap_deletedAt r = None)"
  proof
    fix r assume "r \<in> set (adminProfiles st)"
    with None show "\<not> (ap_userId r = u_id u \<and> ap_deletedAt r = None)"
      unfolding include_adminProfile_def not_deleted_def
      by (simp only: if_True) (rule findOne_of_filter_None)
  qed
  then have "map (\<lambda>r. if ap_userId r = u_id u \<and> ap_deletedAt r = None
                       then r\<lparr>ap_deletedAt := Some t, ap_updatedAt := t\<rparr> else r) (adminProfiles st)
             = adminProfiles st"
    by (intro map_idI) auto
  with None show ?thesis by simp
next
  case (Some p)
  then have p: "p \<in> set (adminProfiles st)" "ap_userId p = u_id u" "ap_deletedAt p = None"
    unfolding include_adminProfile_def not_deleted_def
    by (auto dest: findOne_of_filter_Some)
  have "map (\<lambda>r. if ap_userId r = ap_userId p
                  then r\<lparr>ap_deletedAt := Some t, ap_updatedAt := t\<rparr> else r) (adminProfiles st)
        = map (\<lambda>r. if ap_userId r = u_id u \<and> ap_deletedAt r = None
                    then r\<lparr>ap_deletedAt := Some t, ap_updatedAt := t\<rparr> else r) (adminProfiles st)"
  proof (rule map_cong [OF refl])
    fix r assume r: "r \<in> set (adminProfiles st)"
    show "(if ap_userId r = ap_userId p then r\<lparr>ap_deletedAt := Some t, ap_updatedAt := t\<rparr> else r)
          = (if ap_userId r = u_id u \<and> ap_deletedAt r = None
             then r\<lparr>ap_deletedAt := Some t, ap_updatedAt := t\<rparr> else r)"
    proof (cases "ap_userId r = ap_userId p")
      case True
      then have "r = p"
        using distinct_key_eq [OF assms(2) r p(1)] by simp
      then show ?thesis by (simp add: p)
    next
      case False
      then show ?thesis by (simp add: p(2))
    qed
  qed
  then show ?thesis
    using Some AdminProfile_destroy_live [OF assms p(1) p(3), of t] by simp
qed

lemma map_key_cond:
  assumes "\<And>r. key (g r) = key r"
  shows "map key (map (\<lambda>r. if C r then g r else r) xs) = map key xs"
  using assms by (induction xs) simp_all

lemma include_adminProfile_cong:
  "adminProfiles st' = adminProfiles st
   \<Longrightarrow> include_adminProfile st' par u = include_adminProfile st par u"
  by (simp add: include_adminProfile_def)

text \<open>The profile table after \<open>restoreAdmin\<close>, when every profile of the user is marked deleted.\<close>

lemma restoreAdmin_profiles:
  assumes "distinct (map ap_id (adminProfiles st))" and "distinct (map ap_userId (adminProfiles st))"
    and del: "\<forall>r \<in> set (adminProfiles st). ap_userId r = u_id u \<longrightarrow> ap_deletedAt r \<noteq> None"
  shows "(case include_adminProfile st False u of
            Some adminProfile \<Rightarrow> AdminProfile_restore t st adminProfile
          | None \<Rightarrow> st) =
         st\<lparr>adminProfiles := map (\<lambda>r. if ap_userId r = u_id u
                                        then r\<lparr>ap_deletedAt := None, ap_updatedAt := t\<rparr>
                                        else r) (adminProfiles st)\<rparr>"
proof (cases "include_adminProfile st False u")
  case None
  have "\<forall>r \<in> set (adminProfiles st). \<not> (ap_userId r = u_id u)"
  proof
    fix r assume r: "r \<in> set (adminProfiles st)"
    have "\<not> (ap_userId r = u_id u \<and> not_deleted False (ap_deletedAt r))"
      using None r unfolding include_adminProfile_def by (rule findOne_of_filter_None)
    then show "\<not> (ap_userId r = u_id u)"
      by (simp add: not_deleted_def)
  qed
  then have "map (\<lambda>r. if ap_userId r = u_id u
                       then r\<lparr>ap_deletedAt := None, ap_updatedAt := t\<rparr> else r) (adminProfiles st)
             = adminProfiles st"
    by (intro map_idI) auto
  with None show ?thesis by simp
next
  case (Some p)
  then have p: "p \<in> set (adminProfiles st)" "ap_userId p = u_id u"
    unfolding include_adminProfile_def not_deleted_def
    by (auto dest: findOne_of_filter_Some)
  then have "ap_deletedAt p \<noteq> None"
    using del by blast
  then show ?thesis
    using Some AdminProfile_restore_deleted [OF assms(1,2) p(1), of t] p(2) by simp
qed

lemma deleteAdmin_200:
  assumes du: "distinct (map u_id (users st))"
    and dp: "distinct (map ap_id (adminProfiles st))"
    and dq: "distinct (map ap_userId (adminProfiles st))"
    and del: "deleteAdmin t1 st rid = (r1, st1)" and ok: "status r1 = 200"
  shows "\<exists>u \<in> set (users st). u_id u = rid \<and> u_accountType u = ''admin'' \<and>
           st1 = st\<lparr>users := map (\<lambda>r. if u_id r = rid
                                       then r\<lparr>u_deletedAt := Some t1, u_updatedAt := t1\<rparr>
                                       else r) (users st),
                     adminProfiles := map (\<lambda>r. if ap_userId r = rid \<and> ap_deletedAt r = None
                                               then r\<lparr>ap_deletedAt := Some t1, ap_updatedAt := t1\<rparr>
                                               else r) (adminProfiles st)\<rparr>"
proof -
  let ?found = "findOne_of (filter (\<lambda>u. u_id u = rid \<and> u_accountType u = ''admin''
                                        \<and> not_deleted True (u_deletedAt u)) (users st))"
  from del ok obtain u where f: "?found = Some u"
    by (cases ?found) (auto simp: deleteAdmin_def User_findOne_admin)
  then have u: "u \<in> set (users st)" "u_id u = rid" "u_accountType u = ''admin''"
    "u_deletedAt u = None"
    by (auto simp: not_deleted_def dest: findOne_of_filter_Some)
  let ?st' = "st\<lparr>adminProfiles := map (\<lambda>r. if ap_userId r = u_id u \<and> ap_deletedAt r = None
                                             then r\<lparr>ap_deletedAt := Some t1, ap_updatedAt := t1\<rparr>
                                             else r) (adminProfiles st)\<rparr>"
  have s1: "st1 = User_destroy t1 ?st' u"
    using del f deleteAdmin_profiles [OF dp dq, where u = u and t = t1]
    by (simp add: deleteAdmin_def User_findOne_admin Let_def)
  have "User_destroy t1 ?st' u =
        ?st'\<lparr>users := map (\<lambda>r. if u_id r = u_id u
                                then r\<lparr>u_deletedAt := Some t1, u_updatedAt := t1\<rparr>
                                else r) (users ?st')\<rparr>"
    by (rule User_destroy_live) (simp_all add: du u)
  with s1 have "st1 = st\<lparr>users := map (\<lambda>r. if u_id r = rid
                                       then r\<lparr>u_deletedAt := Some t1, u_updatedAt := t1\<rparr>
                                       else r) (users st),
                     adminProfiles := map (\<lambda>r. if ap_userId r = rid \<and> ap_deletedAt r = None
                                               then r\<lparr>ap_deletedAt := Some t1, ap_updatedAt := t1\<rparr>
                                               else r) (adminProfiles st)\<rparr>"
    by (simp add: u(2))
  with u show ?thesis
    by (intro bexI [of _ u]) simp_all
qed

lemma restoreAdmin_after_delete:
  assumes du: "distinct (map u_id us)"
    and dp: "distinct (map ap_id ps)"
    and dq: "distinct (map ap_userId ps)"
    and u: "u \<in> set us" "u_id u = rid" "u_accountType u = ''admin''"
    and us1: "users st1 = map (\<lambda>r. if u_id r = rid
                                    then r\<lparr>u_deletedAt := Some t1, u_updatedAt := t1\<rparr>
                                    else r) us"
    and ps1: "adminProfiles st1 = map (\<lambda>r. if ap_userId r = rid \<and> ap_deletedAt r = None
                                            then r\<lparr>ap_deletedAt := Some t1, ap_updatedAt := t1\<rparr>
                                            else r) ps"
    and res: "restoreAdmin t2 st1 rid = (r2, st2)"
  shows "status r2 = 200 \<and>
         st2 = st1\<lparr>users := map (\<lambda>r. if u_id r = rid
                                       then r\<lparr>u_deletedAt := None, u_updatedAt := t2\<rparr>
                                       else r) us,
                    adminProfiles := map (\<lambda>r. if ap_userId r = rid
                                               then r\<lparr>ap_deletedAt := None, ap_updatedAt := t2\<rparr>
                                               else r) ps\<rparr>"
proof -
  let ?g = "\<lambda>r. r\<lparr>u_deletedAt := Some t1, u_updatedAt := t1\<rparr>"
  have "map u_id (users st1) = map u_id us"
    unfolding us1 by (rule map_key_cond) simp
  then have du1: "distinct (map u_id (users st1))"
    using du by simp
  have "map ap_id (adminProfiles st1) = map ap_id ps"
    unfolding ps1 by (rule map_key_cond) simp
  then have dp1: "distinct (map ap_id (adminProfiles st1))"
    using dp by simp
  have "map ap_userId (adminProfiles st1) = map ap_userId ps"
    unfolding ps1 by (rule map_key_cond) simp
  then have dq1: "distinct (map ap_userId (adminProfiles st1))"
    using dq by simp
  have in1: "?g u \<in> set (users st1)"
    using u(1,2) by (force simp: us1)
  have f: "findOne_of (filter (\<lambda>u. u_id u = rid \<and> u_accountType u = ''admin''
                                    \<and> not_deleted False (u_deletedAt u)) (users st1)) = Some (?g u)"
    using du1 in1 by (rule findOne_of_filter_unique [where key = u_id])
                     (simp_all add: u not_deleted_def)
  let ?sta = "st1\<lparr>users := map (\<lambda>r. if u_id r = u_id u
                                    then r\<lparr>u_deletedAt := None, u_updatedAt := t2\<rparr>
                                    else r) (users st1)\<rparr>"
  have ra: "User_restore t2 st1 (?g u) = ?sta"
    using User_restore_deleted [OF du1 in1, of t2] by simp
  have alldel: "\<forall>r \<in> set (adminProfiles ?sta). ap_userId r = u_id (?g u) \<longrightarrow> ap_deletedAt r \<noteq> None"
  proof
    fix r assume "r \<in> set (adminProfiles ?sta)"
    then have "r \<in> (\<lambda>r. if ap_userId r = rid \<and> ap_deletedAt r = None
                          then r\<lparr>ap_deletedAt := Some t1, ap_updatedAt := t1\<rparr> else r) ` set ps"
      by (simp add: ps1)
    then obtain q where r: "r = (if ap_userId q = rid \<and> ap_deletedAt q = None
                                 then q\<lparr>ap_deletedAt := Some t1, ap_updatedAt := t1\<rparr> else q)"
      by (rule imageE)
    show "ap_userId r = u_id (?g u) \<longrightarrow> ap_deletedAt r \<noteq> None"
    proof (cases "ap_userId q = rid \<and> ap_deletedAt q = None")
      case True
      then show ?thesis by (simp add: r)
    next
      case False
      then show ?thesis by (simp add: r u(2))
    qed
  qed
  have inc: "include_adminProfile st1 False (?g u) = include_adminProfile ?sta False (?g u)"
    by (rule include_adminProfile_cong [symmetric]) simp
  have rp: "(case include_adminProfile ?sta False (?g u) of
               Some adminProfile \<Rightarrow> AdminProfile_restore t2 ?sta adminProfile
             | None \<Rightarrow> ?sta) =
            ?sta\<lparr>adminProfiles := map (\<lambda>r. if ap_userId r = u_id (?g u)
                                             then r\<lparr>ap_deletedAt := None, ap_updatedAt := t2\<rparr>
                                             else r) (adminProfiles ?sta)\<rparr>"
  proof (rule restoreAdmin_profiles)
    show "distinct (map ap_id (adminProfiles ?sta))" using dp1 by simp
    show "distinct (map ap_userId (adminProfiles ?sta))" using dq1 by simp
    show "\<forall>r \<in> set (adminProfiles ?sta). ap_userId r = u_id (?g u) \<longrightarrow> ap_deletedAt r \<noteq> None"
      by (rule alldel)
  qed
  have r: "restoreAdmin t2 st1 rid =
           (json_response 200 True ''Admin and profile restored successfully'' None,
            ?sta\<lparr>adminProfiles := map (\<lambda>r. if ap_userId r = u_id (?g u)
                                             then r\<lparr>ap_deletedAt := None, ap_updatedAt := t2\<rparr>
                                             else r) (adminProfiles ?sta)\<rparr>)"
    unfolding restoreAdmin_def User_findOne_admin f
    by (simp add: Let_def ra inc rp del: include_adminProfile_def)
  have eu: "map (\<lambda>r. if u_id r = u_id u
                     then r\<lparr>u_deletedAt := None, u_updatedAt := t2\<rparr> else r) (users st1)
            = map (\<lambda>r. if u_id r = rid
                       then r\<lparr>u_deletedAt := None, u_updatedAt := t2\<rparr> else r) us"
    by (simp add: us1 u(2))
  have ep: "map (\<lambda>r. if ap_userId r = u_id u
                     then r\<lparr>ap_deletedAt := None, ap_updatedAt := t2\<rparr> else r) (adminProfiles st1)
            = map (\<lambda>r. if ap_userId r = rid
                       then r\<lparr>ap_deletedAt := None, ap_updatedAt := t2\<rparr> else r) ps"
    by (simp add: ps1 u(2))
  from res r have "r2 = json_response 200 True ''Admin and profile restored successfully'' None"
    and "st2 = st1\<lparr>users := map (\<lambda>r. if u_id r = u_id u
                                       then r\<lparr>u_deletedAt := None, u_updatedAt := t2\<rparr>
                                       else r) (users st1),
                    adminProfiles := map (\<lambda>r. if ap_userId r = u_id u
                                               then r\<lparr>ap_deletedAt := None, ap_updatedAt := t2\<rparr>
                                               else r) (adminProfiles st1)\<rparr>"
    by simp_all
  then have "status r2 = 200"
    and "st2 = st1\<lparr>users := map (\<lambda>r. if u_id r = rid
                                       then r\<lparr>u_deletedAt := None, u_updatedAt := t2\<rparr>
                                       else r) us,
                    adminProfiles := map (\<lambda>r. if ap_userId r = rid
                                               then r\<lparr>ap_deletedAt := None, ap_updatedAt := t2\<rparr>
                                               else r) ps\<rparr>"
    unfolding ep eu by simp_all
  then show ?thesis
    by (rule conjI)
qed

section \<open>Soft delete followed by restore\<close>

text \<open>
  Claim C7: for every entity, a soft delete followed by a restore leaves a stored record
  equal to the record before the delete on every field except \<open>deletedAt\<close>, which is null
  again, and \<open>updatedAt\<close>, which is refreshed; nothing else is modified. Stated on the whole
  store, whose keys are distinct: after a \<open>DELETE\<close> answered with 200 at time \<open>ta\<close>, the
  restore at time \<open>tb\<close> answers 200 and the store is the one before the delete with
  \<open>deletedAt = null\<close> and \<open>updatedAt = tb\<close> in the rows of that id (for an admin: the user
  row and its profile row), every other row and every other table as before.
\<close>

theorem delete_restore_frame:
  "(distinct (map cat_id (categories st)) \<and>
    deleteCategory ta st rid = (rca, sa) \<and> status rca = 200 \<and>
    restoreCategory tb sa rid = (rcb, sb)
    \<longrightarrow> status rcb = 200 \<and>
        sb = st\<lparr>categories := map (\<lambda>r. if cat_id r = rid
                                         then r\<lparr>cat_deletedAt := None, cat_updatedAt := tb\<rparr>
                                         else r) (categories st)\<rparr>) \<and>
   (distinct (map p_id (products st)) \<and>
    deleteProduct ta st rid = (rpa, sa) \<and> status rpa = 200 \<and>
    restoreProduct tb sa rid = (rpb, sb)
    \<longrightarrow> status rpb = 200 \<and>
        sb = st\<lparr>products := map (\<lambda>r. if p_id r = rid
                                       then r\<lparr>p_deletedAt := None, p_updatedAt := tb\<rparr>
                                       else r) (products st)\<rparr>) \<and>
   (distinct (map u_id (users st)) \<and> distinct (map ap_id (adminProfiles st)) \<and>
    distinct (map ap_userId (adminProfiles st)) \<and>
    deleteAdmin ta st rid = (raa, sa) \<and> status raa = 200 \<and>
    restoreAdmin tb sa rid = (rab, sb)
    \<longrightarrow> status rab = 200 \<and>
        sb = st\<lparr>users := map (\<lambda>r. if u_id r = rid
                                    then r\<lparr>u_deletedAt := None, u_updatedAt := tb\<rparr>
                                    else r) (users st),
                adminProfiles := map (\<lambda>r. if ap_userId r = rid
                                            then r\<lparr>ap_deletedAt := None, ap_updatedAt := tb\<rparr>
                                            else r) (adminProfiles st)\<rparr>)"
proof (intro conjI; rule impI)
  assume a: "distinct (map cat_id (categories st)) \<and>
    deleteCategory ta st rid = (rca, sa) \<and> status rca = 200 \<and>
    restoreCategory tb sa rid = (rcb, sb)"
  then have d: "distinct (map cat_id (categories st))"
    and del: "deleteCategory ta st rid = (rca, sa)" and ok: "status rca = 200"
    and res: "restoreCategory tb sa rid = (rcb, sb)"
    by simp_all
  from deleteCategory_200 [OF d del ok] obtain c where
    c: "c \<in> set (categories st)" "cat_id c = rid" "cat_isActive c"
    and sa: "sa = st\<lparr>categories := map (\<lambda>r. if cat_id r = rid
                                           then r\<lparr>cat_deletedAt := Some ta, cat_updatedAt := ta\<rparr>
                                           else r) (categories st)\<rparr>"
    by blast
  have cs: "categories sa = map (\<lambda>r. if cat_id r = rid
                                      then r\<lparr>cat_deletedAt := Some ta, cat_updatedAt := ta\<rparr>
                                      else r) (categories st)"
    by (simp add: sa)
  have r: "status rcb = 200 \<and>
        sb = sa\<lparr>categories := map (\<lambda>r. if cat_id r = rid
                                         then r\<lparr>cat_deletedAt := None, cat_updatedAt := tb\<rparr>
                                         else r) (categories st)\<rparr>"
    using d c cs res by (rule restoreCategory_after_delete)
  then show "status rcb = 200 \<and>
        sb = st\<lparr>categories := map (\<lambda>r. if cat_id r = rid
                                         then r\<lparr>cat_deletedAt := None, cat_updatedAt := tb\<rparr>
                                         else r) (categories st)\<rparr>"
    by (simp add: sa)
next
  assume a: "distinct (map p_id (products st)) \<and>
    deleteProduct ta st rid = (rpa, sa) \<and> status rpa = 200 \<and>
    restoreProduct tb sa rid = (rpb, sb)"
  then have d: "distinct (map p_id (products st))"
    and del: "deleteProduct ta st rid = (rpa, sa)" and ok: "status rpa = 200"
    and res: "restoreProduct tb sa rid = (rpb, sb)"
    by simp_all
  from deleteProduct_200 [OF d del ok] obtain c where
    c: "c \<in> set (products st)" "p_id c = rid" "p_isActive c"
    and sa: "sa = st\<lparr>products := map (\<lambda>r. if p_id r = rid
                                         then r\<lparr>p_deletedAt := Some ta, p_updatedAt := ta\<rparr>
                                         else r) (products st)\<rparr>"
    by blast
  have cs: "products sa = map (\<lambda>r. if p_id r = rid
                                    then r\<lparr>p_deletedAt := Some ta, p_updatedAt := ta\<rparr>
                                    else r) (products st)"
    by (simp add: sa)
  have r: "status rpb = 200 \<and>
        sb = sa\<lparr>products := map (\<lambda>r. if p_id r = rid
                                       then r\<lparr>p_deletedAt := None, p_updatedAt := tb\<rparr>
                                       else r) (products st)\<rparr>"
    using d c cs res by (rule restoreProduct_after_delete)
  then show "status rpb = 200 \<and>
        sb = st\<lparr>products := map (\<lambda>r. if p_id r = rid
                                       then r\<lparr>p_deletedAt := None, p_updatedAt := tb\<rparr>
                                       else r) (products st)\<rparr>"
    by (simp add: sa)
next
  assume a: "distinct (map u_id (users st)) \<and> distinct (map ap_id (adminProfiles st)) \<and>
    distinct (map ap_userId (adminProfiles st)) \<and>
    deleteAdmin ta st rid = (raa, sa) \<and> status raa = 200 \<and>
    restoreAdmin tb sa rid = (rab, sb)"
  then have du: "distinct (map u_id (users st))"
    and dp: "distinct (map ap_id (adminProfiles st))"
    and dq: "distinct (map ap_userId (adminProfiles st))"
    and del: "deleteAdmin ta st rid = (raa, sa)" and ok: "status raa = 200"
    and res: "restoreAdmin tb sa rid = (rab, sb)"
    by simp_all
  from deleteAdmin_200 [OF du dp dq del ok] obtain u where
    u: "u \<in> set (users st)" "u_id u = rid" "u_accountType u = ''admin''"
    and sa: "sa = st\<lparr>users := map (\<lambda>r. if u_id r = rid
                                      then r\<lparr>u_deletedAt := Some ta, u_updatedAt := ta\<rparr>
                                      else r) (users st),
                     adminProfiles := map (\<lambda>r. if ap_userId r = rid \<and> ap_deletedAt r = None
                                              then r\<lparr>ap_deletedAt := Some ta, ap_updatedAt := ta\<rparr>
                                              else r) (adminProfiles st)\<rparr>"
    by blast
  have us: "users sa = map (\<lambda>r. if u_id r = rid
                                 then r\<lparr>u_deletedAt := Some ta, u_updatedAt := ta\<rparr>
                                 else r) (users st)"
    by (simp add: sa)
  have ps: "adminProfiles sa = map (\<lambda>r. if ap_userId r = rid \<and> ap_deletedAt r = None
                                         then r\<lparr>ap_deletedAt := Some ta, ap_updatedAt := ta\<rparr>
                                         else r) (adminProfiles st)"
    by (simp add: sa)
  have r: "status rab = 200 \<and>
        sb = sa\<lparr>users := map (\<lambda>r. if u_id r = rid
                                    then r\<lparr>u_deletedAt := None, u_updatedAt := tb\<rparr>
                                    else r) (users st),
                adminProfiles := map (\<lambda>r. if ap_userId r = rid
                                            then r\<lparr>ap_deletedAt := None, ap_updatedAt := tb\<rparr>
                                            else r) (adminProfiles st)\<rparr>"
    using du dp dq u us ps res by (rule restoreAdmin_after_delete)
  then show "status rab = 200 \<and>
        sb = st\<lparr>users := map (\<lambda>r. if u_id r = rid
                                    then r\<lparr>u_deletedAt := None, u_updatedAt := tb\<rparr>
                                    else r) (users st),
                adminProfiles := map (\<lambda>r. if ap_userId r = rid
                                            then r\<lparr>ap_deletedAt := None, ap_updatedAt := tb\<rparr>
                                            else r) (adminProfiles st)\<rparr>"
    by (simp add: sa)
qed

theorem delete_restore_frame_witness:
  "status (fst (deleteCategory 200 ex_shop_db 1)) = 200 \<and>
   status (fst (restoreCategory 300 (snd (deleteCategory 200 ex_shop_db 1)) 1)) = 200 \<and>
   snd (restoreCategory 300 (snd (deleteCategory 200 ex_shop_db 1)) 1)
     = ex_shop_db\<lparr>categories := [ex_category\<lparr>cat_updatedAt := 300\<rparr>]\<rparr> \<and>
   status (fst (deleteProduct 200 ex_shop_db 1)) = 200 \<and>
   status (fst (restoreProduct 300 (snd (deleteProduct 200 ex_shop_db 1)) 1)) = 200 \<and>
   snd (restoreProduct 300 (snd (deleteProduct 200 ex_shop_db 1)) 1)
     = ex_shop_db\<lparr>products := [ex_product\<lparr>p_updatedAt := 300\<rparr>]\<rparr> \<and>
   status (fst (deleteAdmin 200 ex_admin_db 1)) = 200 \<and>
   status (fst (restoreAdmin 300 (snd (deleteAdmin 200 ex_admin_db 1)) 1)) = 200 \<and>
   snd (restoreAdmin 300 (snd (deleteAdmin 200 ex_admin_db 1)) 1)
     = ex_admin_db\<lparr>users := [ex_admin\<lparr>u_updatedAt := 300\<rparr>, ex_customer],
                   adminProfiles := [ex_profile\<lparr>ap_updatedAt := 300\<rparr>]\<rparr>"
proof -
  have hc: "distinct (map cat_id (categories ex_shop_db))"
    "status (fst (deleteCategory 200 ex_shop_db 1)) = 200"
    by code_simp+
  have mc: "map (\<lambda>r. if cat_id r = 1 then r\<lparr>cat_deletedAt := None, cat_updatedAt := 300\<rparr>
                      else r) (categories ex_shop_db)
            = [ex_category\<lparr>cat_updatedAt := 300\<rparr>]"
    by (simp add: ex_shop_db_def empty_db_def ex_category_def)
  have "status (fst (restoreCategory 300 (snd (deleteCategory 200 ex_shop_db 1)) 1)) = 200 \<and>
        snd (restoreCategory 300 (snd (deleteCategory 200 ex_shop_db 1)) 1)
          = ex_shop_db\<lparr>categories :=
              map (\<lambda>r. if cat_id r = 1 then r\<lparr>cat_deletedAt := None, cat_updatedAt := 300\<rparr>
                        else r) (categories ex_shop_db)\<rparr>"
    using hc
    by (intro HOL.mp [OF conjunct1 [OF delete_restore_frame
         [where st = ex_shop_db and ta = 200 and tb = 300 and rid = 1
            and rca = "fst (deleteCategory 200 ex_shop_db 1)"
            and sa = "snd (deleteCategory 200 ex_shop_db 1)"
            and rcb = "fst (restoreCategory 300 (snd (deleteCategory 200 ex_shop_db 1)) 1)"
            and sb = "snd (restoreCategory 300 (snd (deleteCategory 200 ex_shop_db 1)) 1)"]]]) simp
  then have c: "status (fst (restoreCategory 300 (snd (deleteCategory 200 ex_shop_db 1)) 1)) = 200 \<and>
           snd (restoreCategory 300 (snd (deleteCategory 200 ex_shop_db 1)) 1)
             = ex_shop_db\<lparr>categories := [ex_category\<lparr>cat_updatedAt := 300\<rparr>]\<rparr>"
    unfolding mc .
  have hp: "distinct (map p_id (products ex_shop_db))"
    "status (fst (deleteProduct 200 ex_shop_db 1)) = 200"
    by code_simp+
  have mpr: "map (\<lambda>r. if p_id r = 1 then r\<lparr>p_deletedAt := None, p_updatedAt := 300\<rparr>
                      else r) (products ex_shop_db)
            = [ex_product\<lparr>p_updatedAt := 300\<rparr>]"
    by (simp add: ex_shop_db_def empty_db_def ex_product_def)
  have "status (fst (restoreProduct 300 (snd (deleteProduct 200 ex_shop_db 1)) 1)) = 200 \<and>
        snd (restoreProduct 300 (snd (deleteProduct 200 ex_shop_db 1)) 1)
          = ex_shop_db\<lparr>products :=
              map (\<lambda>r. if p_id r = 1 then r\<lparr>p_deletedAt := None, p_updatedAt := 300\<rparr>
                        else r) (products ex_shop_db)\<rparr>"
    using hp
    by (intro HOL.mp [OF conjunct1 [OF conjunct2 [OF delete_restore_frame
         [where st = ex_shop_db and ta = 200 and tb = 300 and rid = 1
            and rpa = "fst (deleteProduct 200 ex_shop_db 1)"
            and sa = "snd (deleteProduct 200 ex_shop_db 1)"
            and rpb = "fst (restoreProduct 300 (snd (deleteProduct 200 ex_shop_db 1)) 1)"
            and sb = "snd (restoreProduct 300 (snd (deleteProduct 200 ex_shop_db 1)) 1)"]]]]) simp
  then have p: "status (fst (restoreProduct 300 (snd (deleteProduct 200 ex_shop_db 1)) 1)) = 200 \<and>
           snd (restoreProduct 300 (snd (deleteProduct 200 ex_shop_db 1)) 1)
             = ex_shop_db\<lparr>products := [ex_product\<lparr>p_updatedAt := 300\<rparr>]\<rparr>"
    unfolding mpr .
  have ha: "distinct (map u_id (users ex_admin_db))"
    "distinct (map ap_id (adminProfiles ex_admin_db))"
    "distinct (map ap_userId (adminProfiles ex_admin_db))"
    "status (fst (deleteAdmin 200 ex_admin_db 1)) = 200"
    by code_simp+
  have mu: "map (\<lambda>r. if u_id r = 1 then r\<lparr>u_deletedAt := None, u_updatedAt := 300\<rparr>
                      else r) (users ex_admin_db)
            = [ex_admin\<lparr>u_updatedAt := 300\<rparr>, ex_customer]"
    by (simp add: ex_admin_db_def empty_db_def ex_admin_def ex_customer_def)
  have ma: "map (\<lambda>r. if ap_userId r = 1 then r\<lparr>ap_deletedAt := None, ap_updatedAt := 300\<rparr>
                      else r) (adminProfiles ex_admin_db)
            = [ex_profile\<lparr>ap_updatedAt := 300\<rparr>]"
    by (simp add: ex_admin_db_def empty_db_def ex_profile_def)
  have "status (fst (restoreAdmin 300 (snd (deleteAdmin 200 ex_admin_db 1)) 1)) = 200 \<and>
        snd (restoreAdmin 300 (snd (deleteAdmin 200 ex_admin_db 1)) 1)
          = ex_admin_db\<lparr>users :=
              map (\<lambda>r. if u_id r = 1 then r\<lparr>u_deletedAt := None, u_updatedAt := 300\<rparr>
                        else r) (users ex_admin_db),
              adminProfiles :=
              map (\<lambda>r. if ap_userId r = 1 then r\<lparr>ap_deletedAt := None, ap_updatedAt := 300\<rparr>
                        else r) (adminProfiles ex_admin_db)\<rparr>"
    using ha
    by (intro HOL.mp [OF conjunct2 [OF conjunct2 [OF delete_restore_frame
         [where st = ex_admin_db and ta = 200 and tb = 300 and rid = 1
            and raa = "fst (deleteAdmin 200 ex_admin_db 1)"
            and sa = "snd (deleteAdmin 200 ex_admin_db 1)"
            and rab = "fst (restoreAdmin 300 (snd (deleteAdmin 200 ex_admin_db 1)) 1)"
            and sb = "snd (restoreAdmin 300 (snd (deleteAdmin 200 ex_admin_db 1)) 1)"]]]]) simp
  then have a: "status (fst (restoreAdmin 300 (snd (deleteAdmin 200 ex_admin_db 1)) 1)) = 200 \<and>
           snd (restoreAdmin 300 (snd (deleteAdmin 200 ex_admin_db 1)) 1)
             = ex_admin_db\<lparr>users := [ex_admin\<lparr>u_updatedAt := 300\<rparr>, ex_customer],
                           adminProfiles := [ex_profile\<lparr>ap_updatedAt := 300\<rparr>]\<rparr>"
    unfolding mu ma .
  from hc(2) c hp(2) p ha(4) a show ?thesis
    by simp
qed

section \<open>Quantity bounds at write time\<close>

text \<open>
  When the body gives the quantity as a JSON number, the hook compares numbers (a loaded
  bound is a string, and a number against a string is compared numerically): on the
  example product, \<open>minQuantity = 5\<close> and \<open>maxQuantity = 10\<close>, quantities 3 and 12 are
  rejected and the store is unchanged, quantity 8 is written.
\<close>

lemma updateProduct_numeric_quantity:
  "updateProduct 200 ex_shop_db 1 (product_body_none\<lparr>pb_quantity := Some (JsNumber 3)\<rparr>)
     = (errorHandler (Error ''Quantity cannot be less than minimum quantity''), ex_shop_db)"
  "updateProduct 200 ex_shop_db 1 (product_body_none\<lparr>pb_quantity := Some (JsNumber 12)\<rparr>)
     = (errorHandler (Error ''Quantity cannot exceed maximum quantity''), ex_shop_db)"
  "(case updateProduct 200 ex_shop_db 1 (product_body_none\<lparr>pb_quantity := Some (JsNumber 8)\<rparr>) of
      (r, st') \<Rightarrow> status r = 200 \<and> map p_quantity (products st') = [8])"
  by code_simp+

text \<open>
  Claim C3: for every product write (create or update), the persisted quantity is at
  least \<open>minQuantity\<close> and at most \<open>maxQuantity\<close> where these are set; a write that would
  violate the bounds is rejected and the store is unchanged, while quantity 7 with bounds
  5 and 10 is accepted. The \<open>beforeSave\<close> hook compares with \<open><\<close> and \<open>>\<close> the values
  the instance holds, and two strings are compared as strings:
  \<^item> the example product is within its bounds (7 in 5..10), yet an update of its name
    alone is answered with 500 \<open>Quantity cannot exceed maximum quantity\<close>, because the
    loaded \<open>"7.000"\<close> is above \<open>"10.000"\<close> as a string; so is an update to the quantity
    \<open>"7"\<close> sent as a string;
  \<^item> a create with quantity \<open>"9"\<close> and minQuantity \<open>"10"\<close>, sent as strings, is answered
    with 201 and stores a row with quantity 9 below its minimum 10, because \<open>"9" < "10"\<close>
    is false.
\<close>

theorem quantity_bounds_compared_as_strings:
  "quantity_in_bounds ex_product \<and>
   updateProduct 200 ex_shop_db 1 (product_body_none\<lparr>pb_name := Some ''Red Apples''\<rparr>)
     = (errorHandler (Error ''Quantity cannot exceed maximum quantity''), ex_shop_db) \<and>
   updateProduct 200 ex_shop_db 1 (product_body_none\<lparr>pb_quantity := Some (JsString ''7'')\<rparr>)
     = (errorHandler (Error ''Quantity cannot exceed maximum quantity''), ex_shop_db) \<and>
   (case createProduct 200 ex_shop_db
           (ex_product_body\<lparr>pb_quantity := Some (JsString ''9''),
                             pb_minQuantity := Some (JsString ''10''),
                             pb_maxQuantity := None\<rparr>) of
      (r, st') \<Rightarrow>
        status r = 201 \<and>
        map (\<lambda>p. (p_quantity p, p_minQuantity p, p_maxQuantity p)) (products st')
          = [(7, Some 5, Some 10), (9, Some 10, None)] \<and>
        \<not> quantity_in_bounds (last (products st')))"
  by code_simp

section \<open>The scope of the admin email checks\<close>

lemma findOne_of_None_iff: "(findOne_of xs = None) = (xs = [])"
  by (cases xs) (simp_all add: findOne_of_def)

lemma User_findOne_eq:
  assumes "uw_city w = None"
  shows "User_findOne st w par ipar =
         Inr (findOne_of
                (filter (\<lambda>r. User_matches w (fst r) (snd r) \<and> not_deleted par (u_deletedAt (fst r)))
                   (map (\<lambda>u. (u, include_adminProfile st ipar u)) (users st))))"
  by (simp add: User_findOne_def User_findAll_def assms)

lemma User_findOne_None_iff:
  assumes "uw_city w = None"
  shows "(User_findOne st w par ipar = Inr None) =
         (\<forall>u \<in> set (users st). \<not> (User_matches w u (include_adminProfile st ipar u)
                                      \<and> not_deleted par (u_deletedAt u)))"
  by (simp add: User_findOne_eq [OF assms] findOne_of_None_iff filter_empty_conv)

lemma User_findOne_total:
  assumes "uw_city w = None"
  shows "User_findOne st w par ipar = Inr None \<or> (\<exists>r. User_findOne st w par ipar = Inr (Some r))"
  unfolding User_findOne_eq [OF assms] by (cases "findOne_of
                (filter (\<lambda>r. User_matches w (fst r) (snd r) \<and> not_deleted par (u_deletedAt (fst r)))
                   (map (\<lambda>u. (u, include_adminProfile st ipar u)) (users st)))") simp_all

lemma admin_email_matches:
  "User_matches (user_where_all\<lparr>uw_email := Some e, uw_accountType := Some ''admin'',
                                 uw_not_id := Some pid\<rparr>) u prof
   = (u_email u = e \<and> u_accountType u = ''admin'' \<and> u_id u \<noteq> pid)"
  by (simp add: User_matches_def user_where_all_def opt_eq_def opt_neq_def)

lemma any_email_matches:
  "User_matches (user_where_all\<lparr>uw_email := Some e\<rparr>) u prof = (u_email u = e)"
  by (simp add: User_matches_def user_where_all_def opt_eq_def opt_neq_def)

text \<open>The finder call of the validator and of \<open>updateAdmin\<close>: non-deleted admins only.\<close>

lemma admin_email_lookup:
  "(User_findOne st (user_where_all\<lparr>uw_email := Some e, uw_accountType := Some ''admin'',
                                     uw_not_id := Some pid\<rparr>) True True = Inr None) =
   (\<not> (\<exists>u \<in> set (users st). u_email u = e \<and> u_accountType u = ''admin'' \<and> u_id u \<noteq> pid
                             \<and> u_deletedAt u = None))"
proof -
  have c: "uw_city (user_where_all\<lparr>uw_email := Some e, uw_accountType := Some ''admin'',
                                   uw_not_id := Some pid\<rparr>) = None"
    by (simp add: user_where_all_def)
  show ?thesis
    unfolding User_findOne_None_iff [OF c] admin_email_matches not_deleted_def
    by (simp add: conj_assoc)
qed

text \<open>The finder call of \<open>createAdmin\<close>: every non-deleted user.\<close>

lemma any_email_lookup:
  "(User_findOne st (user_where_all\<lparr>uw_email := Some e\<rparr>) True True = Inr None) =
   (\<not> (\<exists>u \<in> set (users st). u_email u = e \<and> u_deletedAt u = None))"
proof -
  have c: "uw_city (user_where_all\<lparr>uw_email := Some e\<rparr>) = None"
    by (simp add: user_where_all_def)
  show ?thesis
    unfolding User_findOne_None_iff [OF c] any_email_matches not_deleted_def
    by simp
qed

lemma errorHandler_not_email_conflict [simp]:
  "errorHandler e \<noteq> json_response 400 False ''Email already exists for another admin'' None"
  by (cases e) (simp_all add: errorHandler_def json_response_def)

lemma json_response_eq [simp]:
  "(json_response a b c d = json_response a' b' c' d') = (a = a' \<and> b = b' \<and> c = c' \<and> d = d')"
  by (auto simp: json_response_def)

text \<open>
  Claim C8: the email uniqueness check of admin create and admin update considers only
  users with \<open>accountType = "admin"\<close>, so that creating an admin with an email used only by
  a customer account does not fail it. \<open>createAdmin\<close> looks the email up with
  \<open>where: { email }\<close> alone: in the example store, whose only user with the address
  \<open>bob@mail.example\<close> is a customer, creating an admin with that address is answered with
  400 \<open>Email already exists\<close>, and nothing is stored.
\<close>

theorem createAdmin_customer_email_rejected:
  "filter (\<lambda>u. u_email u = ''bob@mail.example'') (users ex_admin_db) = [ex_customer] \<and>
   u_accountType ex_customer = ''customer'' \<and>
   createAdmin ex_env 200 ex_admin_db (ex_admin_body\<lparr>ab_email := Some ''bob@mail.example''\<rparr>)
     = (json_response 400 False ''Email already exists'' None, ex_admin_db)"
  by code_simp

text \<open>
  What the code does instead: the check of the request validator \<open>validateEmail\<close> and the
  check inside \<open>updateAdmin\<close> consider the non-deleted users with \<open>accountType = "admin"\<close>
  other than the request's own id, while the check inside \<open>createAdmin\<close> considers every
  non-deleted user, whatever the account type.
\<close>

theorem admin_email_check_scope:
  "((''Email already exists for an admin'' \<in> set (fst (validateEmail ev st pid (Some v)))) =
      (\<exists>u \<in> set (users st). u_email u = normalizeEmail ev v \<and> u_accountType u = ''admin'' \<and>
                             u_id u \<noteq> pid \<and> u_deletedAt u = None)) \<and>
   (fst (updateAdmin ev now st rid body)
      = json_response 400 False ''Email already exists for another admin'' None
    \<longrightarrow> (\<exists>u \<in> set (users st). Some (u_email u) = ab_email body \<and> u_accountType u = ''admin'' \<and>
                               u_id u \<noteq> rid \<and> u_deletedAt u = None)) \<and>
   (ab_email body = Some email \<and>
    (\<exists>u \<in> set (users st). u_email u = email \<and> u_deletedAt u = None)
    \<longrightarrow> createAdmin ev now st body = (json_response 400 False ''Email already exists'' None, st))"
proof (intro conjI impI)
  let ?w = "user_where_all\<lparr>uw_email := Some (normalizeEmail ev v),
                            uw_accountType := Some ''admin'', uw_not_id := Some pid\<rparr>"
  have c: "uw_city ?w = None"
    by (simp add: user_where_all_def)
  from User_findOne_total [OF c, of st True True]
  show "(''Email already exists for an admin'' \<in> set (fst (validateEmail ev st pid (Some v)))) =
      (\<exists>u \<in> set (users st). u_email u = normalizeEmail ev v \<and> u_accountType u = ''admin'' \<and>
                             u_id u \<noteq> pid \<and> u_deletedAt u = None)"
  proof
    assume n: "User_findOne st ?w True True = Inr None"
    then have "\<not> (\<exists>u \<in> set (users st). u_email u = normalizeEmail ev v \<and>
                    u_accountType u = ''admin'' \<and> u_id u \<noteq> pid \<and> u_deletedAt u = None)"
      unfolding admin_email_lookup .
    moreover have "''Email already exists for an admin''
                     \<notin> set (fst (validateEmail ev st pid (Some v)))"
      by (simp add: validateEmail_def Let_def n)
    ultimately show ?thesis by simp
  next
    assume "\<exists>r. User_findOne st ?w True True = Inr (Some r)"
    then obtain r where s: "User_findOne st ?w True True = Inr (Some r)" ..
    then have "User_findOne st ?w True True \<noteq> Inr None" by simp
    then have "\<exists>u \<in> set (users st). u_email u = normalizeEmail ev v \<and>
                 u_accountType u = ''admin'' \<and> u_id u \<noteq> pid \<and> u_deletedAt u = None"
      unfolding admin_email_lookup not_not .
    moreover have "''Email already exists for an admin''
                     \<in> set (fst (validateEmail ev st pid (Some v)))"
      by (simp add: validateEmail_def Let_def s)
    ultimately show ?thesis by simp
  qed
next
  assume a: "fst (updateAdmin ev now st rid body)
      = json_response 400 False ''Email already exists for another admin'' None"
  show "\<exists>u \<in> set (users st). Some (u_email u) = ab_email body \<and> u_accountType u = ''admin'' \<and>
                               u_id u \<noteq> rid \<and> u_deletedAt u = None"
  proof (rule ccontr)
    assume n: "\<not> (\<exists>u \<in> set (users st). Some (u_email u) = ab_email body \<and>
                     u_accountType u = ''admin'' \<and> u_id u \<noteq> rid \<and> u_deletedAt u = None)"
    have l: "(if truthy (ab_email body) \<and> ab_email body \<noteq> Some (u_email (fst admin))
              then User_findOne st
                     (user_where_all\<lparr>uw_email := ab_email body,
                                     uw_accountType := Some ''admin'',
                                     uw_not_id := Some rid\<rparr>) True True
              else Inr None) = Inr None" for admin :: "user \<times> adminProfile option"
    proof (cases "ab_email body")
      case None
      then show ?thesis by (simp add: truthy_def)
    next
      case (Some e)
      with n have "\<not> (\<exists>u \<in> set (users st). u_email u = e \<and> u_accountType u = ''admin'' \<and>
                        u_id u \<noteq> rid \<and> u_deletedAt u = None)"
        by auto
      then have "User_findOne st (user_where_all\<lparr>uw_email := Some e,
                    uw_accountType := Some ''admin'', uw_not_id := Some rid\<rparr>) True True = Inr None"
        unfolding admin_email_lookup .
      with Some show ?thesis by simp
    qed
    have "fst (updateAdmin ev now st rid body)
            \<noteq> json_response 400 False ''Email already exists for another admin'' None"
      unfolding updateAdmin_def l
      by (simp split: sum.splits option.splits)
    with a show False by simp
  qed
next
  assume a: "ab_email body = Some email \<and>
    (\<exists>u \<in> set (users st). u_email u = email \<and> u_deletedAt u = None)"
  then have e: "ab_email body = Some email" by simp
  from a have "\<exists>u \<in> set (users st). u_email u = email \<and> u_deletedAt u = None"
    by simp
  then have "User_findOne st (user_where_all\<lparr>uw_email := Some email\<rparr>) True True \<noteq> Inr None"
    unfolding any_email_lookup not_not .
  moreover have "uw_city (user_where_all\<lparr>uw_email := Some email\<rparr>) = None"
    by (simp add: user_where_all_def)
  ultimately obtain r where
    "User_findOne st (user_where_all\<lparr>uw_email := Some email\<rparr>) True True = Inr (Some r)"
    using User_findOne_total [of "user_where_all\<lparr>uw_email := Some email\<rparr>" st True True]
    by blast
  then show "createAdmin ev now st body = (json_response 400 False ''Email already exists'' None, st)"
    by (simp add: createAdmin_def e)
qed

theorem admin_email_check_scope_witness:
  "''Email already exists for an admin''
     \<notin> set (fst (validateEmail ex_env ex_admin_db 0 (Some ''bob@mail.example''))) \<and>
   ''Email already exists for an admin''
     \<in> set (fst (validateEmail ex_env ex_admin_db 0 (Some ''ann@shop.example''))) \<and>
   fst (updateAdmin ex_env 200 ex_admin_db 1 (admin_body_none\<lparr>ab_email := Some ''bob@mail.example''\<rparr>))
     \<noteq> json_response 400 False ''Email already exists for another admin'' None \<and>
   createAdmin ex_env 200 ex_admin_db (ex_admin_body\<lparr>ab_email := Some ''bob@mail.example''\<rparr>)
     = (json_response 400 False ''Email already exists'' None, ex_admin_db)"
proof -
  let ?b = "ex_admin_body\<lparr>ab_email := Some ''bob@mail.example''\<rparr>"
  let ?ub = "admin_body_none\<lparr>ab_email := Some ''bob@mail.example''\<rparr>"
  have n: "normalizeEmail ex_env ''bob@mail.example'' = ''bob@mail.example''"
    "normalizeEmail ex_env ''ann@shop.example'' = ''ann@shop.example''"
    by code_simp+
  have us: "users ex_admin_db = [ex_admin, ex_customer]"
    by (simp add: ex_admin_db_def empty_db_def)
  have f: "u_email ex_admin = ''ann@shop.example''" "u_accountType ex_admin = ''admin''"
    "u_id ex_admin = 1" "u_deletedAt ex_admin = None"
    "u_email ex_customer = ''bob@mail.example''" "u_accountType ex_customer = ''customer''"
    "u_id ex_customer = 2" "u_deletedAt ex_customer = None"
    by (simp_all add: ex_admin_def ex_customer_def)
  note V = admin_email_check_scope [where ev = ex_env and st = ex_admin_db and pid = 0]
  have a: "''Email already exists for an admin''
             \<notin> set (fst (validateEmail ex_env ex_admin_db 0 (Some ''bob@mail.example'')))"
    unfolding conjunct1 [OF V [where v = "''bob@mail.example''"]] by (simp add: n us f)
  have b: "''Email already exists for an admin''
             \<in> set (fst (validateEmail ex_env ex_admin_db 0 (Some ''ann@shop.example'')))"
    unfolding conjunct1 [OF V [where v = "''ann@shop.example''"]] by (simp add: n us f)
  have e: "ab_email ?b = Some ''bob@mail.example''"
    by (simp add: ex_admin_body_def)
  have c: "createAdmin ex_env 200 ex_admin_db ?b
             = (json_response 400 False ''Email already exists'' None, ex_admin_db)"
    by (rule mp [OF conjunct2 [OF conjunct2
          [OF admin_email_check_scope [where ev = ex_env and st = ex_admin_db and now = 200
                                         and body = ?b and email = "''bob@mail.example''"]]]])
       (simp add: e us f)
  have d: "fst (updateAdmin ex_env 200 ex_admin_db 1 ?ub)
             \<noteq> json_response 400 False ''Email already exists for another admin'' None"
  proof
    assume "fst (updateAdmin ex_env 200 ex_admin_db 1 ?ub)
              = json_response 400 False ''Email already exists for another admin'' None"
    then have "\<exists>u \<in> set (users ex_admin_db). Some (u_email u) = ab_email ?ub \<and>
                  u_accountType u = ''admin'' \<and> u_id u \<noteq> 1 \<and> u_deletedAt u = None"
      by (rule mp [OF conjunct1 [OF conjunct2
            [OF admin_email_check_scope [where ev = ex_env and st = ex_admin_db and rid = 1
                                           and now = 200 and body = ?ub]]], rotated])
    then show False
      by (simp add: us f)
  qed
  from a b d c show ?thesis
    by (intro conjI)
qed

section \<open>What an admin update writes\<close>






section \<open>The password in responses\<close>

lemma has_key_json_opt:
  "has_key k (json_opt f v) = (case v of None \<Rightarrow> False | Some x \<Rightarrow> has_key k (f x))"
  by (cases v) (simp_all add: json_opt_def)

lemma has_key_json_date [simp]: "\<not> has_key k (json_date t)"
  by (simp add: json_date_def)

lemma has_key_json_message [simp]: "\<not> has_key k (json_message m)"
  by (cases m) (simp_all add: json_message_def list_ex_iff)

lemma AdminProfile_toJSON_no_password [simp]:
  "\<not> has_key ''password'' (AdminProfile_toJSON p)"
  by (simp add: AdminProfile_toJSON_def has_key_json_opt split: option.splits)

lemma no_key_filter:
  assumes "\<And>kv. kv \<in> set xs \<Longrightarrow> \<not> has_key k (snd kv)"
  shows "\<not> has_key k (JObj (filter (\<lambda>kv. fst kv \<noteq> k) xs))"
  using assms by (induction xs) simp_all

lemma User_get_plain_values:
  assumes "kv \<in> set (User_get_plain excluded u inc)"
  shows "\<not> has_key ''password'' (snd kv)"
proof -
  let ?attrs = "[(''id'', JNum (int (u_id u))), (''email'', JStr (u_email u)),
        (''password'', JStr (u_password u)), (''accountType'', JStr (u_accountType u)),
        (''authProvider'', JStr (u_authProvider u)), (''isActive'', JBool (u_isActive u)),
        (''lastPasswordChange'', json_opt json_date (u_lastPasswordChange u)),
        (''createdAt'', json_date (u_createdAt u)), (''updatedAt'', json_date (u_updatedAt u)),
        (''deletedAt'', json_opt json_date (u_deletedAt u))]"
  let ?inc = "case inc of
                None \<Rightarrow> []
              | Some prof \<Rightarrow> [(''adminProfile'', json_opt AdminProfile_toJSON prof)]"
  have a: "list_all (\<lambda>kv. \<not> has_key ''password'' (snd kv)) ?attrs"
    by (simp add: has_key_json_opt split: option.splits)
  have b: "list_all (\<lambda>kv. \<not> has_key ''password'' (snd kv)) ?inc"
    by (cases inc) (simp_all add: has_key_json_opt split: option.splits)
  from assms have "kv \<in> set ?attrs \<or> kv \<in> set ?inc"
    unfolding User_get_plain_def set_append set_filter by blast
  then show ?thesis
  proof
    assume "kv \<in> set ?attrs"
    with a show ?thesis unfolding list_all_iff by (rule bspec)
  next
    assume "kv \<in> set ?inc"
    with b show ?thesis unfolding list_all_iff by (rule bspec)
  qed
qed

text \<open>\<open>toJSON\<close> deletes the key, whatever the finder loaded.\<close>

lemma User_toJSON_no_password [simp]:
  "\<not> has_key ''password'' (User_toJSON excluded u inc)"
  unfolding User_toJSON_def by (rule no_key_filter) (rule User_get_plain_values)

lemma has_key_member:
  "list_ex (\<lambda>kv. fst kv = k \<or> has_key k (snd kv)) (member k' v) =
   (case v of None \<Rightarrow> False | Some x \<Rightarrow> k' = k \<or> has_key k x)"
  by (cases v) (simp_all add: member_def)

lemma response_body_no_password:
  assumes "case data r of None \<Rightarrow> True | Some d \<Rightarrow> \<not> has_key ''password'' d"
  shows "\<not> has_key ''password'' (response_body r)"
  using assms
  by (cases "message r"; cases "data r") (simp_all add: response_body_def has_key_member)

lemma createAdmin_data_no_password:
  "case data (fst (createAdmin ev now st body)) of
     None \<Rightarrow> True
   | Some d \<Rightarrow> \<not> has_key ''password'' d"
  by (simp add: createAdmin_def case_prod_beta split: option.splits sum.splits)

lemma getAdminById_data_no_password:
  "case data (getAdminById st rid) of None \<Rightarrow> True | Some d \<Rightarrow> \<not> has_key ''password'' d"
  by (simp add: getAdminById_def split: option.splits sum.splits)

lemma updateAdmin_data_no_password:
  "case data (fst (updateAdmin ev now st rid body)) of
     None \<Rightarrow> True
   | Some d \<Rightarrow> \<not> has_key ''password'' d"
  by (simp add: updateAdmin_def has_key_json_opt split: option.splits sum.splits)

lemma getAllAdmins_no_password:
  "\<not> has_key ''password'' (list_response_body (getAllAdmins route st q))"
proof (cases "User_findAndCountAll st (admin_list_where q) (default_to 10 (aq_limit q))
                ((default_to 1 (aq_page q) - 1) * default_to 10 (aq_limit q))
                (default_to ''createdAt'' (aq_sortBy q))
                (toUpperCase (default_to ''DESC'' (aq_sortOrder q)))
                (aq_includeDeleted q \<noteq> Some ''true'')")
  case (Inl e)
  then have "getAllAdmins route st q
               = response.extend (errorHandler e) \<lparr>pagination = None, filters = None\<rparr>"
    by (simp add: getAllAdmins_def Let_def)
  then show ?thesis
    by (cases e)
       (simp_all add: list_response_body_def has_key_member errorHandler_def response.defs
                      member_def)
next
  case (Inr res)
  obtain count admins where res: "res = (count, admins)" by (cases res)
  have f: "\<not> list_ex (\<lambda>kv. fst kv = ''password'' \<or> has_key ''password'' (snd kv))
              (member ''search'' (map_option JStr (aq_search q)) @
               member ''isActive'' (map_option JStr (aq_isActive q)) @
               member ''city'' (map_option JStr (aq_city q)) @
               member ''includeDeleted'' (map_option JStr (aq_includeDeleted q)))"
    by (simp add: has_key_member split: option.splits)
  have d: "\<not> list_ex (has_key ''password'')
              (map (\<lambda>r. User_toJSON User_scope_exclude (fst r) (Some (snd r))) admins)"
    by (simp add: list_ex_iff)
  from Inr res show ?thesis
    using f d
    by (simp add: getAllAdmins_def Let_def list_response_body_def member_def has_key_json_opt
             split: option.splits js_number.splits)
qed

text \<open>
  Claim C9: for every operation that returns admin data (create, get by id, list,
  update), the serialized response never contains the key \<open>password\<close>, at any depth,
  whatever the store holds.
\<close>

theorem password_never_serialized:
  "\<not> has_key ''password'' (response_body (fst (createAdmin ev now st body))) \<and>
   \<not> has_key ''password'' (response_body (getAdminById st rid)) \<and>
   \<not> has_key ''password'' (list_response_body (getAllAdmins route st q)) \<and>
   \<not> has_key ''password'' (response_body (fst (updateAdmin ev now st rid body)))"
  by (intro conjI response_body_no_password createAdmin_data_no_password
        getAdminById_data_no_password updateAdmin_data_no_password getAllAdmins_no_password)

theorem password_never_serialized_witness:
  "u_password ex_admin = ''$2a$12$terces'' \<and>
   has_key ''email'' (response_body (getAdminById ex_admin_db 1)) \<and>
   has_key ''email'' (response_body (fst (createAdmin ex_env 200 ex_admin_db ex_admin_body))) \<and>
   \<not> has_key ''password'' (response_body (fst (createAdmin ex_env 200 ex_admin_db ex_admin_body))) \<and>
   \<not> has_key ''password'' (response_body (getAdminById ex_admin_db 1)) \<and>
   \<not> has_key ''password'' (list_response_body (getAllAdmins ''/api/admins'' ex_admin_db
                                                   admin_query_none)) \<and>
   \<not> has_key ''password'' (response_body (fst (updateAdmin ex_env 200 ex_admin_db 1
                                                   ex_admin_body)))"
proof -
  have a: "u_password ex_admin = ''$2a$12$terces''"
    "has_key ''email'' (response_body (getAdminById ex_admin_db 1))"
    "has_key ''email'' (response_body (fst (createAdmin ex_env 200 ex_admin_db ex_admin_body)))"
    by code_simp+
  from a password_never_serialized
         [where ev = ex_env and now = 200 and st = ex_admin_db and body = ex_admin_body
            and rid = 1 and route = "''/api/admins''" and q = admin_query_none]
  show ?thesis
    by blast
qed

section \<open>Category names\<close>

text \<open>
  The name chain of the validators looks for another category with the name through
  \<open>Category.findOne\<close>, that is under the default scope: it reports
  \<open>Category name already exists\<close> exactly when an active category that is not deleted and
  is not the one of the request has the trimmed name.
\<close>

lemma findOne_of_Some_iff: "(\<exists>x. findOne_of xs = Some x) = (xs \<noteq> [])"
  by (cases xs) (simp_all add: findOne_of_def)

lemma Category_name_lookup:
  "(\<exists>c. Category_findOne st (category_where_all\<lparr>cw_name := Some n, cw_not_id := Some pid\<rparr>) True
          = Some c) =
   (\<exists>c \<in> set (categories st). cat_name c = n \<and> cat_id c \<noteq> pid \<and> cat_isActive c \<and>
                                 cat_deletedAt c = None)"
proof -
  have m: "Category_matches
             (Category_injectScope (category_where_all\<lparr>cw_name := Some n, cw_not_id := Some pid\<rparr>)) c
           = (cat_name c = n \<and> cat_isActive c \<and> cat_id c \<noteq> pid)" for c
    by (simp add: Category_injectScope_def category_where_all_def Category_matches_def
                  opt_eq_def opt_neq_def)
  show ?thesis
    unfolding Category_findOne_def findOne_of_Some_iff Category_findAll_def m not_deleted_def
    by (auto simp: filter_empty_conv)
qed

lemma validate_name_conflict:
  "(''Category name already exists'' \<in> set (fst (validate_name st pid (Some v)))) =
   (\<exists>c \<in> set (categories st). cat_name c = trim v \<and> cat_id c \<noteq> pid \<and> cat_isActive c \<and>
                                 cat_deletedAt c = None)"
proof (cases "Category_findOne st
                (category_where_all\<lparr>cw_name := Some (trim v), cw_not_id := Some pid\<rparr>) True")
  case None
  then have "\<not> (\<exists>c. Category_findOne st
                (category_where_all\<lparr>cw_name := Some (trim v), cw_not_id := Some pid\<rparr>) True
                  = Some c)"
    by simp
  then have "\<not> (\<exists>c \<in> set (categories st). cat_name c = trim v \<and> cat_id c \<noteq> pid \<and>
                    cat_isActive c \<and> cat_deletedAt c = None)"
    unfolding Category_name_lookup .
  moreover have "''Category name already exists'' \<notin> set (fst (validate_name st pid (Some v)))"
    by (simp add: validate_name_def Let_def None)
  ultimately show ?thesis by simp
next
  case (Some c)
  then have "\<exists>c. Category_findOne st
                (category_where_all\<lparr>cw_name := Some (trim v), cw_not_id := Some pid\<rparr>) True
                  = Some c"
    by simp
  then have "\<exists>c \<in> set (categories st). cat_name c = trim v \<and> cat_id c \<noteq> pid \<and>
                    cat_isActive c \<and> cat_deletedAt c = None"
    unfolding Category_name_lookup .
  moreover have "''Category name already exists'' \<in> set (fst (validate_name st pid (Some v)))"
    by (simp add: validate_name_def Let_def Some)
  ultimately show ?thesis by simp
qed

text \<open>
  An update of a category to its own name: the chain leaves out the row of the request,
  reports nothing, and the update is answered with 200.
\<close>

lemma updateCategory_own_name:
  "categoryValidations ex_shop_db 1 (category_body_none\<lparr>b_name := Some ''Fresh Vegetables''\<rparr>)
     = ([], category_body_none\<lparr>b_name := Some ''Fresh Vegetables''\<rparr>)"
  "status (fst (updateCategory 200 ex_shop_db 1
                  (category_body_none\<lparr>b_name := Some ''Fresh Vegetables''\<rparr>))) = 200"
  by code_simp+

text \<open>
  The route as the router wires it. A create that repeats the name of the active example
  category under another slug: the name chain reports the conflict, but
  \<open>handleValidationErrors\<close> has already run, and the category is created. Without a slug
  in the body the derived slug collides, and the unique index on \<open>slug\<close> rejects the row.
\<close>

lemma route_createCategory_duplicate_name:
  "fst (categoryValidations ex_shop_db 0
          (category_body_none\<lparr>b_name := Some ''Fresh Vegetables'', b_slug := Some ''veg-2''\<rparr>))
     = [''Category name already exists'']"
  "(case route_createCategory 200 ex_shop_db
           (category_body_none\<lparr>b_name := Some ''Fresh Vegetables'', b_slug := Some ''veg-2''\<rparr>) of
      (r, st') \<Rightarrow>
        status r = 201 \<and>
        map (\<lambda>c. (cat_id c, cat_name c, cat_slug c)) (categories st')
          = [(1, ''Fresh Vegetables'', ''fresh-vegetables''), (2, ''Fresh Vegetables'', ''veg-2'')])"
  "route_createCategory 200 ex_shop_db (category_body_none\<lparr>b_name := Some ''Fresh Vegetables''\<rparr>)
     = (errorHandler (SequelizeUniqueConstraintError [''This slug is already in use'']), ex_shop_db)"
  by code_simp+

text \<open>
  Claim C4: creating a category whose name equals the name of an existing category fails
  with a 400-class Conflict outcome, while updating a category to its own current name
  succeeds. The store below holds the category \<open>Cakes\<close>, which is inactive and not
  deleted. A create with the name \<open>Cakes\<close> and the slug \<open>cakes-2\<close> passes every validator
  (the name check does not see an inactive category), and the controller answers 201:
  the store then holds two categories named \<open>Cakes\<close>, neither of them deleted.
\<close>

theorem duplicate_category_name_created:
  "map (\<lambda>c. (cat_id c, cat_name c, cat_isActive c, cat_deletedAt c)) (categories ex_inactive_db)
     = [(1, ''Fresh Vegetables'', True, None), (2, ''Cakes'', False, None)] \<and>
   categoryValidations ex_inactive_db 0
       (category_body_none\<lparr>b_name := Some ''Cakes'', b_slug := Some ''cakes-2''\<rparr>)
     = ([], category_body_none\<lparr>b_name := Some ''Cakes'', b_slug := Some ''cakes-2''\<rparr>) \<and>
   (case createCategory 200 ex_inactive_db
           (category_body_none\<lparr>b_name := Some ''Cakes'', b_slug := Some ''cakes-2''\<rparr>) of
      (r, st') \<Rightarrow>
        status r = 201 \<and> success r \<and>
        map (\<lambda>c. (cat_id c, cat_name c, cat_isActive c, cat_deletedAt c)) (categories st')
          = [(1, ''Fresh Vegetables'', True, None), (2, ''Cakes'', False, None),
             (3, ''Cakes'', True, None)])"
  by code_simp

end
